theory Spec2Isabelle
  imports Main "HOL-Library.Word"
begin

unbundle bit_operations_syntax

section \<open>Persistent storage of the mesh stack (settings.c), binary format\<close>

text \<open>
  The development follows \<^verbatim>\<open>src/bt/blehost/nimble/host/mesh/src/settings.c\<close> with
  \<^verbatim>\<open>BASE64_ENCODE_VALUE\<close> set to 0, as the file defines it: the \<^verbatim>\<open>_bin\<close> handlers
  and the binary branches of the store functions are the compiled code.

  The global \<^verbatim>\<open>bt_mesh\<close>, the statics of the file and the effects on the outside
  (the key-value store, the work queue, calls into other modules) are one state record
  that every function takes and returns; effects are appended to a log. Fields of
  the C structures keep their names behind a short prefix for the structure, since
  several structures share field names.
\<close>

subsection \<open>Machine types and constants of the headers\<close>

type_synonym u8 = "8 word"
type_synonym u16 = "16 word"
type_synonym u32 = "32 word"

text \<open>The errno values of the C library, as the handlers return them negated.\<close>

definition ENOENT :: int where "ENOENT = 2"
definition EIO :: int where "EIO = 5"
definition ENOMEM :: int where "ENOMEM = 12"
definition EINVAL :: int where "EINVAL = 22"
definition ENOBUFS :: int where "ENOBUFS = 105"

text \<open>
  Constants of the mesh headers (mesh.h, net.h, foundation.h), which are not part of
  the file: the unassigned address is 0, an unused key index is \<^verbatim>\<open>0xffff\<close>, the normal
  key refresh phase is 0.
\<close>

definition BT_MESH_ADDR_UNASSIGNED :: u16 where "BT_MESH_ADDR_UNASSIGNED = 0"
definition BT_MESH_KEY_UNUSED :: u16 where "BT_MESH_KEY_UNUSED = 0xffff"
definition BT_MESH_KR_NORMAL :: u8 where "BT_MESH_KR_NORMAL = 0"
definition BT_MESH_NODE_IDENTITY_STOPPED :: u8 where "BT_MESH_NODE_IDENTITY_STOPPED = 0"
definition BT_MESH_NODE_IDENTITY_NOT_SUPPORTED :: u8 where "BT_MESH_NODE_IDENTITY_NOT_SUPPORTED = 2"
definition BT_MESH_IVU_MIN_HOURS :: u8 where "BT_MESH_IVU_MIN_HOURS = 96"
definition BT_MESH_IVU_TIMEOUT :: int where "BT_MESH_IVU_TIMEOUT = 96 * 60 * 60 * 1000"

definition MSEC_PER_SEC :: int where "MSEC_PER_SEC = 1000"

text \<open>\<^verbatim>\<open>K_SECONDS(s)\<close> of the kernel glue: seconds to milliseconds.\<close>

definition K_SECONDS :: "int \<Rightarrow> int" where
  "K_SECONDS s = s * MSEC_PER_SEC"

definition CONFIG_MESH_STORE_WORKAROUND_FLASH_FLUSH_TIMEOUT :: int where
  "CONFIG_MESH_STORE_WORKAROUND_FLASH_FLUSH_TIMEOUT = 500"

text \<open>
  The atomic flags of \<^verbatim>\<open>bt_mesh.flags\<close>. The enumeration lives in net.h; the flags
  below are the ones settings.c names. A flag word is modelled as the set of the
  flags whose bit is set, so \<^verbatim>\<open>atomic_get(flags) & MASK\<close> is non-zero exactly when the
  set meets the mask.
\<close>

datatype mesh_flag =
    BT_MESH_VALID
  | BT_MESH_IVU_IN_PROGRESS
  | BT_MESH_NODE
  | BT_MESH_PROVISIONER
  | BT_MESH_RPL_PENDING
  | BT_MESH_KEYS_PENDING
  | BT_MESH_NET_PENDING
  | BT_MESH_IV_PENDING
  | BT_MESH_SEQ_PENDING
  | BT_MESH_HB_PUB_PENDING
  | BT_MESH_CFG_PENDING
  | BT_MESH_MOD_PENDING
  | BT_MESH_VA_PENDING
  | BT_MESH_ROLE_PENDING
  | BT_MESH_NODES_PENDING

text \<open>The flags of a model (\<^verbatim>\<open>mod->flags\<close>), again as the set of the bits that are set.\<close>

datatype mod_flag =
    BT_MESH_MOD_BIND_PENDING
  | BT_MESH_MOD_SUB_PENDING
  | BT_MESH_MOD_PUB_PENDING
  | BT_MESH_MOD_DATA_PRESENT

subsection \<open>Loops over arrays\<close>

text \<open>
  \<^verbatim>\<open>for (i = 0; i < ARRAY_SIZE(a); i++) if (P(a[i])) return &a[i]; return NULL;\<close>
  A pointer into an array is the index of the element.
\<close>

primrec find_first :: "('a \<Rightarrow> bool) \<Rightarrow> 'a list \<Rightarrow> nat option" where
  "find_first P [] = None"
| "find_first P (x # xs) = (if P x then Some 0 else map_option Suc (find_first P xs))"

subsection \<open>Keys of the store: formatting and parsing\<close>

text \<open>
  \<^verbatim>\<open>snprintk(path, sizeof(path), "...%x", idx)\<close> with a 16-bit argument: lower-case
  hexadecimal without leading zeros. The longest path (\<^verbatim>\<open>NetKey/ffff\<close>,
  \<^verbatim>\<open>s/ffff/bind\<close>) is shorter than the smallest buffer (18 bytes), so nothing is cut.
\<close>

definition hex_digit :: "nat \<Rightarrow> char" where
  "hex_digit d = ''0123456789abcdef'' ! d"

definition snprintk_x :: "u16 \<Rightarrow> string" where
  "snprintk_x x =
     (case dropWhile (\<lambda>d. d = 0)
             [unat (drop_bit 12 x), unat (take_bit 4 (drop_bit 8 x)),
              unat (take_bit 4 (drop_bit 4 x)), unat (take_bit 4 x)] of
        [] \<Rightarrow> ''0''
      | ds \<Rightarrow> map hex_digit ds)"

text \<open>
  \<^verbatim>\<open>strtol(str, NULL, 16)\<close> of the C library, with a 32-bit \<^verbatim>\<open>long\<close>: white space, an
  optional sign, an optional \<^verbatim>\<open>0x\<close>, then the longest run of hexadecimal digits; the
  result is clamped to the range of \<^verbatim>\<open>long\<close>.
\<close>

definition isspace :: "char \<Rightarrow> bool" where
  "isspace c = (c = CHR '' '' \<or> (9 \<le> (of_char c :: nat) \<and> (of_char c :: nat) \<le> 13))"

definition hex_value :: "char \<Rightarrow> nat option" where
  "hex_value c =
     (let n = (of_char c :: nat) in
      if 48 \<le> n \<and> n \<le> 57 then Some (n - 48)
      else if 97 \<le> n \<and> n \<le> 102 then Some (n - 87)
      else if 65 \<le> n \<and> n \<le> 70 then Some (n - 55)
      else None)"

fun strtol_digits :: "int \<Rightarrow> string \<Rightarrow> int" where
  "strtol_digits acc [] = acc"
| "strtol_digits acc (c # cs) =
     (case hex_value c of
        None \<Rightarrow> acc
      | Some d \<Rightarrow> strtol_digits (acc * 16 + int d) cs)"

definition LONG_MAX :: int where "LONG_MAX = 2147483647"
definition LONG_MIN :: int where "LONG_MIN = - 2147483648"

definition strtol16 :: "string \<Rightarrow> int" where
  "strtol16 str =
     (let s1 = dropWhile isspace str;
          neg = (case s1 of c # r \<Rightarrow> c = CHR ''-'' | [] \<Rightarrow> False);
          s2 = (case s1 of c # r \<Rightarrow> if c = CHR ''-'' \<or> c = CHR ''+'' then r else s1 | [] \<Rightarrow> s1);
          s3 = (case s2 of
                  a # b # c # r \<Rightarrow>
                    if a = CHR ''0'' \<and> (b = CHR ''x'' \<or> b = CHR ''X'') \<and> hex_value c \<noteq> None
                    then c # r else s2
                | _ \<Rightarrow> s2);
          v = strtol_digits 0 s3
      in max LONG_MIN (min LONG_MAX (if neg then - v else v)))"

text \<open>\<^verbatim>\<open>strstr(hay, needle) != NULL\<close>.\<close>

fun strstr :: "string \<Rightarrow> string \<Rightarrow> bool" where
  "strstr [] needle = (needle = [])"
| "strstr (c # cs) needle = (take (length needle) (c # cs) = needle \<or> strstr cs needle)"

subsection \<open>Object representation of the stored structures\<close>

text \<open>
  The store functions hand the bytes of a C structure to the store and the handlers
  copy the bytes back into one (\<^verbatim>\<open>memcpy\<close>). The target is little-endian and the
  compiler fills bit-fields from the least significant bit, which is the layout
  the spec writes down for the records. Bits of a bit-field unit that no field
  covers are written as 0.
\<close>

definition le16 :: "u16 \<Rightarrow> u8 list" where
  "le16 x = [ucast x, ucast (drop_bit 8 x)]"

definition le32 :: "u32 \<Rightarrow> u8 list" where
  "le32 x = [ucast x, ucast (drop_bit 8 x), ucast (drop_bit 16 x), ucast (drop_bit 24 x)]"

definition rd16 :: "u8 list \<Rightarrow> nat \<Rightarrow> u16" where
  "rd16 bs i = ucast (bs ! i) OR push_bit 8 (ucast (bs ! (i + 1)))"

definition rd32 :: "u8 list \<Rightarrow> nat \<Rightarrow> u32" where
  "rd32 bs i = ucast (bs ! i) OR push_bit 8 (ucast (bs ! (i + 1)))
               OR push_bit 16 (ucast (bs ! (i + 2))) OR push_bit 24 (ucast (bs ! (i + 3)))"

definition of_bool8 :: "bool \<Rightarrow> u8" where
  "of_bool8 b = (if b then 1 else 0)"

text \<open>\<^verbatim>\<open>struct net_val\<close> (packed): primary address, device key.\<close>

record net_val =
  nv_primary_addr :: u16
  nv_dev_key :: "u8 list"

definition sizeof_net_val :: int where "sizeof_net_val = 18"

definition net_val_bytes :: "net_val \<Rightarrow> u8 list" where
  "net_val_bytes v = le16 (nv_primary_addr v) @ take 16 (nv_dev_key v)"

definition net_val_of_bytes :: "u8 list \<Rightarrow> net_val" where
  "net_val_of_bytes bs = \<lparr>nv_primary_addr = rd16 bs 0, nv_dev_key = take 16 (drop 2 bs)\<rparr>"

text \<open>\<^verbatim>\<open>struct seq_val\<close>: three bytes.\<close>

definition sizeof_seq_val :: int where "sizeof_seq_val = 3"

text \<open>\<^verbatim>\<open>struct iv_val\<close> (packed): IV index, then one byte with the update flag (1 bit)
  and the duration (7 bits).\<close>

record iv_val =
  iv_iv_index :: u32
  iv_iv_update :: bool
  iv_iv_duration :: "7 word"

definition sizeof_iv_val :: int where "sizeof_iv_val = 5"

definition iv_val_bytes :: "iv_val \<Rightarrow> u8 list" where
  "iv_val_bytes v = le32 (iv_iv_index v) @ [of_bool8 (iv_iv_update v) OR push_bit 1 (ucast (iv_iv_duration v))]"

definition iv_val_of_bytes :: "u8 list \<Rightarrow> iv_val" where
  "iv_val_of_bytes bs =
     \<lparr>iv_iv_index = rd32 bs 0, iv_iv_update = bit (bs ! 4) 0, iv_iv_duration = ucast (drop_bit 1 (bs ! 4))\<rparr>"

text \<open>\<^verbatim>\<open>struct rpl_val\<close>: one 32-bit unit with the sequence number (24 bits) and the
  old-IV flag (1 bit). The structure is not packed and its last 7 bits belong to no
  field: \<open>unused\<close> is what they hold when the bytes are taken.\<close>

record rpl_val =
  rv_seq :: "24 word"
  rv_old_iv :: bool

definition sizeof_rpl_val :: int where "sizeof_rpl_val = 4"

definition rpl_val_bytes :: "7 word \<Rightarrow> rpl_val \<Rightarrow> u8 list" where
  "rpl_val_bytes unused v =
     le32 (ucast (rv_seq v) OR push_bit 24 (if rv_old_iv v then 1 else 0) OR push_bit 25 (ucast unused))"

definition rpl_val_of_bytes :: "u8 list \<Rightarrow> rpl_val" where
  "rpl_val_of_bytes bs = \<lparr>rv_seq = ucast (rd32 bs 0), rv_old_iv = bit (rd32 bs 0) 24\<rparr>"

text \<open>\<^verbatim>\<open>struct net_key_val\<close> (packed): one byte with the key refresh flag (1 bit) and
  phase (7 bits), then the two keys.\<close>

record net_key_val =
  nk_kr_flag :: bool
  nk_kr_phase :: "7 word"
  nk_val0 :: "u8 list"
  nk_val1 :: "u8 list"

definition sizeof_net_key_val :: int where "sizeof_net_key_val = 33"

definition net_key_val_bytes :: "net_key_val \<Rightarrow> u8 list" where
  "net_key_val_bytes v =
     [of_bool8 (nk_kr_flag v) OR push_bit 1 (ucast (nk_kr_phase v))] @ take 16 (nk_val0 v) @ take 16 (nk_val1 v)"

definition net_key_val_of_bytes :: "u8 list \<Rightarrow> net_key_val" where
  "net_key_val_of_bytes bs =
     \<lparr>nk_kr_flag = bit (bs ! 0) 0, nk_kr_phase = ucast (drop_bit 1 (bs ! 0)),
      nk_val0 = take 16 (drop 1 bs), nk_val1 = take 16 (drop 17 bs)\<rparr>"

text \<open>\<^verbatim>\<open>struct app_key_val\<close> (packed): NetKey index, the updated flag (a \<^verbatim>\<open>bool\<close>, one
  byte), the two keys.\<close>

record app_key_val =
  ak_net_idx :: u16
  ak_updated :: bool
  ak_val0 :: "u8 list"
  ak_val1 :: "u8 list"

definition sizeof_app_key_val :: int where "sizeof_app_key_val = 35"

definition app_key_val_bytes :: "app_key_val \<Rightarrow> u8 list" where
  "app_key_val_bytes v =
     le16 (ak_net_idx v) @ [of_bool8 (ak_updated v)] @ take 16 (ak_val0 v) @ take 16 (ak_val1 v)"

definition app_key_val_of_bytes :: "u8 list \<Rightarrow> app_key_val" where
  "app_key_val_of_bytes bs =
     \<lparr>ak_net_idx = rd16 bs 0, ak_updated = (bs ! 2 \<noteq> 0),
      ak_val0 = take 16 (drop 3 bs), ak_val1 = take 16 (drop 19 bs)\<rparr>"

text \<open>\<^verbatim>\<open>struct hb_pub_val\<close>: destination, period, ttl, features, then a 16-bit unit
  with the NetKey index (12 bits) and the indefinite flag (1 bit); \<open>unused\<close> is what
  the last 3 bits of the unit hold.\<close>

record hb_pub_val =
  hv_dst :: u16
  hv_period :: u8
  hv_ttl :: u8
  hv_feat :: u16
  hv_net_idx :: "12 word"
  hv_indefinite :: bool

definition sizeof_hb_pub_val :: int where "sizeof_hb_pub_val = 8"

definition hb_pub_val_bytes :: "3 word \<Rightarrow> hb_pub_val \<Rightarrow> u8 list" where
  "hb_pub_val_bytes unused v =
     le16 (hv_dst v) @ [hv_period v, hv_ttl v] @ le16 (hv_feat v)
     @ le16 (ucast (hv_net_idx v) OR push_bit 12 (if hv_indefinite v then 1 else 0)
             OR push_bit 13 (ucast unused))"

definition hb_pub_val_of_bytes :: "u8 list \<Rightarrow> hb_pub_val" where
  "hb_pub_val_of_bytes bs =
     \<lparr>hv_dst = rd16 bs 0, hv_period = bs ! 2, hv_ttl = bs ! 3, hv_feat = rd16 bs 4,
      hv_net_idx = ucast (rd16 bs 6), hv_indefinite = bit (rd16 bs 6) 12\<rparr>"

definition hb_pub_val_zero :: hb_pub_val where
  "hb_pub_val_zero =
     \<lparr>hv_dst = 0, hv_period = 0, hv_ttl = 0, hv_feat = 0, hv_net_idx = 0, hv_indefinite = False\<rparr>"

text \<open>\<^verbatim>\<open>struct cfg_val\<close>: seven bytes.\<close>

record cfg_val =
  cv_net_transmit :: u8
  cv_relay :: u8
  cv_relay_retransmit :: u8
  cv_beacon :: u8
  cv_gatt_proxy :: u8
  cv_frnd :: u8
  cv_default_ttl :: u8

definition sizeof_cfg_val :: int where "sizeof_cfg_val = 7"

definition cfg_val_bytes :: "cfg_val \<Rightarrow> u8 list" where
  "cfg_val_bytes v =
     [cv_net_transmit v, cv_relay v, cv_relay_retransmit v, cv_beacon v,
      cv_gatt_proxy v, cv_frnd v, cv_default_ttl v]"

definition cfg_val_of_bytes :: "u8 list \<Rightarrow> cfg_val" where
  "cfg_val_of_bytes bs =
     \<lparr>cv_net_transmit = bs ! 0, cv_relay = bs ! 1, cv_relay_retransmit = bs ! 2, cv_beacon = bs ! 3,
      cv_gatt_proxy = bs ! 4, cv_frnd = bs ! 5, cv_default_ttl = bs ! 6\<rparr>"

definition cfg_val_zero :: cfg_val where
  "cfg_val_zero = cfg_val_of_bytes (replicate 7 0)"

text \<open>\<^verbatim>\<open>struct mod_pub_val\<close>: address, key, ttl, retransmit, period, then one byte with
  the period divisor (4 bits) and the credentials flag (1 bit); \<open>unused\<close> is what the
  last 3 bits of that byte hold.\<close>

record mod_pub_val =
  mp_addr :: u16
  mp_key :: u16
  mp_ttl :: u8
  mp_retransmit :: u8
  mp_period :: u8
  mp_period_div :: "4 word"
  mp_cred :: bool

definition sizeof_mod_pub_val :: int where "sizeof_mod_pub_val = 8"

definition mod_pub_val_bytes :: "3 word \<Rightarrow> mod_pub_val \<Rightarrow> u8 list" where
  "mod_pub_val_bytes unused v =
     le16 (mp_addr v) @ le16 (mp_key v) @ [mp_ttl v, mp_retransmit v, mp_period v]
     @ [ucast (mp_period_div v) OR push_bit 4 (of_bool8 (mp_cred v)) OR push_bit 5 (ucast unused)]"

definition mod_pub_val_of_bytes :: "u8 list \<Rightarrow> mod_pub_val" where
  "mod_pub_val_of_bytes bs =
     \<lparr>mp_addr = rd16 bs 0, mp_key = rd16 bs 2, mp_ttl = bs ! 4, mp_retransmit = bs ! 5,
      mp_period = bs ! 6, mp_period_div = ucast (bs ! 7), mp_cred = bit (bs ! 7) 4\<rparr>"

definition mod_pub_val_zero :: mod_pub_val where
  "mod_pub_val_zero =
     \<lparr>mp_addr = 0, mp_key = 0, mp_ttl = 0, mp_retransmit = 0, mp_period = 0,
      mp_period_div = 0, mp_cred = False\<rparr>"

text \<open>\<^verbatim>\<open>struct va_val\<close> (packed): reference count, address, label UUID.\<close>

record va_val =
  vv_ref :: u16
  vv_addr :: u16
  vv_uuid :: "u8 list"

definition sizeof_va_val :: int where "sizeof_va_val = 20"

definition va_val_bytes :: "va_val \<Rightarrow> u8 list" where
  "va_val_bytes v = le16 (vv_ref v) @ le16 (vv_addr v) @ take 16 (vv_uuid v)"

definition va_val_of_bytes :: "u8 list \<Rightarrow> va_val" where
  "va_val_of_bytes bs = \<lparr>vv_ref = rd16 bs 0, vv_addr = rd16 bs 2, vv_uuid = take 16 (drop 4 bs)\<rparr>"

text \<open>\<^verbatim>\<open>struct node_val\<close> (packed): NetKey index, device key, number of elements.\<close>

record node_val =
  dv_net_idx :: u16
  dv_dev_key :: "u8 list"
  dv_num_elem :: u8

definition sizeof_node_val :: int where "sizeof_node_val = 19"

definition node_val_bytes :: "node_val \<Rightarrow> u8 list" where
  "node_val_bytes v = le16 (dv_net_idx v) @ take 16 (dv_dev_key v) @ [dv_num_elem v]"

definition node_val_of_bytes :: "u8 list \<Rightarrow> node_val" where
  "node_val_of_bytes bs =
     \<lparr>dv_net_idx = rd16 bs 0, dv_dev_key = take 16 (drop 2 bs), dv_num_elem = bs ! 18\<rparr>"

text \<open>An array of 16-bit values (model bindings, subscriptions), as its bytes.\<close>

definition u16s_bytes :: "u16 list \<Rightarrow> u8 list" where
  "u16s_bytes xs = concat (map le16 xs)"

definition u16s_of_bytes :: "u8 list \<Rightarrow> nat \<Rightarrow> u16 list" where
  "u16s_of_bytes bs n = map (\<lambda>i. rd16 bs (2 * i)) [0..<n]"

subsection \<open>The runtime structures\<close>

text \<open>
  The structures of the stack that settings.c reads and writes (net.h, access.h,
  foundation.h, nodes.h), with the fields it uses.
\<close>

record bt_mesh_rpl =
  rpl_src :: u16
  rpl_old_iv :: bool
  rpl_store :: bool
  rpl_seq :: u32

definition bt_mesh_rpl_zero :: bt_mesh_rpl where
  "bt_mesh_rpl_zero = \<lparr>rpl_src = 0, rpl_old_iv = False, rpl_store = False, rpl_seq = 0\<rparr>"

text \<open>
  One half of a subnet's keys: the network key, and whether the key material derived
  from it (\<^verbatim>\<open>bt_mesh_net_keys_create\<close>) is in place.
\<close>

record bt_mesh_subnet_keys =
  k_net :: "u8 list"
  k_derived :: bool

definition bt_mesh_subnet_keys_zero :: bt_mesh_subnet_keys where
  "bt_mesh_subnet_keys_zero = \<lparr>k_net = replicate 16 0, k_derived = False\<rparr>"

record bt_mesh_subnet =
  sub_net_idx :: u16
  sub_kr_flag :: bool
  sub_kr_phase :: u8
  sub_node_id :: u8
  sub_keys0 :: bt_mesh_subnet_keys
  sub_keys1 :: bt_mesh_subnet_keys

record bt_mesh_app_key =
  app_net_idx :: u16
  app_app_idx :: u16
  app_updated :: bool
  app_keys0_val :: "u8 list"
  app_keys0_id :: u8
  app_keys1_val :: "u8 list"
  app_keys1_id :: u8

record bt_mesh_hb_pub =
  hb_dst :: u16
  hb_count :: u16
  hb_ttl :: u8
  hb_period :: u8
  hb_feat :: u16
  hb_net_idx :: u16

record bt_mesh_cfg_srv =
  net_transmit :: u8
  relay :: u8
  relay_retransmit :: u8
  beacon :: u8
  gatt_proxy :: u8
  frnd :: u8
  default_ttl :: u8

text \<open>
  A model publication context; \<open>pub_update\<close> says whether the \<^verbatim>\<open>update\<close> callback is
  set. The credentials flag is a 1-bit field and the period divisor a 4-bit field.
\<close>

record bt_mesh_model_pub =
  pub_addr :: u16
  pub_key :: u16
  pub_ttl :: u8
  pub_retransmit :: u8
  pub_period :: u8
  pub_period_div :: "4 word"
  pub_cred :: bool
  pub_count :: u8
  pub_update :: bool

text \<open>
  A model. \<open>mod_vnd\<close> says in which of the two model arrays of its element it stands;
  \<open>mod_cb_settings_set\<close> is the return value of the \<^verbatim>\<open>settings_set\<close> callback where the
  model has one, \<open>mod_cb_settings_commit\<close> says whether it has a \<^verbatim>\<open>settings_commit\<close>
  callback.
\<close>

record bt_mesh_model =
  mod_vnd :: bool
  mod_elem_idx :: u8
  mod_mod_idx :: u8
  mod_keys :: "u16 list"
  mod_groups :: "u16 list"
  mod_pub :: "bt_mesh_model_pub option"
  mod_flags :: "mod_flag set"
  mod_cb_settings_set :: "(u8 list \<Rightarrow> int) option"
  mod_cb_settings_commit :: bool

text \<open>A virtual address label; \<open>lab_changed\<close> is the flag \<^verbatim>\<open>BT_MESH_VA_CHANGED\<close>.\<close>

record label =
  lab_ref :: u16
  lab_addr :: u16
  lab_uuid :: "u8 list"
  lab_changed :: bool

record bt_mesh_node =
  node_addr :: u16
  node_net_idx :: u16
  node_num_elem :: u8
  node_dev_key :: "u8 list"

definition bt_mesh_node_zero :: bt_mesh_node where
  "bt_mesh_node_zero = \<lparr>node_addr = 0, node_net_idx = 0, node_num_elem = 0, node_dev_key = replicate 16 0\<rparr>"

text \<open>The pending updates of keys and nodes (statics of settings.c).\<close>

record key_update =
  ku_key_idx :: "12 word"
  ku_valid :: bool
  ku_app_key :: bool
  ku_clear :: bool

record node_update =
  nu_addr :: u16
  nu_clear :: bool

text \<open>
  The build configuration (syscfg), and what the file takes from other modules as
  pure functions: whether \<^verbatim>\<open>bt_mesh_net_keys_create\<close> fails on a key, the application
  key identifier \<^verbatim>\<open>bt_mesh_app_id\<close> computes, the publication period in milliseconds
  (\<^verbatim>\<open>bt_mesh_model_pub_period_get\<close>). The sequence store rate is a C \<^verbatim>\<open>int\<close>: it is
  compared signed (\<^verbatim>\<open>> 0\<close>) and converted to unsigned where it meets the 32-bit
  sequence number. The two store timeouts are in seconds.

  \<^verbatim>\<open>store_rpl\<close>, \<^verbatim>\<open>store_pending_hb_pub\<close> and \<^verbatim>\<open>store_pending_mod_pub\<close> fill a local
  structure field by field and never initialise it, so the bits of it that no
  field covers are what the stack held. That content is a parameter too:
  \<open>uninitialised n\<close> is the byte found there by the call made when the log holds \<open>n\<close>
  events, of which the functions take the bits they leave unwritten.
\<close>

record mesh_config =
  CONFIG_BT_MESH_SEQ_STORE_RATE :: u32
  CONFIG_BT_MESH_RPL_STORE_TIMEOUT :: int
  CONFIG_BT_MESH_STORE_TIMEOUT :: int
  CONFIG_BT_MESH_GATT_PROXY :: bool
  CONFIG_BT_MESH_PB_GATT :: bool
  CONFIG_BT_MESH_PROVISIONER :: bool
  bt_mesh_net_keys_create_fails :: "u8 list \<Rightarrow> bool"
  bt_mesh_app_id :: "u8 list \<Rightarrow> u8"
  bt_mesh_model_pub_period_get :: "bt_mesh_model \<Rightarrow> int"
  uninitialised :: "nat \<Rightarrow> u8"

subsection \<open>Effects and state\<close>

text \<open>
  What the functions do to the outside, in the order they do it:
  \<^verbatim>\<open>settings_save_one(path, len, value)\<close> with the \<^verbatim>\<open>len\<close> bytes it is given (none for a
  \<^verbatim>\<open>NULL\<close> value of length 0), the work items they submit, and their calls into
  other modules of the stack. \<open>Memory_fault\<close> records a write past the end of the
  named array or a failed \<^verbatim>\<open>assert\<close>: what the program does from there on is not
  defined, and no property is stated of a run that contains one.
\<close>

datatype event =
    Settings_save string nat "u8 list"
  | Pending_store_submit int
  | Ivu_timer_submit int
  | Mod_pub_timer_submit bool u8 u8 int
  | Hb_pub_work_submit
  | Call_comp_provision u16
  | Call_comp_unprovision
  | Call_subnet_del u16
  | Call_app_key_del u16
  | Call_node_del u16
  | Call_net_keys_create u16 nat
  | Call_net_beacon_update u16
  | Call_proxy_prov_disable
  | Call_net_start
  | Call_mod_settings_set bool u8 u8 "u8 list"
  | Call_mod_settings_commit bool u8 u8
  | Memory_fault string

text \<open>
  Modelled from the spec: \<^verbatim>\<open>struct k_delayed_work\<close> and its two operations are in the
  kernel glue, not in settings.c. The spec calls it a single-shot timer with a
  deadline and a rearm operation: the timer is idle (\<open>None\<close>) or armed with the
  milliseconds that remain; \<^verbatim>\<open>k_delayed_work_remaining_get\<close> reads them (0 when idle)
  and \<^verbatim>\<open>k_delayed_work_submit\<close> arms the timer with a new timeout.
\<close>

type_synonym k_delayed_work = "int option"

definition k_delayed_work_remaining_get :: "k_delayed_work \<Rightarrow> int" where
  "k_delayed_work_remaining_get w = (case w of None \<Rightarrow> 0 | Some r \<Rightarrow> r)"

text \<open>
  The state: \<^verbatim>\<open>bt_mesh\<close> (flags to \<open>nodes\<close>), the primary address and the
  composition and labels that access.c keeps, the configuration server and its
  heartbeat publication (absent when the node has no configuration server), the
  statics of settings.c, and the log of effects. Arrays are lists of their fixed
  length; the models are listed in the order \<^verbatim>\<open>bt_mesh_model_foreach\<close> visits them.
\<close>

record bt_mesh_state =
  flags :: "mesh_flag set"
  seq :: u32
  iv_index :: u32
  ivu_duration :: u8
  dev_key :: "u8 list"
  rpl :: "bt_mesh_rpl list"
  sub :: "bt_mesh_subnet list"
  app_keys :: "bt_mesh_app_key list"
  nodes :: "bt_mesh_node list"
  primary_addr :: u16
  models :: "bt_mesh_model list"
  labels :: "label list"
  cfg_srv :: "bt_mesh_cfg_srv option"
  hb_pub :: "bt_mesh_hb_pub option"
  stored_cfg_valid :: bool
  stored_cfg_cfg :: cfg_val
  key_updates :: "key_update list"
  node_updates :: "node_update list"
  pending_store :: k_delayed_work
  log :: "event list"

definition settings_save_one :: "string \<Rightarrow> nat \<Rightarrow> u8 list \<Rightarrow> bt_mesh_state \<Rightarrow> bt_mesh_state" where
  "settings_save_one path len bytes s = s\<lparr>log := log s @ [Settings_save path len bytes]\<rparr>"

definition emit :: "event \<Rightarrow> bt_mesh_state \<Rightarrow> bt_mesh_state" where
  "emit e s = s\<lparr>log := log s @ [e]\<rparr>"

definition k_delayed_work_submit_pending_store :: "int \<Rightarrow> bt_mesh_state \<Rightarrow> bt_mesh_state" where
  "k_delayed_work_submit_pending_store timeout s =
     s\<lparr>pending_store := Some timeout, log := log s @ [Pending_store_submit timeout]\<rparr>"

subsection \<open>Helpers of other modules\<close>

text \<open>
  Modelled from the spec: the helpers below are defined in access.c, net.c,
  cfg_srv.c and nodes.c, not in settings.c. The spec gives the data they work on:
  a network state that exists while the node is provisioned, fixed arrays of
  subnets, application keys and nodes whose free slots carry the unused key index
  or the unassigned address, a configuration server that may be absent. A lookup
  returns the first slot that holds the index or address asked for; an allocation
  returns the first free slot; a deletion frees the slot. Every call that changes
  another module is also recorded in the log.
\<close>

definition bt_mesh_primary_addr :: "bt_mesh_state \<Rightarrow> u16" where
  "bt_mesh_primary_addr s = primary_addr s"

definition bt_mesh_comp_provision :: "u16 \<Rightarrow> bt_mesh_state \<Rightarrow> bt_mesh_state" where
  "bt_mesh_comp_provision addr s = emit (Call_comp_provision addr) (s\<lparr>primary_addr := addr\<rparr>)"

definition bt_mesh_comp_unprovision :: "bt_mesh_state \<Rightarrow> bt_mesh_state" where
  "bt_mesh_comp_unprovision s = emit Call_comp_unprovision (s\<lparr>primary_addr := BT_MESH_ADDR_UNASSIGNED\<rparr>)"

definition bt_mesh_subnet_get :: "u16 \<Rightarrow> bt_mesh_state \<Rightarrow> nat option" where
  "bt_mesh_subnet_get net_idx s = find_first (\<lambda>b. sub_net_idx b = net_idx) (sub s)"

definition bt_mesh_subnet_zero :: bt_mesh_subnet where
  "bt_mesh_subnet_zero =
     \<lparr>sub_net_idx = BT_MESH_KEY_UNUSED, sub_kr_flag = False, sub_kr_phase = 0, sub_node_id = 0,
      sub_keys0 = bt_mesh_subnet_keys_zero, sub_keys1 = bt_mesh_subnet_keys_zero\<rparr>"

definition bt_mesh_subnet_del :: "nat \<Rightarrow> bt_mesh_state \<Rightarrow> bt_mesh_state" where
  "bt_mesh_subnet_del i s =
     emit (Call_subnet_del (sub_net_idx (sub s ! i))) (s\<lparr>sub := (sub s)[i := bt_mesh_subnet_zero]\<rparr>)"

definition bt_mesh_app_key_find :: "u16 \<Rightarrow> bt_mesh_state \<Rightarrow> nat option" where
  "bt_mesh_app_key_find app_idx s =
     find_first (\<lambda>k. app_net_idx k \<noteq> BT_MESH_KEY_UNUSED \<and> app_app_idx k = app_idx) (app_keys s)"

definition bt_mesh_app_key_alloc :: "u16 \<Rightarrow> bt_mesh_state \<Rightarrow> nat option" where
  "bt_mesh_app_key_alloc app_idx s = find_first (\<lambda>k. app_net_idx k = BT_MESH_KEY_UNUSED) (app_keys s)"

definition bt_mesh_app_key_del :: "nat \<Rightarrow> bt_mesh_state \<Rightarrow> bt_mesh_state" where
  "bt_mesh_app_key_del i s =
     emit (Call_app_key_del (app_app_idx (app_keys s ! i)))
       (s\<lparr>app_keys := (app_keys s)[i := (app_keys s ! i)
            \<lparr>app_net_idx := BT_MESH_KEY_UNUSED, app_keys0_val := replicate 16 0, app_keys0_id := 0,
             app_keys1_val := replicate 16 0, app_keys1_id := 0\<rparr>]\<rparr>)"

definition bt_mesh_hb_pub_get :: "bt_mesh_state \<Rightarrow> bt_mesh_hb_pub option" where
  "bt_mesh_hb_pub_get s = hb_pub s"

definition bt_mesh_cfg_get :: "bt_mesh_state \<Rightarrow> bt_mesh_cfg_srv option" where
  "bt_mesh_cfg_get s = cfg_srv s"

definition bt_mesh_model_get :: "bool \<Rightarrow> u8 \<Rightarrow> u8 \<Rightarrow> bt_mesh_state \<Rightarrow> nat option" where
  "bt_mesh_model_get vnd elem_idx mod_idx s =
     find_first (\<lambda>m. mod_vnd m = vnd \<and> mod_elem_idx m = elem_idx \<and> mod_mod_idx m = mod_idx) (models s)"

definition get_label :: "u16 \<Rightarrow> bt_mesh_state \<Rightarrow> nat option" where
  "get_label index s = (if unat index < length (labels s) then Some (unat index) else None)"

definition bt_mesh_node_find :: "u16 \<Rightarrow> bt_mesh_state \<Rightarrow> nat option" where
  "bt_mesh_node_find addr s =
     find_first (\<lambda>n. node_addr n \<noteq> BT_MESH_ADDR_UNASSIGNED \<and> node_addr n = addr) (nodes s)"

definition bt_mesh_node_alloc :: "u16 \<Rightarrow> u8 \<Rightarrow> u16 \<Rightarrow> bt_mesh_state \<Rightarrow> nat option \<times> bt_mesh_state" where
  "bt_mesh_node_alloc addr num_elem net_idx s =
     (case find_first (\<lambda>n. node_addr n = BT_MESH_ADDR_UNASSIGNED) (nodes s) of
        None \<Rightarrow> (None, s)
      | Some i \<Rightarrow>
          (Some i, s\<lparr>nodes := (nodes s)[i := (nodes s ! i)
             \<lparr>node_addr := addr, node_num_elem := num_elem, node_net_idx := net_idx\<rparr>]\<rparr>))"

definition bt_mesh_node_del :: "nat \<Rightarrow> bt_mesh_state \<Rightarrow> bt_mesh_state" where
  "bt_mesh_node_del i s =
     emit (Call_node_del (node_addr (nodes s ! i))) (s\<lparr>nodes := (nodes s)[i := bt_mesh_node_zero]\<rparr>)"

subsection \<open>Restoring: the handlers of the settings table\<close>

text \<open>
  A handler takes the key, the value buffer and the length of the value, and
  returns its result code with the new state. The buffer is the one \<^verbatim>\<open>conf_load\<close>
  fills: the handlers index it, they never take its length.
\<close>

type_synonym handler = "mesh_config \<Rightarrow> string \<Rightarrow> u8 list \<Rightarrow> int \<Rightarrow> bt_mesh_state \<Rightarrow> int \<times> bt_mesh_state"

definition role_set_bin :: handler where
  "role_set_bin cfg key val value_len s =
     (let role = val ! 0 in
      if role = 1 then (0, s\<lparr>flags := insert BT_MESH_NODE (flags s)\<rparr>)
      else if role = 2 then (0, s\<lparr>flags := insert BT_MESH_PROVISIONER (flags s)\<rparr>)
      else (0, s))"

definition net_set_bin :: handler where
  "net_set_bin cfg key val value_len s =
     (if value_len = 0 then
        (0, (bt_mesh_comp_unprovision s)\<lparr>dev_key := replicate 16 0\<rparr>)
      else if value_len \<noteq> sizeof_net_val then (- EINVAL, s)
      else
        let net = net_val_of_bytes val
        in (0, bt_mesh_comp_provision (nv_primary_addr net) (s\<lparr>dev_key := nv_dev_key net\<rparr>)))"

definition iv_set_bin :: handler where
  "iv_set_bin cfg key val value_len s =
     (if value_len = 0 then
        (0, s\<lparr>iv_index := 0, flags := flags s - {BT_MESH_IVU_IN_PROGRESS}\<rparr>)
      else if value_len \<noteq> sizeof_iv_val then (- EINVAL, s)
      else
        let iv = iv_val_of_bytes val
        in (0, s\<lparr>iv_index := iv_iv_index iv,
                  flags := (if iv_iv_update iv then insert BT_MESH_IVU_IN_PROGRESS (flags s)
                            else flags s - {BT_MESH_IVU_IN_PROGRESS}),
                  ivu_duration := ucast (iv_iv_duration iv)\<rparr>))"

definition seq_set_bin :: handler where
  "seq_set_bin cfg key val value_len s =
     (if value_len = 0 then (0, s\<lparr>seq := 0\<rparr>)
      else if value_len \<noteq> sizeof_seq_val then (- EINVAL, s)
      else
        let rate = CONFIG_BT_MESH_SEQ_STORE_RATE cfg;
            sq = (ucast (val ! 0) :: u32) OR push_bit 8 (ucast (val ! 1)) OR push_bit 16 (ucast (val ! 2));
            sq' = (if 0 <s rate then (sq + (rate - sq mod rate)) - 1 else sq)
        in (0, s\<lparr>seq := sq'\<rparr>))"

definition rpl_find :: "u16 \<Rightarrow> bt_mesh_state \<Rightarrow> nat option" where
  "rpl_find src s = find_first (\<lambda>e. rpl_src e = src) (rpl s)"

definition rpl_alloc :: "u16 \<Rightarrow> bt_mesh_state \<Rightarrow> nat option \<times> bt_mesh_state" where
  "rpl_alloc src s =
     (case find_first (\<lambda>e. rpl_src e = 0) (rpl s) of
        None \<Rightarrow> (None, s)
      | Some i \<Rightarrow> (Some i, s\<lparr>rpl := (rpl s)[i := (rpl s ! i)\<lparr>rpl_src := src\<rparr>]\<rparr>))"

definition rpl_set_bin :: handler where
  "rpl_set_bin cfg key val value_len s =
     (let src = (word_of_int (strtol16 (drop 4 key)) :: u16);
          entry = rpl_find src s
      in if value_len = 0 then
           (case entry of
              Some i \<Rightarrow> (0, s\<lparr>rpl := (rpl s)[i := bt_mesh_rpl_zero]\<rparr>)
            | None \<Rightarrow> (0, s))
         else
           let (entry', s') = (case entry of Some i \<Rightarrow> (Some i, s) | None \<Rightarrow> rpl_alloc src s)
           in case entry' of
                None \<Rightarrow> (- ENOMEM, s')
              | Some i \<Rightarrow>
                  if value_len \<noteq> sizeof_rpl_val then (- EINVAL, s')
                  else
                    let rv = rpl_val_of_bytes val
                    in (0, s'\<lparr>rpl := (rpl s')[i := (rpl s' ! i)
                              \<lparr>rpl_seq := ucast (rv_seq rv), rpl_old_iv := rv_old_iv rv\<rparr>]\<rparr>))"

definition net_key_set_bin :: handler where
  "net_key_set_bin cfg key_value val value_len s =
     (let net_idx = (word_of_int (strtol16 (drop 7 key_value)) :: u16);
          sb = bt_mesh_subnet_get net_idx s
      in if value_len = 0 then
           (case sb of
              None \<Rightarrow> (- ENOENT, s)
            | Some i \<Rightarrow> (0, bt_mesh_subnet_del i s))
         else if value_len \<noteq> sizeof_net_key_val then (- EINVAL, s)
         else
           let key = net_key_val_of_bytes val
           in case sb of
                Some i \<Rightarrow>
                  (0, s\<lparr>sub := (sub s)[i := (sub s ! i)
                      \<lparr>sub_kr_flag := nk_kr_flag key, sub_kr_phase := ucast (nk_kr_phase key),
                       sub_keys0 := (sub_keys0 (sub s ! i))\<lparr>k_net := nk_val0 key\<rparr>,
                       sub_keys1 := (sub_keys1 (sub s ! i))\<lparr>k_net := nk_val1 key\<rparr>\<rparr>]\<rparr>)
              | None \<Rightarrow>
                  (case find_first (\<lambda>b. sub_net_idx b = BT_MESH_KEY_UNUSED) (sub s) of
                     None \<Rightarrow> (- ENOMEM, s)
                   | Some i \<Rightarrow>
                       (0, s\<lparr>sub := (sub s)[i := (sub s ! i)
                           \<lparr>sub_net_idx := net_idx,
                            sub_kr_flag := nk_kr_flag key, sub_kr_phase := ucast (nk_kr_phase key),
                            sub_keys0 := (sub_keys0 (sub s ! i))\<lparr>k_net := nk_val0 key\<rparr>,
                            sub_keys1 := (sub_keys1 (sub s ! i))\<lparr>k_net := nk_val1 key\<rparr>\<rparr>]\<rparr>)))"

definition app_key_set_bin :: handler where
  "app_key_set_bin cfg key_value val value_len s =
     (let app_idx = (word_of_int (strtol16 (drop 7 key_value)) :: u16)
      in if value_len = 0 then
           (case bt_mesh_app_key_find app_idx s of
              Some i \<Rightarrow> (0, bt_mesh_app_key_del i s)
            | None \<Rightarrow> (0, s))
         else if value_len \<noteq> sizeof_app_key_val then (- EINVAL, s)
         else
           let key = app_key_val_of_bytes val;
               app = (case bt_mesh_app_key_find app_idx s of
                        Some i \<Rightarrow> Some i
                      | None \<Rightarrow> bt_mesh_app_key_alloc app_idx s)
           in case app of
                None \<Rightarrow> (- ENOMEM, s)
              | Some i \<Rightarrow>
                  (0, s\<lparr>app_keys := (app_keys s)[i := (app_keys s ! i)
                      \<lparr>app_net_idx := ak_net_idx key, app_app_idx := app_idx,
                       app_updated := ak_updated key,
                       app_keys0_val := ak_val0 key, app_keys0_id := bt_mesh_app_id cfg (ak_val0 key),
                       app_keys1_val := ak_val1 key, app_keys1_id := bt_mesh_app_id cfg (ak_val1 key)\<rparr>]\<rparr>))"

definition hb_pub_set_bin :: handler where
  "hb_pub_set_bin cfg key_value val value_len s =
     (case bt_mesh_hb_pub_get s of
        None \<Rightarrow> (- ENOENT, s)
      | Some pub \<Rightarrow>
          if value_len = 0 then
            (0, s\<lparr>hb_pub := Some (pub\<lparr>hb_dst := BT_MESH_ADDR_UNASSIGNED, hb_count := 0, hb_ttl := 0,
                                       hb_period := 0, hb_feat := 0\<rparr>)\<rparr>)
          else if value_len \<noteq> sizeof_hb_pub_val then (- EINVAL, s)
          else
            let hb_val = hb_pub_val_of_bytes val
            in (0, s\<lparr>hb_pub := Some (pub\<lparr>hb_dst := hv_dst hb_val, hb_period := hv_period hb_val,
                                          hb_ttl := hv_ttl hb_val, hb_feat := hv_feat hb_val,
                                          hb_net_idx := ucast (hv_net_idx hb_val),
                                          hb_count := (if hv_indefinite hb_val then 0xffff else 0)\<rparr>)\<rparr>))"

definition cfg_set_bin :: handler where
  "cfg_set_bin cfg key_value val value_len s =
     (case bt_mesh_cfg_get s of
        None \<Rightarrow> (- ENOENT, s)
      | Some c \<Rightarrow>
          if value_len = 0 then (0, s\<lparr>stored_cfg_valid := False\<rparr>)
          else if value_len \<noteq> sizeof_cfg_val then (- EINVAL, s)
          else (0, s\<lparr>stored_cfg_cfg := cfg_val_of_bytes val, stored_cfg_valid := True\<rparr>))"

text \<open>
  \<^verbatim>\<open>memcpy(dst, src, len)\<close> into an array of 16-bit values, as far as the array goes:
  an odd length replaces the low byte of one more element. \<^verbatim>\<open>mod_set_bind_bin\<close> and
  \<^verbatim>\<open>mod_set_sub_bin\<close> do not compare the length with the size of the array, and a
  longer copy overwrites what follows it in memory: \<open>memcpy_overruns\<close> says when,
  and the two handlers record it as a \<open>Memory_fault\<close>.
\<close>

definition memcpy_overruns :: "u16 list \<Rightarrow> int \<Rightarrow> bool" where
  "memcpy_overruns dst len = (len < 0 \<or> 2 * int (length dst) < len)"

definition memcpy_u16s :: "u16 list \<Rightarrow> u8 list \<Rightarrow> nat \<Rightarrow> u16 list" where
  "memcpy_u16s dst src len =
     map (\<lambda>i. if 2 * i + 1 < len then rd16 src (2 * i)
               else if 2 * i < len then (dst ! i AND 0xff00) OR ucast (src ! (2 * i))
               else dst ! i)
         [0..<length dst]"

definition upd_model :: "nat \<Rightarrow> (bt_mesh_model \<Rightarrow> bt_mesh_model) \<Rightarrow> bt_mesh_state \<Rightarrow> bt_mesh_state" where
  "upd_model m f s = s\<lparr>models := (models s)[m := f (models s ! m)]\<rparr>"

definition mod_set_bind_bin :: "nat \<Rightarrow> u8 list \<Rightarrow> int \<Rightarrow> bt_mesh_state \<Rightarrow> int \<times> bt_mesh_state" where
  "mod_set_bind_bin m val val_len s =
     (let empty = replicate (length (mod_keys (models s ! m))) BT_MESH_KEY_UNUSED
      in if val_len = 0 then (0, upd_model m (\<lambda>md. md\<lparr>mod_keys := empty\<rparr>) s)
         else
           let s1 = upd_model m (\<lambda>md. md\<lparr>mod_keys := memcpy_u16s empty val (nat val_len)\<rparr>) s
           in (0, if memcpy_overruns empty val_len then emit (Memory_fault ''keys'') s1 else s1))"

definition mod_set_sub_bin :: "nat \<Rightarrow> u8 list \<Rightarrow> int \<Rightarrow> bt_mesh_state \<Rightarrow> int \<times> bt_mesh_state" where
  "mod_set_sub_bin m val val_len s =
     (let empty = replicate (length (mod_groups (models s ! m))) 0
      in if val_len = 0 then (0, upd_model m (\<lambda>md. md\<lparr>mod_groups := empty\<rparr>) s)
         else
           let s1 = upd_model m (\<lambda>md. md\<lparr>mod_groups := memcpy_u16s empty val (nat val_len)\<rparr>) s
           in (0, if memcpy_overruns empty val_len then emit (Memory_fault ''groups'') s1 else s1))"

definition mod_set_pub_bin :: "nat \<Rightarrow> u8 list \<Rightarrow> int \<Rightarrow> bt_mesh_state \<Rightarrow> int \<times> bt_mesh_state" where
  "mod_set_pub_bin m val val_len s =
     (case mod_pub (models s ! m) of
        None \<Rightarrow> (- EINVAL, s)
      | Some p \<Rightarrow>
          if val_len = 0 then
            (0, upd_model m (\<lambda>md. md\<lparr>mod_pub := Some (p\<lparr>pub_addr := BT_MESH_ADDR_UNASSIGNED, pub_key := 0,
                 pub_cred := False, pub_ttl := 0, pub_period := 0, pub_retransmit := 0, pub_count := 0\<rparr>)\<rparr>) s)
          else if val_len \<noteq> sizeof_mod_pub_val then (- EINVAL, s)
          else
            let pub = mod_pub_val_of_bytes val
            in (0, upd_model m (\<lambda>md. md\<lparr>mod_pub := Some (p\<lparr>pub_addr := mp_addr pub, pub_key := mp_key pub,
                 pub_cred := mp_cred pub, pub_ttl := mp_ttl pub, pub_period := mp_period pub,
                 pub_retransmit := mp_retransmit pub, pub_count := 0\<rparr>)\<rparr>) s))"

text \<open>
  The \<^verbatim>\<open>data\<close> branch copies the value into \<^verbatim>\<open>char mod_data[128]\<close> and writes a 0 after
  it, at index \<^verbatim>\<open>value_len\<close>: with 128 bytes of data that write is past the end of
  the array, and with more the \<^verbatim>\<open>assert\<close> before the copy fails. The callback is
  given the bytes that were copied.
\<close>

definition mod_set_bin :: "bool \<Rightarrow> handler" where
  "mod_set_bin vnd cfg key_value val value_len s =
     (let mod_key = (word_of_int (strtol16 (drop 2 key_value)) :: u16);
          elem_idx = (ucast (drop_bit 8 mod_key) :: u8);
          mod_idx = (ucast mod_key :: u8)
      in case bt_mesh_model_get vnd elem_idx mod_idx s of
           None \<Rightarrow> (- ENOENT, s)
         | Some m \<Rightarrow>
             if strstr key_value ''bind'' then mod_set_bind_bin m val value_len s
             else if strstr key_value ''sub'' then mod_set_sub_bin m val value_len s
             else if strstr key_value ''pub'' then mod_set_pub_bin m val value_len s
             else if strstr key_value ''data'' then
               (let s' = upd_model m (\<lambda>md. md\<lparr>mod_flags := insert BT_MESH_MOD_DATA_PRESENT (mod_flags md)\<rparr>) s
                in case mod_cb_settings_set (models s ! m) of
                     Some cb \<Rightarrow>
                       (let s'' = (if value_len < 0 \<or> 128 \<le> value_len
                                   then emit (Memory_fault ''mod_data'') s' else s')
                        in (cb (take (nat value_len) val),
                            emit (Call_mod_settings_set vnd elem_idx mod_idx (take (nat value_len) val)) s''))
                   | None \<Rightarrow> (- ENOENT, s'))
             else (- ENOENT, s))"

definition sig_mod_set_bin :: handler where
  "sig_mod_set_bin = mod_set_bin False"

definition vnd_mod_set_bin :: handler where
  "vnd_mod_set_bin = mod_set_bin True"

definition va_set_bin :: handler where
  "va_set_bin cfg key_value val value_len s =
     (let index = (word_of_int (strtol16 (drop 3 key_value)) :: u16)
      in if value_len = 0 then (0, s)
         else if value_len \<noteq> sizeof_va_val then (- EINVAL, s)
         else
           let va = va_val_of_bytes val
           in if vv_ref va = 0 then (0, s)
              else case get_label index s of
                     None \<Rightarrow> (- ENOBUFS, s)
                   | Some l \<Rightarrow>
                       (0, s\<lparr>labels := (labels s)[l := (labels s ! l)
                            \<lparr>lab_uuid := vv_uuid va, lab_addr := vv_addr va, lab_ref := vv_ref va\<rparr>]\<rparr>))"

definition node_set_bin :: handler where
  "node_set_bin cfg key_value val value_len s =
     (let addr = (word_of_int (strtol16 (drop 5 key_value)) :: u16)
      in if value_len = 0 then
           (case bt_mesh_node_find addr s of
              Some n \<Rightarrow> (0, bt_mesh_node_del n s)
            | None \<Rightarrow> (0, s))
         else if value_len \<noteq> sizeof_node_val then (- EINVAL, s)
         else
           let v = node_val_of_bytes val;
               (node, s') = (case bt_mesh_node_find addr s of
                               Some n \<Rightarrow> (Some n, s)
                             | None \<Rightarrow> bt_mesh_node_alloc addr (dv_num_elem v) (dv_net_idx v) s)
           in case node of
                None \<Rightarrow> (- ENOMEM, s')
              | Some n \<Rightarrow> (0, s'\<lparr>nodes := (nodes s')[n := (nodes s' ! n)\<lparr>node_dev_key := dv_dev_key v\<rparr>]\<rparr>))"

text \<open>
  The table \<^verbatim>\<open>settings[]\<close>: the entry for labels is compiled in when
  \<^verbatim>\<open>CONFIG_BT_MESH_LABEL_COUNT > 0\<close> (the label array is not empty), the entry for
  nodes when the provisioner role is.
\<close>

definition settings :: "mesh_config \<Rightarrow> bt_mesh_state \<Rightarrow> (string \<times> handler) list" where
  "settings cfg s =
     [(''Net'', net_set_bin), (''IV'', iv_set_bin), (''Seq'', seq_set_bin), (''RPL'', rpl_set_bin),
      (''NetKey'', net_key_set_bin), (''AppKey'', app_key_set_bin), (''HBPub'', hb_pub_set_bin),
      (''Cfg'', cfg_set_bin), (''s'', sig_mod_set_bin), (''v'', vnd_mod_set_bin),
      (''Role'', role_set_bin)]
     @ (if 0 < length (labels s) then [(''Va'', va_set_bin)] else [])
     @ (if CONFIG_BT_MESH_PROVISIONER cfg then [(''Node'', node_set_bin)] else [])"

text \<open>The loop of \<^verbatim>\<open>mesh_set_bin\<close> over the table: the first entry whose name is the
  key up to its first \<^verbatim>\<open>/\<close>.\<close>

fun mesh_set_lookup :: "(string \<times> handler) list \<Rightarrow> string \<Rightarrow> handler option" where
  "mesh_set_lookup [] tmp_key = None"
| "mesh_set_lookup ((name, func) # rest) tmp_key =
     (if name = tmp_key then Some func else mesh_set_lookup rest tmp_key)"

definition mesh_set_bin :: handler where
  "mesh_set_bin cfg key val value_len s =
     (let tmp_key = takeWhile (\<lambda>c. c \<noteq> CHR ''/'') key
      in case mesh_set_lookup (settings cfg s) tmp_key of
           Some func \<Rightarrow> func cfg key val value_len s
         | None \<Rightarrow> (- ENOENT, s))"

subsection \<open>Commit after a restore\<close>

text \<open>
  \<^verbatim>\<open>subnet_init\<close> on the subnet in slot \<open>i\<close>. \<^verbatim>\<open>bt_mesh_net_keys_create\<close> is recorded
  with the half it derives; where the second derivation fails the first half is
  zeroed.
\<close>

definition subnet_init :: "mesh_config \<Rightarrow> nat \<Rightarrow> bt_mesh_state \<Rightarrow> int \<times> bt_mesh_state" where
  "subnet_init cfg i s =
     (let sb = sub s ! i;
          s1 = emit (Call_net_keys_create (sub_net_idx sb) 0) s
      in if bt_mesh_net_keys_create_fails cfg (k_net (sub_keys0 sb)) then (- EIO, s1)
         else
           let sb1 = sb\<lparr>sub_keys0 := (sub_keys0 sb)\<lparr>k_derived := True\<rparr>\<rparr>;
               s2 = s1\<lparr>sub := (sub s1)[i := sb1]\<rparr>;
               second = (sub_kr_phase sb1 \<noteq> BT_MESH_KR_NORMAL);
               s3 = (if second then emit (Call_net_keys_create (sub_net_idx sb1) 1) s2 else s2)
           in if second \<and> bt_mesh_net_keys_create_fails cfg (k_net (sub_keys1 sb1)) then
                (- EIO, s3\<lparr>sub := (sub s3)[i := sb1\<lparr>sub_keys0 := bt_mesh_subnet_keys_zero\<rparr>]\<rparr>)
              else
                let sb2 = (if second then sb1\<lparr>sub_keys1 := (sub_keys1 sb1)\<lparr>k_derived := True\<rparr>\<rparr> else sb1);
                    sb3 = sb2\<lparr>sub_node_id := (if CONFIG_BT_MESH_GATT_PROXY cfg
                                                then BT_MESH_NODE_IDENTITY_STOPPED
                                                else BT_MESH_NODE_IDENTITY_NOT_SUPPORTED)\<rparr>
                in (0, emit (Call_net_beacon_update (sub_net_idx sb3)) (s3\<lparr>sub := (sub s3)[i := sb3]\<rparr>)))"

definition commit_mod :: "mesh_config \<Rightarrow> nat \<Rightarrow> bt_mesh_state \<Rightarrow> bt_mesh_state" where
  "commit_mod cfg m s =
     (let md = models s ! m;
          s1 = (case mod_pub md of
                  Some p \<Rightarrow>
                    if pub_update p \<and> pub_addr p \<noteq> BT_MESH_ADDR_UNASSIGNED then
                      (let ms = bt_mesh_model_pub_period_get cfg md
                       in if ms \<noteq> 0
                          then emit (Mod_pub_timer_submit (mod_vnd md) (mod_elem_idx md) (mod_mod_idx md) ms) s
                          else s)
                    else s
                | None \<Rightarrow> s)
      in if mod_cb_settings_commit md
         then emit (Call_mod_settings_commit (mod_vnd md) (mod_elem_idx md) (mod_mod_idx md)) s1
         else s1)"

definition mesh_commit_subnet :: "mesh_config \<Rightarrow> nat \<Rightarrow> bt_mesh_state \<Rightarrow> bt_mesh_state" where
  "mesh_commit_subnet cfg i s =
     (if sub_net_idx (sub s ! i) = BT_MESH_KEY_UNUSED then s else snd (subnet_init cfg i s))"

definition mesh_commit :: "mesh_config \<Rightarrow> bt_mesh_state \<Rightarrow> int \<times> bt_mesh_state" where
  "mesh_commit cfg s =
     (if (case sub s of [] \<Rightarrow> True | b # bs \<Rightarrow> sub_net_idx b = BT_MESH_KEY_UNUSED) then (0, s)
      else
        let s1 = (if CONFIG_BT_MESH_PB_GATT cfg then emit Call_proxy_prov_disable s else s);
            s2 = fold (mesh_commit_subnet cfg) [0..<length (sub s1)] s1;
            s3 = (if ivu_duration s2 < BT_MESH_IVU_MIN_HOURS
                  then emit (Ivu_timer_submit BT_MESH_IVU_TIMEOUT) s2 else s2);
            s4 = fold (commit_mod cfg) [0..<length (models s3)] s3;
            s5 = (case bt_mesh_hb_pub_get s4 of
                    Some p \<Rightarrow>
                      if hb_dst p \<noteq> BT_MESH_ADDR_UNASSIGNED \<and> hb_count p \<noteq> 0 \<and> hb_period p \<noteq> 0
                      then emit Hb_pub_work_submit s4 else s4
                  | None \<Rightarrow> s4);
            s6 = (case bt_mesh_cfg_get s5 of
                    Some c \<Rightarrow>
                      if stored_cfg_valid s5 then
                        s5\<lparr>cfg_srv := Some (c\<lparr>net_transmit := cv_net_transmit (stored_cfg_cfg s5),
                                               relay := cv_relay (stored_cfg_cfg s5),
                                               relay_retransmit := cv_relay_retransmit (stored_cfg_cfg s5),
                                               beacon := cv_beacon (stored_cfg_cfg s5),
                                               gatt_proxy := cv_gatt_proxy (stored_cfg_cfg s5),
                                               frnd := cv_frnd (stored_cfg_cfg s5),
                                               default_ttl := cv_default_ttl (stored_cfg_cfg s5)\<rparr>)\<rparr>
                      else s5
                  | None \<Rightarrow> s5);
            s7 = s6\<lparr>flags := insert BT_MESH_VALID (flags s6)\<rparr>;
            s8 = (if BT_MESH_PROVISIONER \<notin> flags s7 then emit Call_net_start s7 else s7)
        in (0, s8))"

subsection \<open>Scheduling the deferred store\<close>

definition NO_WAIT_PENDING_BITS :: "mesh_flag set" where
  "NO_WAIT_PENDING_BITS = {BT_MESH_NET_PENDING, BT_MESH_IV_PENDING, BT_MESH_ROLE_PENDING}"

definition GENERIC_PENDING_BITS :: "mesh_flag set" where
  "GENERIC_PENDING_BITS =
     {BT_MESH_KEYS_PENDING, BT_MESH_HB_PUB_PENDING, BT_MESH_CFG_PENDING,
      BT_MESH_MOD_PENDING, BT_MESH_SEQ_PENDING, BT_MESH_NODES_PENDING}"

definition schedule_store :: "mesh_config \<Rightarrow> mesh_flag \<Rightarrow> bt_mesh_state \<Rightarrow> bt_mesh_state" where
  "schedule_store cfg flag s0 =
     (let s = s0\<lparr>flags := insert flag (flags s0)\<rparr>;
          timeout =
            (if flags s \<inter> NO_WAIT_PENDING_BITS \<noteq> {} then
               CONFIG_MESH_STORE_WORKAROUND_FLASH_FLUSH_TIMEOUT
             else if BT_MESH_RPL_PENDING \<in> flags s \<and>
                     (\<not> (flags s \<inter> GENERIC_PENDING_BITS \<noteq> {}) \<or>
                      CONFIG_BT_MESH_RPL_STORE_TIMEOUT cfg < CONFIG_BT_MESH_STORE_TIMEOUT cfg) then
               K_SECONDS (CONFIG_BT_MESH_RPL_STORE_TIMEOUT cfg)
             else K_SECONDS (CONFIG_BT_MESH_STORE_TIMEOUT cfg));
          remaining = k_delayed_work_remaining_get (pending_store s)
      in if remaining \<noteq> 0 \<and> remaining < timeout then s
         else k_delayed_work_submit_pending_store timeout s)"

subsection \<open>Writing one category\<close>

definition clear_iv :: "bt_mesh_state \<Rightarrow> bt_mesh_state" where
  "clear_iv s = settings_save_one ''IV'' 0 [] s"

definition clear_net :: "bt_mesh_state \<Rightarrow> bt_mesh_state" where
  "clear_net s = settings_save_one ''Net'' 0 [] s"

definition store_pending_net :: "bt_mesh_state \<Rightarrow> bt_mesh_state" where
  "store_pending_net s =
     (let net = \<lparr>nv_primary_addr = bt_mesh_primary_addr s, nv_dev_key = dev_key s\<rparr>
      in settings_save_one ''Net'' (nat sizeof_net_val) (net_val_bytes net) s)"

definition bt_mesh_store_net :: "mesh_config \<Rightarrow> bt_mesh_state \<Rightarrow> bt_mesh_state" where
  "bt_mesh_store_net cfg s = schedule_store cfg BT_MESH_NET_PENDING s"

definition store_pending_iv :: "bt_mesh_state \<Rightarrow> bt_mesh_state" where
  "store_pending_iv s =
     (let iv = \<lparr>iv_iv_index = iv_index s,
                iv_iv_update = (BT_MESH_IVU_IN_PROGRESS \<in> flags s),
                iv_iv_duration = ucast (ivu_duration s)\<rparr>
      in settings_save_one ''IV'' (nat sizeof_iv_val) (iv_val_bytes iv) s)"

definition bt_mesh_store_iv :: "mesh_config \<Rightarrow> bool \<Rightarrow> bt_mesh_state \<Rightarrow> bt_mesh_state" where
  "bt_mesh_store_iv cfg only_duration s =
     (let s1 = schedule_store cfg BT_MESH_IV_PENDING s
      in if \<not> only_duration then schedule_store cfg BT_MESH_SEQ_PENDING s1 else s1)"

definition bt_mesh_store_role :: "mesh_config \<Rightarrow> bt_mesh_state \<Rightarrow> bt_mesh_state" where
  "bt_mesh_store_role cfg s = schedule_store cfg BT_MESH_ROLE_PENDING s"

definition store_pending_seq :: "bt_mesh_state \<Rightarrow> bt_mesh_state" where
  "store_pending_seq s =
     settings_save_one ''Seq'' (nat sizeof_seq_val)
       [ucast (seq s), ucast (drop_bit 8 (seq s)), ucast (drop_bit 16 (seq s))] s"

definition bt_mesh_store_seq :: "mesh_config \<Rightarrow> bt_mesh_state \<Rightarrow> bt_mesh_state" where
  "bt_mesh_store_seq cfg s =
     (if CONFIG_BT_MESH_SEQ_STORE_RATE cfg \<noteq> 0 \<and>
         seq s mod CONFIG_BT_MESH_SEQ_STORE_RATE cfg \<noteq> 0 then s
      else schedule_store cfg BT_MESH_SEQ_PENDING s)"

definition store_rpl :: "mesh_config \<Rightarrow> bt_mesh_rpl \<Rightarrow> bt_mesh_state \<Rightarrow> bt_mesh_state" where
  "store_rpl cfg entry s =
     (let rv = \<lparr>rv_seq = ucast (rpl_seq entry), rv_old_iv = rpl_old_iv entry\<rparr>;
          unused = ucast (uninitialised cfg (length (log s)))
      in settings_save_one (''RPL/'' @ snprintk_x (rpl_src entry)) (nat sizeof_rpl_val)
           (rpl_val_bytes unused rv) s)"

definition clear_rpl_step :: "nat \<Rightarrow> bt_mesh_state \<Rightarrow> bt_mesh_state" where
  "clear_rpl_step i s =
     (let r = rpl s ! i
      in if rpl_src r = 0 then s
         else (settings_save_one (''RPL/'' @ snprintk_x (rpl_src r)) 0 [] s)
                \<lparr>rpl := (rpl s)[i := bt_mesh_rpl_zero]\<rparr>)"

definition clear_rpl :: "bt_mesh_state \<Rightarrow> bt_mesh_state" where
  "clear_rpl s = fold clear_rpl_step [0..<length (rpl s)] s"

definition store_pending_rpl_step :: "mesh_config \<Rightarrow> nat \<Rightarrow> bt_mesh_state \<Rightarrow> bt_mesh_state" where
  "store_pending_rpl_step cfg i s =
     (let r = rpl s ! i
      in if rpl_store r then
           (let r' = r\<lparr>rpl_store := False\<rparr>
            in store_rpl cfg r' (s\<lparr>rpl := (rpl s)[i := r']\<rparr>))
         else s)"

definition store_pending_rpl :: "mesh_config \<Rightarrow> bt_mesh_state \<Rightarrow> bt_mesh_state" where
  "store_pending_rpl cfg s = fold (store_pending_rpl_step cfg) [0..<length (rpl s)] s"

definition store_pending_role :: "bt_mesh_state \<Rightarrow> bt_mesh_state" where
  "store_pending_role s =
     (if BT_MESH_PROVISIONER \<in> flags s then settings_save_one ''Role'' 1 [2] s
      else if BT_MESH_NODE \<in> flags s then settings_save_one ''Role'' 1 [1] s
      else s)"

definition store_pending_hb_pub :: "mesh_config \<Rightarrow> bt_mesh_state \<Rightarrow> bt_mesh_state" where
  "store_pending_hb_pub cfg s =
     (case bt_mesh_hb_pub_get s of
        None \<Rightarrow> s
      | Some pub \<Rightarrow>
          let bytes =
                (if hb_dst pub = BT_MESH_ADDR_UNASSIGNED then hb_pub_val_bytes 0 hb_pub_val_zero
                 else hb_pub_val_bytes (ucast (uninitialised cfg (length (log s))))
                        \<lparr>hv_dst = hb_dst pub, hv_period = hb_period pub, hv_ttl = hb_ttl pub,
                         hv_feat = hb_feat pub, hv_net_idx = ucast (hb_net_idx pub),
                         hv_indefinite = (hb_count pub = 0xffff)\<rparr>)
          in settings_save_one ''HBPub'' (nat sizeof_hb_pub_val) bytes s)"

definition store_pending_cfg :: "bt_mesh_state \<Rightarrow> bt_mesh_state" where
  "store_pending_cfg s =
     (case bt_mesh_cfg_get s of
        None \<Rightarrow> s
      | Some c \<Rightarrow>
          let v = \<lparr>cv_net_transmit = net_transmit c, cv_relay = relay c,
                   cv_relay_retransmit = relay_retransmit c, cv_beacon = beacon c,
                   cv_gatt_proxy = gatt_proxy c, cv_frnd = frnd c, cv_default_ttl = default_ttl c\<rparr>
          in settings_save_one ''Cfg'' (nat sizeof_cfg_val) (cfg_val_bytes v) s)"

definition clear_cfg :: "bt_mesh_state \<Rightarrow> bt_mesh_state" where
  "clear_cfg s = settings_save_one ''Cfg'' 0 [] s"

definition clear_app_key :: "u16 \<Rightarrow> bt_mesh_state \<Rightarrow> bt_mesh_state" where
  "clear_app_key app_idx s = settings_save_one (''AppKey/'' @ snprintk_x app_idx) 0 [] s"

definition clear_net_key :: "u16 \<Rightarrow> bt_mesh_state \<Rightarrow> bt_mesh_state" where
  "clear_net_key net_idx s = settings_save_one (''NetKey/'' @ snprintk_x net_idx) 0 [] s"

definition store_net_key :: "bt_mesh_subnet \<Rightarrow> bt_mesh_state \<Rightarrow> bt_mesh_state" where
  "store_net_key sb s =
     (let key = \<lparr>nk_kr_flag = sub_kr_flag sb, nk_kr_phase = ucast (sub_kr_phase sb),
                 nk_val0 = k_net (sub_keys0 sb), nk_val1 = k_net (sub_keys1 sb)\<rparr>
      in settings_save_one (''NetKey/'' @ snprintk_x (sub_net_idx sb))
           (nat sizeof_net_key_val) (net_key_val_bytes key) s)"

definition store_app_key :: "bt_mesh_app_key \<Rightarrow> bt_mesh_state \<Rightarrow> bt_mesh_state" where
  "store_app_key app s =
     (let key = \<lparr>ak_net_idx = app_net_idx app, ak_updated = app_updated app,
                 ak_val0 = app_keys0_val app, ak_val1 = app_keys1_val app\<rparr>
      in settings_save_one (''AppKey/'' @ snprintk_x (app_app_idx app))
           (nat sizeof_app_key_val) (app_key_val_bytes key) s)"

text \<open>
  The loop of \<^verbatim>\<open>store_pending_keys\<close>: \<open>key_update_write\<close> is what its body does for
  a valid entry before it invalidates the entry, \<open>store_pending_keys_step\<close> one
  round, on the entry at index \<open>i\<close>.
\<close>

definition key_update_write :: "key_update \<Rightarrow> bt_mesh_state \<Rightarrow> bt_mesh_state" where
  "key_update_write update s =
     (if ku_clear update then
        (if ku_app_key update then clear_app_key (ucast (ku_key_idx update)) s
         else clear_net_key (ucast (ku_key_idx update)) s)
      else
        (if ku_app_key update then
           (case bt_mesh_app_key_find (ucast (ku_key_idx update)) s of
              Some k \<Rightarrow> store_app_key (app_keys s ! k) s
            | None \<Rightarrow> s)
         else
           (case bt_mesh_subnet_get (ucast (ku_key_idx update)) s of
              Some b \<Rightarrow> store_net_key (sub s ! b) s
            | None \<Rightarrow> s)))"

definition store_pending_keys_step :: "nat \<Rightarrow> bt_mesh_state \<Rightarrow> bt_mesh_state" where
  "store_pending_keys_step i s =
     (let update = key_updates s ! i
      in if \<not> ku_valid update then s
         else
           let s1 = key_update_write update s
           in s1\<lparr>key_updates := (key_updates s1)[i := update\<lparr>ku_valid := False\<rparr>]\<rparr>)"

definition store_pending_keys :: "bt_mesh_state \<Rightarrow> bt_mesh_state" where
  "store_pending_keys s = fold store_pending_keys_step [0..<length (key_updates s)] s"

definition store_node :: "bt_mesh_node \<Rightarrow> bt_mesh_state \<Rightarrow> bt_mesh_state" where
  "store_node node s =
     (let v = \<lparr>dv_net_idx = node_net_idx node, dv_dev_key = node_dev_key node,
               dv_num_elem = node_num_elem node\<rparr>
      in settings_save_one (''Node/'' @ snprintk_x (node_addr node)) (nat sizeof_node_val) (node_val_bytes v) s)"

definition clear_node :: "u16 \<Rightarrow> bt_mesh_state \<Rightarrow> bt_mesh_state" where
  "clear_node addr s = settings_save_one (''Node/'' @ snprintk_x addr) 0 [] s"

definition store_pending_nodes_step :: "nat \<Rightarrow> bt_mesh_state \<Rightarrow> bt_mesh_state" where
  "store_pending_nodes_step i s =
     (let update = node_updates s ! i
      in if nu_addr update = BT_MESH_ADDR_UNASSIGNED then s
         else
           let s1 =
                 (if nu_clear update then clear_node (nu_addr update) s
                  else
                    (case bt_mesh_node_find (nu_addr update) s of
                       Some n \<Rightarrow> store_node (nodes s ! n) s
                     | None \<Rightarrow> s))
           in s1\<lparr>node_updates := (node_updates s1)[i := update\<lparr>nu_addr := BT_MESH_ADDR_UNASSIGNED\<rparr>]\<rparr>)"

definition store_pending_nodes :: "bt_mesh_state \<Rightarrow> bt_mesh_state" where
  "store_pending_nodes s = fold store_pending_nodes_step [0..<length (node_updates s)] s"

text \<open>The loop of \<^verbatim>\<open>node_update_find\<close>: the last match and the last free slot.\<close>

primrec node_update_loop :: "u16 \<Rightarrow> node_update list \<Rightarrow> nat \<Rightarrow> nat option \<Rightarrow> nat option \<Rightarrow> nat option \<times> nat option" where
  "node_update_loop addr [] i match free_slot = (match, free_slot)"
| "node_update_loop addr (update # rest) i match free_slot =
     (if nu_addr update = BT_MESH_ADDR_UNASSIGNED then node_update_loop addr rest (Suc i) match (Some i)
      else if nu_addr update = addr then node_update_loop addr rest (Suc i) (Some i) free_slot
      else node_update_loop addr rest (Suc i) match free_slot)"

definition node_update_find :: "u16 \<Rightarrow> bt_mesh_state \<Rightarrow> nat option \<times> nat option" where
  "node_update_find addr s = node_update_loop addr (node_updates s) 0 None None"

definition encode_mod_path :: "bt_mesh_model \<Rightarrow> bool \<Rightarrow> string \<Rightarrow> string" where
  "encode_mod_path md vnd key =
     (let mod_key = (push_bit 8 (ucast (mod_elem_idx md)) OR ucast (mod_mod_idx md) :: u16)
      in if vnd then ''v/'' @ snprintk_x mod_key @ ''/'' @ key
         else ''s/'' @ snprintk_x mod_key @ ''/'' @ key)"

definition store_pending_mod_bind :: "bt_mesh_model \<Rightarrow> bool \<Rightarrow> bt_mesh_state \<Rightarrow> bt_mesh_state" where
  "store_pending_mod_bind md vnd s =
     (let keys = filter (\<lambda>k. k \<noteq> BT_MESH_KEY_UNUSED) (mod_keys md);
          count = length keys
      in settings_save_one (encode_mod_path md vnd ''bind'') (count * 2) (u16s_bytes keys) s)"

definition store_pending_mod_sub :: "bt_mesh_model \<Rightarrow> bool \<Rightarrow> bt_mesh_state \<Rightarrow> bt_mesh_state" where
  "store_pending_mod_sub md vnd s =
     (let n = length (mod_groups md);
          found = filter (\<lambda>g. g \<noteq> BT_MESH_ADDR_UNASSIGNED) (mod_groups md);
          groups = found @ replicate (n - length found) 0
      in settings_save_one (encode_mod_path md vnd ''sub'') (n * 2) (u16s_bytes groups) s)"

definition store_pending_mod_pub :: "mesh_config \<Rightarrow> bt_mesh_model \<Rightarrow> bool \<Rightarrow> bt_mesh_state \<Rightarrow> bt_mesh_state" where
  "store_pending_mod_pub cfg md vnd s =
     (let bytes =
            (case mod_pub md of
               None \<Rightarrow> mod_pub_val_bytes 0 mod_pub_val_zero
             | Some p \<Rightarrow>
                 if pub_addr p = BT_MESH_ADDR_UNASSIGNED then mod_pub_val_bytes 0 mod_pub_val_zero
                 else mod_pub_val_bytes (ucast (uninitialised cfg (length (log s))))
                        \<lparr>mp_addr = pub_addr p, mp_key = pub_key p, mp_ttl = pub_ttl p,
                         mp_retransmit = pub_retransmit p, mp_period = pub_period p,
                         mp_period_div = pub_period_div p, mp_cred = pub_cred p\<rparr>)
      in settings_save_one (encode_mod_path md vnd ''pub'') (nat sizeof_mod_pub_val) bytes s)"

text \<open>\<^verbatim>\<open>store_pending_mod\<close> on the model at index \<open>m\<close>, as \<^verbatim>\<open>bt_mesh_model_foreach\<close>
  calls it.\<close>

definition store_pending_mod :: "mesh_config \<Rightarrow> nat \<Rightarrow> bt_mesh_state \<Rightarrow> bt_mesh_state" where
  "store_pending_mod cfg m s =
     (let vnd = mod_vnd (models s ! m)
      in if mod_flags (models s ! m) = {} then s
         else
           let s1 = (if BT_MESH_MOD_BIND_PENDING \<in> mod_flags (models s ! m) then
                       (let s' = upd_model m (\<lambda>md. md\<lparr>mod_flags := mod_flags md - {BT_MESH_MOD_BIND_PENDING}\<rparr>) s
                        in store_pending_mod_bind (models s' ! m) vnd s')
                     else s);
               s2 = (if BT_MESH_MOD_SUB_PENDING \<in> mod_flags (models s1 ! m) then
                       (let s' = upd_model m (\<lambda>md. md\<lparr>mod_flags := mod_flags md - {BT_MESH_MOD_SUB_PENDING}\<rparr>) s1
                        in store_pending_mod_sub (models s' ! m) vnd s')
                     else s1);
               s3 = (if BT_MESH_MOD_PUB_PENDING \<in> mod_flags (models s2 ! m) then
                       (let s' = upd_model m (\<lambda>md. md\<lparr>mod_flags := mod_flags md - {BT_MESH_MOD_PUB_PENDING}\<rparr>) s2
                        in store_pending_mod_pub cfg (models s' ! m) vnd s')
                     else s2)
           in s3)"

text \<open>
  One round of the loop of \<^verbatim>\<open>store_pending_va\<close>. For a deleted label (reference
  count 0) the binary branch zeroes the local structure and calls nothing.
\<close>

definition store_pending_va_step :: "nat \<Rightarrow> bt_mesh_state \<Rightarrow> bt_mesh_state" where
  "store_pending_va_step i s =
     (let lab = labels s ! i
      in if \<not> lab_changed lab then s
         else
           let s1 = s\<lparr>labels := (labels s)[i := lab\<lparr>lab_changed := False\<rparr>]\<rparr>
           in if lab_ref lab = 0 then s1
              else
                let va = \<lparr>vv_ref = lab_ref lab, vv_addr = lab_addr lab, vv_uuid = lab_uuid lab\<rparr>
                in settings_save_one (''Va/'' @ snprintk_x (of_nat i)) (nat sizeof_va_val) (va_val_bytes va) s1)"

definition store_pending_va :: "bt_mesh_state \<Rightarrow> bt_mesh_state" where
  "store_pending_va s = fold store_pending_va_step [0..<length (labels s)] s"

subsection \<open>The deferred store\<close>

text \<open>\<^verbatim>\<open>atomic_test_and_clear_bit(bt_mesh.flags, flag)\<close> followed by the body it guards.\<close>

definition test_and_clear :: "mesh_flag \<Rightarrow> (bt_mesh_state \<Rightarrow> bt_mesh_state) \<Rightarrow> bt_mesh_state \<Rightarrow> bt_mesh_state" where
  "test_and_clear flag body s =
     (if flag \<in> flags s then body (s\<lparr>flags := flags s - {flag}\<rparr>) else s)"

definition store_pending :: "mesh_config \<Rightarrow> bt_mesh_state \<Rightarrow> bt_mesh_state" where
  "store_pending cfg s =
     (let s1 = test_and_clear BT_MESH_RPL_PENDING
                 (\<lambda>s. if BT_MESH_VALID \<in> flags s then store_pending_rpl cfg s else clear_rpl s) s;
          s2 = test_and_clear BT_MESH_KEYS_PENDING store_pending_keys s1;
          s3 = test_and_clear BT_MESH_NET_PENDING
                 (\<lambda>s. if BT_MESH_VALID \<in> flags s then store_pending_net s else clear_net s) s2;
          s4 = test_and_clear BT_MESH_IV_PENDING
                 (\<lambda>s. if BT_MESH_VALID \<in> flags s then store_pending_iv s else clear_iv s) s3;
          s5 = test_and_clear BT_MESH_SEQ_PENDING store_pending_seq s4;
          s6 = test_and_clear BT_MESH_HB_PUB_PENDING (store_pending_hb_pub cfg) s5;
          s7 = test_and_clear BT_MESH_CFG_PENDING
                 (\<lambda>s. if BT_MESH_VALID \<in> flags s then store_pending_cfg s else clear_cfg s) s6;
          s8 = test_and_clear BT_MESH_MOD_PENDING
                 (\<lambda>s. fold (store_pending_mod cfg) [0..<length (models s)] s) s7;
          s9 = test_and_clear BT_MESH_VA_PENDING store_pending_va s8;
          s10 = test_and_clear BT_MESH_ROLE_PENDING store_pending_role s9;
          s11 = (if CONFIG_BT_MESH_PROVISIONER cfg
                 then test_and_clear BT_MESH_NODES_PENDING store_pending_nodes s10 else s10)
      in s11)"

subsection \<open>The storage interface of the stack\<close>

text \<open>\<^verbatim>\<open>bt_mesh_store_rpl(entry)\<close>, the entry given by its index in \<^verbatim>\<open>bt_mesh.rpl\<close>.\<close>

definition bt_mesh_store_rpl :: "mesh_config \<Rightarrow> nat \<Rightarrow> bt_mesh_state \<Rightarrow> bt_mesh_state" where
  "bt_mesh_store_rpl cfg i s =
     schedule_store cfg BT_MESH_RPL_PENDING (s\<lparr>rpl := (rpl s)[i := (rpl s ! i)\<lparr>rpl_store := True\<rparr>]\<rparr>)"

text \<open>
  The loop of \<^verbatim>\<open>key_update_find\<close>: it runs over the whole table and returns the last
  matching entry and, through \<^verbatim>\<open>free_slot\<close>, the last entry that is not valid. The
  12-bit index of an entry is compared with the 16-bit index asked for.
\<close>

primrec key_update_loop :: "bool \<Rightarrow> u16 \<Rightarrow> key_update list \<Rightarrow> nat \<Rightarrow> nat option \<Rightarrow> nat option \<Rightarrow> nat option \<times> nat option" where
  "key_update_loop app_key key_idx [] i match free_slot = (match, free_slot)"
| "key_update_loop app_key key_idx (update # rest) i match free_slot =
     (if \<not> ku_valid update then key_update_loop app_key key_idx rest (Suc i) match (Some i)
      else if ku_app_key update \<noteq> app_key then key_update_loop app_key key_idx rest (Suc i) match free_slot
      else if (ucast (ku_key_idx update) :: u16) = key_idx
           then key_update_loop app_key key_idx rest (Suc i) (Some i) free_slot
      else key_update_loop app_key key_idx rest (Suc i) match free_slot)"

definition key_update_find :: "bool \<Rightarrow> u16 \<Rightarrow> bt_mesh_state \<Rightarrow> nat option \<times> nat option" where
  "key_update_find app_key key_idx s = key_update_loop app_key key_idx (key_updates s) 0 None None"

definition upd_key_update :: "nat \<Rightarrow> (key_update \<Rightarrow> key_update) \<Rightarrow> bt_mesh_state \<Rightarrow> bt_mesh_state" where
  "upd_key_update i f s = s\<lparr>key_updates := (key_updates s)[i := f (key_updates s ! i)]\<rparr>"

definition bt_mesh_store_subnet :: "mesh_config \<Rightarrow> bt_mesh_subnet \<Rightarrow> bt_mesh_state \<Rightarrow> bt_mesh_state" where
  "bt_mesh_store_subnet cfg sb s =
     (case key_update_find False (sub_net_idx sb) s of
        (Some u, free_slot) \<Rightarrow>
          schedule_store cfg BT_MESH_KEYS_PENDING (upd_key_update u (\<lambda>k. k\<lparr>ku_clear := False\<rparr>) s)
      | (None, None) \<Rightarrow> store_net_key sb s
      | (None, Some f) \<Rightarrow>
          schedule_store cfg BT_MESH_KEYS_PENDING
            (upd_key_update f (\<lambda>k. k\<lparr>ku_valid := True, ku_key_idx := ucast (sub_net_idx sb),
                                      ku_app_key := False, ku_clear := False\<rparr>) s))"

definition bt_mesh_store_app_key :: "mesh_config \<Rightarrow> bt_mesh_app_key \<Rightarrow> bt_mesh_state \<Rightarrow> bt_mesh_state" where
  "bt_mesh_store_app_key cfg key s =
     (case key_update_find True (app_app_idx key) s of
        (Some u, free_slot) \<Rightarrow>
          schedule_store cfg BT_MESH_KEYS_PENDING (upd_key_update u (\<lambda>k. k\<lparr>ku_clear := False\<rparr>) s)
      | (None, None) \<Rightarrow> store_app_key key s
      | (None, Some f) \<Rightarrow>
          schedule_store cfg BT_MESH_KEYS_PENDING
            (upd_key_update f (\<lambda>k. k\<lparr>ku_valid := True, ku_key_idx := ucast (app_app_idx key),
                                      ku_app_key := True, ku_clear := False\<rparr>) s))"

definition bt_mesh_store_hb_pub :: "mesh_config \<Rightarrow> bt_mesh_state \<Rightarrow> bt_mesh_state" where
  "bt_mesh_store_hb_pub cfg s = schedule_store cfg BT_MESH_HB_PUB_PENDING s"

definition bt_mesh_store_cfg :: "mesh_config \<Rightarrow> bool \<Rightarrow> bt_mesh_state \<Rightarrow> bt_mesh_state" where
  "bt_mesh_store_cfg cfg flush s =
     (if flush then store_pending_cfg s else schedule_store cfg BT_MESH_CFG_PENDING s)"

definition bt_mesh_clear_net :: "mesh_config \<Rightarrow> bt_mesh_state \<Rightarrow> bt_mesh_state" where
  "bt_mesh_clear_net cfg s =
     schedule_store cfg BT_MESH_CFG_PENDING
       (schedule_store cfg BT_MESH_IV_PENDING (schedule_store cfg BT_MESH_NET_PENDING s))"

definition bt_mesh_clear_subnet :: "mesh_config \<Rightarrow> bt_mesh_subnet \<Rightarrow> bt_mesh_state \<Rightarrow> bt_mesh_state" where
  "bt_mesh_clear_subnet cfg sb s =
     (case key_update_find False (sub_net_idx sb) s of
        (Some u, free_slot) \<Rightarrow>
          schedule_store cfg BT_MESH_KEYS_PENDING (upd_key_update u (\<lambda>k. k\<lparr>ku_clear := True\<rparr>) s)
      | (None, None) \<Rightarrow> clear_net_key (sub_net_idx sb) s
      | (None, Some f) \<Rightarrow>
          schedule_store cfg BT_MESH_KEYS_PENDING
            (upd_key_update f (\<lambda>k. k\<lparr>ku_valid := True, ku_key_idx := ucast (sub_net_idx sb),
                                      ku_app_key := False, ku_clear := True\<rparr>) s))"

definition bt_mesh_clear_app_key :: "mesh_config \<Rightarrow> bt_mesh_app_key \<Rightarrow> bt_mesh_state \<Rightarrow> bt_mesh_state" where
  "bt_mesh_clear_app_key cfg key s =
     (case key_update_find True (app_app_idx key) s of
        (Some u, free_slot) \<Rightarrow>
          schedule_store cfg BT_MESH_KEYS_PENDING (upd_key_update u (\<lambda>k. k\<lparr>ku_clear := True\<rparr>) s)
      | (None, None) \<Rightarrow> clear_app_key (app_app_idx key) s
      | (None, Some f) \<Rightarrow>
          schedule_store cfg BT_MESH_KEYS_PENDING
            (upd_key_update f (\<lambda>k. k\<lparr>ku_valid := True, ku_key_idx := ucast (app_app_idx key),
                                      ku_app_key := True, ku_clear := True\<rparr>) s))"

definition bt_mesh_clear_rpl :: "bt_mesh_state \<Rightarrow> bt_mesh_state" where
  "bt_mesh_clear_rpl s = clear_rpl s"

definition bt_mesh_clear_seq :: "bt_mesh_state \<Rightarrow> bt_mesh_state" where
  "bt_mesh_clear_seq s = s\<lparr>seq := 0\<rparr>"

definition bt_mesh_store_mod_bind :: "mesh_config \<Rightarrow> nat \<Rightarrow> bt_mesh_state \<Rightarrow> bt_mesh_state" where
  "bt_mesh_store_mod_bind cfg m s =
     schedule_store cfg BT_MESH_MOD_PENDING
       (upd_model m (\<lambda>md. md\<lparr>mod_flags := insert BT_MESH_MOD_BIND_PENDING (mod_flags md)\<rparr>) s)"

definition bt_mesh_store_mod_sub :: "mesh_config \<Rightarrow> nat \<Rightarrow> bt_mesh_state \<Rightarrow> bt_mesh_state" where
  "bt_mesh_store_mod_sub cfg m s =
     schedule_store cfg BT_MESH_MOD_PENDING
       (upd_model m (\<lambda>md. md\<lparr>mod_flags := insert BT_MESH_MOD_SUB_PENDING (mod_flags md)\<rparr>) s)"

definition bt_mesh_store_mod_pub :: "mesh_config \<Rightarrow> nat \<Rightarrow> bt_mesh_state \<Rightarrow> bt_mesh_state" where
  "bt_mesh_store_mod_pub cfg m s =
     schedule_store cfg BT_MESH_MOD_PENDING
       (upd_model m (\<lambda>md. md\<lparr>mod_flags := insert BT_MESH_MOD_PUB_PENDING (mod_flags md)\<rparr>) s)"

definition bt_mesh_store_label :: "mesh_config \<Rightarrow> bt_mesh_state \<Rightarrow> bt_mesh_state" where
  "bt_mesh_store_label cfg s = schedule_store cfg BT_MESH_VA_PENDING s"

definition upd_node_update :: "nat \<Rightarrow> (node_update \<Rightarrow> node_update) \<Rightarrow> bt_mesh_state \<Rightarrow> bt_mesh_state" where
  "upd_node_update i f s = s\<lparr>node_updates := (node_updates s)[i := f (node_updates s ! i)]\<rparr>"

definition bt_mesh_store_node :: "mesh_config \<Rightarrow> bt_mesh_node \<Rightarrow> bt_mesh_state \<Rightarrow> bt_mesh_state" where
  "bt_mesh_store_node cfg node s =
     (case node_update_find (node_addr node) s of
        (Some u, free_slot) \<Rightarrow>
          schedule_store cfg BT_MESH_NODES_PENDING (upd_node_update u (\<lambda>k. k\<lparr>nu_clear := False\<rparr>) s)
      | (None, None) \<Rightarrow> store_node node s
      | (None, Some f) \<Rightarrow>
          schedule_store cfg BT_MESH_NODES_PENDING
            (upd_node_update f (\<lambda>k. k\<lparr>nu_addr := node_addr node\<rparr>) s))"

definition bt_mesh_clear_node :: "mesh_config \<Rightarrow> bt_mesh_node \<Rightarrow> bt_mesh_state \<Rightarrow> bt_mesh_state" where
  "bt_mesh_clear_node cfg node s =
     (case node_update_find (node_addr node) s of
        (Some u, free_slot) \<Rightarrow>
          schedule_store cfg BT_MESH_NODES_PENDING (upd_node_update u (\<lambda>k. k\<lparr>nu_clear := True\<rparr>) s)
      | (None, None) \<Rightarrow> clear_node (node_addr node) s
      | (None, Some f) \<Rightarrow>
          schedule_store cfg BT_MESH_NODES_PENDING
            (upd_node_update f (\<lambda>k. k\<lparr>nu_addr := node_addr node\<rparr>) s))"

text \<open>\<^verbatim>\<open>bt_mesh_model_data_store\<close> on the model at index \<open>m\<close>; \<open>data\<close> are the
  \<^verbatim>\<open>data_len\<close> bytes. The result is that of \<^verbatim>\<open>settings_save_one\<close>, which is 0.\<close>

definition bt_mesh_model_data_store :: "nat \<Rightarrow> bool \<Rightarrow> u8 list \<Rightarrow> bt_mesh_state \<Rightarrow> int \<times> bt_mesh_state" where
  "bt_mesh_model_data_store m vnd data s =
     (let path = encode_mod_path (models s ! m) vnd ''data''
      in if length data \<noteq> 0 then
           (0, settings_save_one path (length data) data
                 (upd_model m (\<lambda>md. md\<lparr>mod_flags := insert BT_MESH_MOD_DATA_PRESENT (mod_flags md)\<rparr>) s))
         else if BT_MESH_MOD_DATA_PRESENT \<in> mod_flags (models s ! m) then
           (0, settings_save_one path 0 []
                 (upd_model m (\<lambda>md. md\<lparr>mod_flags := mod_flags md - {BT_MESH_MOD_DATA_PRESENT}\<rparr>) s))
         else (0, s))"

subsection \<open>Loading\<close>

text \<open>
  Modelled from the spec: \<^verbatim>\<open>tls_mesh_store_retrieve\<close> is the iterator of the
  key-value store, outside settings.c. One scan yields the key and the bytes of every
  live record and then ends with 0, or with a negative code when the parameter
  area is not valid. \<^verbatim>\<open>conf_load\<close> zeroes its 128-byte value buffer before each call,
  so the handler sees the bytes of the record followed by zeros.
\<close>

record mesh_store =
  store_items :: "(string \<times> u8 list) list"
  store_end :: int

definition value_buffer :: "u8 list \<Rightarrow> u8 list" where
  "value_buffer bytes = bytes @ replicate (128 - length bytes) 0"

fun conf_load_loop :: "mesh_config \<Rightarrow> (string \<times> u8 list) list \<Rightarrow> bt_mesh_state \<Rightarrow> bt_mesh_state" where
  "conf_load_loop cfg [] s = s"
| "conf_load_loop cfg ((key, bytes) # rest) s =
     conf_load_loop cfg rest (snd (mesh_set_bin cfg key (value_buffer bytes) (int (length bytes)) s))"

definition conf_load :: "mesh_config \<Rightarrow> mesh_store \<Rightarrow> bt_mesh_state \<Rightarrow> int \<times> bt_mesh_state" where
  "conf_load cfg st s = (store_end st, conf_load_loop cfg (store_items st) s)"

definition bt_mesh_settings_load :: "mesh_config \<Rightarrow> mesh_store \<Rightarrow> bool \<Rightarrow> bt_mesh_state \<Rightarrow> int \<times> bt_mesh_state" where
  "bt_mesh_settings_load cfg st role_node s =
     (let (err, s1) = conf_load cfg st s
      in if err = 0 then
           (if (BT_MESH_NODE \<in> flags s1 \<and> role_node) \<or> (BT_MESH_PROVISIONER \<in> flags s1 \<and> \<not> role_node)
            then (err, snd (mesh_commit cfg s1))
            else (- 2, s1))
         else (err, s1))"

subsection \<open>A configuration and a state to run the functions on\<close>

definition example_config :: mesh_config where
  "example_config =
     \<lparr>CONFIG_BT_MESH_SEQ_STORE_RATE = 16, CONFIG_BT_MESH_RPL_STORE_TIMEOUT = 5,
      CONFIG_BT_MESH_STORE_TIMEOUT = 2, CONFIG_BT_MESH_GATT_PROXY = True,
      CONFIG_BT_MESH_PB_GATT = True, CONFIG_BT_MESH_PROVISIONER = True,
      bt_mesh_net_keys_create_fails = (\<lambda>k. False), bt_mesh_app_id = (\<lambda>k. 0),
      bt_mesh_model_pub_period_get = (\<lambda>m. 0), uninitialised = (\<lambda>n. 0xa5)\<rparr>"

definition key_update_zero :: key_update where
  "key_update_zero = \<lparr>ku_key_idx = 0, ku_valid = False, ku_app_key = False, ku_clear = False\<rparr>"

definition node_update_zero :: node_update where
  "node_update_zero = \<lparr>nu_addr = 0, nu_clear = False\<rparr>"

definition label_zero :: label where
  "label_zero = \<lparr>lab_ref = 0, lab_addr = 0, lab_uuid = replicate 16 0, lab_changed = False\<rparr>"

definition bt_mesh_app_key_zero :: bt_mesh_app_key where
  "bt_mesh_app_key_zero =
     \<lparr>app_net_idx = BT_MESH_KEY_UNUSED, app_app_idx = 0, app_updated = False,
      app_keys0_val = replicate 16 0, app_keys0_id = 0, app_keys1_val = replicate 16 0, app_keys1_id = 0\<rparr>"

text \<open>
  The state after boot and \<^verbatim>\<open>bt_mesh_settings_init\<close>, with two slots in every table:
  nothing provisioned, no flag set, the timer idle, no model.
\<close>

definition boot_state :: bt_mesh_state where
  "boot_state =
     \<lparr>flags = {}, seq = 0, iv_index = 0, ivu_duration = 0, dev_key = replicate 16 0,
      rpl = [bt_mesh_rpl_zero, bt_mesh_rpl_zero],
      sub = [bt_mesh_subnet_zero, bt_mesh_subnet_zero],
      app_keys = [bt_mesh_app_key_zero, bt_mesh_app_key_zero],
      nodes = [bt_mesh_node_zero, bt_mesh_node_zero],
      primary_addr = 0, models = [], labels = [label_zero, label_zero],
      cfg_srv = None, hb_pub = None, stored_cfg_valid = False, stored_cfg_cfg = cfg_val_zero,
      key_updates = [key_update_zero, key_update_zero],
      node_updates = [node_update_zero, node_update_zero],
      pending_store = None, log = []\<rparr>"

text \<open>The same state with both tables of pending updates full: updates for the
  network key 1 and the application key 2, and for the nodes 1 and 2.\<close>

definition full_tables_state :: bt_mesh_state where
  "full_tables_state =
     boot_state
       \<lparr>key_updates := [\<lparr>ku_key_idx = 1, ku_valid = True, ku_app_key = False, ku_clear = False\<rparr>,
                        \<lparr>ku_key_idx = 2, ku_valid = True, ku_app_key = True, ku_clear = True\<rparr>],
        node_updates := [\<lparr>nu_addr = 1, nu_clear = False\<rparr>, \<lparr>nu_addr = 2, nu_clear = True\<rparr>]\<rparr>"


text \<open>
  A provisioned node with one entity of every category: a SIG model (element 0,
  model 1) bound to the application key 2, subscribed to the group \<open>0xc000\<close> and
  publishing to \<open>0xc001\<close>; a replay entry for the source 3; the network key 1 and the
  application key 2; the node 4; a label in use, changed since it was last stored;
  a configuration server and a heartbeat publication. \<open>factory_state\<close> is the same
  device after a reboot, before anything is restored: its composition (the model,
  the configuration server, the heartbeat publication) is there and every table is
  empty.
\<close>

definition example_model :: bt_mesh_model where
  "example_model =
     \<lparr>mod_vnd = False, mod_elem_idx = 0, mod_mod_idx = 1,
      mod_keys = [2, BT_MESH_KEY_UNUSED], mod_groups = [0xc000, 0],
      mod_pub = Some \<lparr>pub_addr = 0xc001, pub_key = 2, pub_ttl = 5, pub_retransmit = 1,
                      pub_period = 10, pub_period_div = 0, pub_cred = False, pub_count = 0,
                      pub_update = False\<rparr>,
      mod_flags = {}, mod_cb_settings_set = None, mod_cb_settings_commit = False\<rparr>"

definition provisioned_state :: bt_mesh_state where
  "provisioned_state =
     boot_state
       \<lparr>flags := {BT_MESH_VALID, BT_MESH_NODE}, seq := 32, iv_index := 7, ivu_duration := 3,
        dev_key := replicate 16 1,
        rpl := [\<lparr>rpl_src = 3, rpl_old_iv = False, rpl_store = False, rpl_seq = 9\<rparr>, bt_mesh_rpl_zero],
        sub := [bt_mesh_subnet_zero\<lparr>sub_net_idx := 1\<rparr>, bt_mesh_subnet_zero],
        app_keys := [bt_mesh_app_key_zero\<lparr>app_net_idx := 1, app_app_idx := 2\<rparr>, bt_mesh_app_key_zero],
        nodes := [\<lparr>node_addr = 4, node_net_idx = 1, node_num_elem = 1, node_dev_key = replicate 16 2\<rparr>,
                  bt_mesh_node_zero],
        primary_addr := 5, models := [example_model],
        labels := [label_zero\<lparr>lab_ref := 1, lab_addr := 0x8000, lab_changed := True\<rparr>, label_zero],
        cfg_srv := Some \<lparr>net_transmit = 1, relay = 1, relay_retransmit = 2, beacon = 1,
                         gatt_proxy = 1, frnd = 0, default_ttl = 7\<rparr>,
        hb_pub := Some \<lparr>hb_dst = 6, hb_count = 0xffff, hb_ttl = 7, hb_period = 2, hb_feat = 1,
                        hb_net_idx = 1\<rparr>,
        stored_cfg_valid := True\<rparr>"

definition factory_state :: bt_mesh_state where
  "factory_state =
     boot_state
       \<lparr>models := [example_model\<lparr>mod_keys := [BT_MESH_KEY_UNUSED, BT_MESH_KEY_UNUSED],
                     mod_groups := [0, 0],
                     mod_pub := Some \<lparr>pub_addr = 0, pub_key = 0, pub_ttl = 0, pub_retransmit = 0,
                                     pub_period = 0, pub_period_div = 0, pub_cred = False,
                                     pub_count = 0, pub_update = False\<rparr>\<rparr>],
        cfg_srv := Some \<lparr>net_transmit = 0, relay = 0, relay_retransmit = 0, beacon = 1,
                         gatt_proxy = 0, frnd = 0, default_ttl = 7\<rparr>,
        hb_pub := Some \<lparr>hb_dst = 0, hb_count = 0, hb_ttl = 0, hb_period = 0, hb_feat = 0,
                        hb_net_idx = 0\<rparr>\<rparr>"

subsection \<open>Notions the properties are stated with\<close>

text \<open>The events a call added to the log, and whether an event writes to a key of
  the store.\<close>

definition new_events :: "bt_mesh_state \<Rightarrow> bt_mesh_state \<Rightarrow> event list" where
  "new_events s s' = drop (length (log s)) (log s')"

fun saves_to :: "string \<Rightarrow> event \<Rightarrow> bool" where
  "saves_to path (Settings_save p len bytes) = (p = path)"
| "saves_to path e = False"

text \<open>
  A pending key update is for a key when it is valid, of the same kind (application
  or network key) and carries the index. The table is exhausted for a key when
  every entry is valid and none is for the key; likewise the table of node updates
  for an address, where an entry is free when its address is unassigned.
\<close>

definition key_update_matches :: "bool \<Rightarrow> u16 \<Rightarrow> key_update \<Rightarrow> bool" where
  "key_update_matches app_key key_idx u =
     (ku_valid u \<and> ku_app_key u = app_key \<and> (ucast (ku_key_idx u) :: u16) = key_idx)"

definition key_updates_exhausted :: "bool \<Rightarrow> u16 \<Rightarrow> bt_mesh_state \<Rightarrow> bool" where
  "key_updates_exhausted app_key key_idx s =
     list_all (\<lambda>u. ku_valid u \<and> \<not> key_update_matches app_key key_idx u) (key_updates s)"

definition node_updates_exhausted :: "u16 \<Rightarrow> bt_mesh_state \<Rightarrow> bool" where
  "node_updates_exhausted addr s =
     list_all (\<lambda>u. nu_addr u \<noteq> BT_MESH_ADDR_UNASSIGNED \<and> nu_addr u \<noteq> addr) (node_updates s)"

text \<open>What the deferred store writes for one entry of the table of key updates: the
  events \<^verbatim>\<open>store_pending_keys\<close> adds in the round for the entry.\<close>

definition key_update_events :: "bt_mesh_state \<Rightarrow> key_update \<Rightarrow> event list" where
  "key_update_events s u = (if ku_valid u then new_events s (key_update_write u s) else [])"

definition key_path :: "bool \<Rightarrow> u16 \<Rightarrow> string" where
  "key_path app_key key_idx = (if app_key then ''AppKey/'' else ''NetKey/'') @ snprintk_x key_idx"

text \<open>
  For the deferred store: an event is a write to one of the three keys whose
  content depends on the valid flag, and a step from state \<open>a\<close> to state \<open>b\<close> leaves
  those categories alone when it keeps the flags and what the three records are
  made of, and only adds events that write elsewhere.
\<close>

definition core_key :: "event \<Rightarrow> bool" where
  "core_key e = (saves_to ''Net'' e \<or> saves_to ''IV'' e \<or> saves_to ''Cfg'' e)"

definition appends_others :: "bt_mesh_state \<Rightarrow> bt_mesh_state \<Rightarrow> bool" where
  "appends_others a b =
     (flags b = flags a \<and> primary_addr b = primary_addr a \<and> dev_key b = dev_key a \<and>
      iv_index b = iv_index a \<and> ivu_duration b = ivu_duration a \<and> cfg_srv b = cfg_srv a \<and>
      take (length (log a)) (log b) = log a \<and>
      list_all (\<lambda>e. \<not> core_key e) (new_events a b))"

text \<open>
  The deferred store seen from the state \<open>s\<close> it was called on: at an intermediate
  state \<open>a\<close> the pending flags of \<open>D\<close> have been cleared, what the three records are
  made of is untouched, and \<open>es\<close> are the writes to the three keys so far, in order.
\<close>

definition flush_stage :: "mesh_flag set \<Rightarrow> event list \<Rightarrow> bt_mesh_state \<Rightarrow> bt_mesh_state \<Rightarrow> bool" where
  "flush_stage D es s a =
     (flags a = flags s - D \<and> primary_addr a = primary_addr s \<and> dev_key a = dev_key s \<and>
      iv_index a = iv_index s \<and> ivu_duration a = ivu_duration s \<and> cfg_srv a = cfg_srv s \<and>
      take (length (log s)) (log a) = log s \<and>
      filter core_key (new_events s a) = es)"


text \<open>
  For the load: the events by which the commit activates the restored state (it
  derives network key material, submits timers and work, starts the network), and
  what it means that a step from \<open>a\<close> to \<open>b\<close> only restored: no such event, the valid
  flag and the store timer as they were.
\<close>

fun activation_event :: "event \<Rightarrow> bool" where
  "activation_event (Settings_save path len bytes) = False"
| "activation_event (Pending_store_submit t) = True"
| "activation_event (Ivu_timer_submit t) = True"
| "activation_event (Mod_pub_timer_submit vnd e m t) = True"
| "activation_event Hb_pub_work_submit = True"
| "activation_event (Call_comp_provision addr) = False"
| "activation_event Call_comp_unprovision = False"
| "activation_event (Call_subnet_del idx) = False"
| "activation_event (Call_app_key_del idx) = False"
| "activation_event (Call_node_del addr) = False"
| "activation_event (Call_net_keys_create idx half) = True"
| "activation_event (Call_net_beacon_update idx) = True"
| "activation_event Call_proxy_prov_disable = True"
| "activation_event Call_net_start = True"
| "activation_event (Call_mod_settings_set vnd e m bytes) = False"
| "activation_event (Call_mod_settings_commit vnd e m) = True"
| "activation_event (Memory_fault what) = False"

definition restore_only :: "bt_mesh_state \<Rightarrow> bt_mesh_state \<Rightarrow> bool" where
  "restore_only a b =
     ((BT_MESH_VALID \<in> flags b) = (BT_MESH_VALID \<in> flags a) \<and>
      pending_store b = pending_store a \<and>
      take (length (log a)) (log b) = log a \<and>
      list_all (\<lambda>e. \<not> activation_event e) (new_events a b))"

text \<open>
  The role a caller of \<^verbatim>\<open>bt_mesh_settings_load\<close> asks for, as the flag the function
  tests and as the byte \<^verbatim>\<open>role_set_bin\<close> sets that flag for. An item of the store
  carries a role when its key, up to the first \<^verbatim>\<open>/\<close>, is \<^verbatim>\<open>Role\<close> and the first byte of
  the buffer it is read into is that role's byte.
\<close>

definition role_flag :: "bool \<Rightarrow> mesh_flag" where
  "role_flag role_node = (if role_node then BT_MESH_NODE else BT_MESH_PROVISIONER)"

definition role_byte :: "bool \<Rightarrow> u8" where
  "role_byte role_node = (if role_node then 1 else 2)"

definition stores_role :: "bool \<Rightarrow> string \<times> u8 list \<Rightarrow> bool" where
  "stores_role role_node item =
     (takeWhile (\<lambda>c. c \<noteq> CHR ''/'') (fst item) = ''Role'' \<and>
      value_buffer (snd item) ! 0 = role_byte role_node)"

fun memory_fault :: "event \<Rightarrow> bool" where
  "memory_fault (Memory_fault what) = True"
| "memory_fault e = False"

text \<open>
  Modelled from the spec: the key-value store behind \<^verbatim>\<open>settings_save_one\<close> and
  \<^verbatim>\<open>tls_mesh_store_retrieve\<close> is outside settings.c. The spec has a write of length 0
  delete the key and the scan yield the value last written for every live key:
  \<open>restore_saved\<close> hands what a write event saved to \<^verbatim>\<open>mesh_set_bin\<close> the way \<^verbatim>\<open>conf_load\<close>
  hands it a record (the key, the bytes in the zeroed buffer, and their number),
  and hands it nothing for a write of length 0, after which there is no record.
  \<open>saved_last\<close> is the last thing a state did.
\<close>

fun restore_saved :: "mesh_config \<Rightarrow> event \<Rightarrow> bt_mesh_state \<Rightarrow> int \<times> bt_mesh_state" where
  "restore_saved cfg (Settings_save path len bytes) t =
     (if len = 0 then (0, t) else mesh_set_bin cfg path (value_buffer bytes) (int len) t)"
| "restore_saved cfg e t = (0, t)"

definition saved_last :: "bt_mesh_state \<Rightarrow> event" where
  "saved_last s = last (log s)"

section \<open>Properties\<close>

subsection \<open>The example configuration and state, field by field\<close>

lemma example_config_simps:
  "CONFIG_BT_MESH_SEQ_STORE_RATE example_config = 16"
  "CONFIG_BT_MESH_RPL_STORE_TIMEOUT example_config = 5"
  "CONFIG_BT_MESH_STORE_TIMEOUT example_config = 2"
  "CONFIG_BT_MESH_GATT_PROXY example_config = True"
  "CONFIG_BT_MESH_PB_GATT example_config = True"
  "CONFIG_BT_MESH_PROVISIONER example_config = True"
  by (simp_all add: example_config_def)

lemma boot_state_simps:
  "flags boot_state = {}"
  "seq boot_state = 0"
  "pending_store boot_state = None"
  "log boot_state = []"
  "labels boot_state = [label_zero, label_zero]"
  "models boot_state = []"
  "cfg_srv boot_state = None"
  "hb_pub boot_state = None"
  "key_updates boot_state = [key_update_zero, key_update_zero]"
  "node_updates boot_state = [node_update_zero, node_update_zero]"
  "sub boot_state = [bt_mesh_subnet_zero, bt_mesh_subnet_zero]"
  "app_keys boot_state = [bt_mesh_app_key_zero, bt_mesh_app_key_zero]"
  "rpl boot_state = [bt_mesh_rpl_zero, bt_mesh_rpl_zero]"
  "nodes boot_state = [bt_mesh_node_zero, bt_mesh_node_zero]"
  by (simp_all add: boot_state_def)

lemma provisioned_state_simps:
  "flags provisioned_state = {BT_MESH_VALID, BT_MESH_NODE}"
  "seq provisioned_state = 32"
  "iv_index provisioned_state = 7"
  "ivu_duration provisioned_state = 3"
  "dev_key provisioned_state = replicate 16 1"
  "rpl provisioned_state = [\<lparr>rpl_src = 3, rpl_old_iv = False, rpl_store = False, rpl_seq = 9\<rparr>, bt_mesh_rpl_zero]"
  "sub provisioned_state = [bt_mesh_subnet_zero\<lparr>sub_net_idx := 1\<rparr>, bt_mesh_subnet_zero]"
  "app_keys provisioned_state = [bt_mesh_app_key_zero\<lparr>app_net_idx := 1, app_app_idx := 2\<rparr>, bt_mesh_app_key_zero]"
  "nodes provisioned_state = [\<lparr>node_addr = 4, node_net_idx = 1, node_num_elem = 1, node_dev_key = replicate 16 2\<rparr>,
                  bt_mesh_node_zero]"
  "primary_addr provisioned_state = 5"
  "models provisioned_state = [example_model]"
  "labels provisioned_state = [label_zero\<lparr>lab_ref := 1, lab_addr := 0x8000, lab_changed := True\<rparr>, label_zero]"
  "cfg_srv provisioned_state = Some \<lparr>net_transmit = 1, relay = 1, relay_retransmit = 2, beacon = 1,
                         gatt_proxy = 1, frnd = 0, default_ttl = 7\<rparr>"
  "hb_pub provisioned_state = Some \<lparr>hb_dst = 6, hb_count = 0xffff, hb_ttl = 7, hb_period = 2, hb_feat = 1,
                        hb_net_idx = 1\<rparr>"
  "stored_cfg_valid provisioned_state = True"
  "log provisioned_state = []"
  by (simp_all add: provisioned_state_def boot_state_simps)

lemma factory_state_simps:
  "models factory_state = [example_model\<lparr>mod_keys := [BT_MESH_KEY_UNUSED, BT_MESH_KEY_UNUSED],
                     mod_groups := [0, 0],
                     mod_pub := Some \<lparr>pub_addr = 0, pub_key = 0, pub_ttl = 0, pub_retransmit = 0,
                                     pub_period = 0, pub_period_div = 0, pub_cred = False,
                                     pub_count = 0, pub_update = False\<rparr>\<rparr>]"
  "cfg_srv factory_state = Some \<lparr>net_transmit = 0, relay = 0, relay_retransmit = 0, beacon = 1,
                         gatt_proxy = 0, frnd = 0, default_ttl = 7\<rparr>"
  "hb_pub factory_state = Some \<lparr>hb_dst = 0, hb_count = 0, hb_ttl = 0, hb_period = 0, hb_feat = 0,
                        hb_net_idx = 0\<rparr>"
  "rpl factory_state = [bt_mesh_rpl_zero, bt_mesh_rpl_zero]"
  "sub factory_state = [bt_mesh_subnet_zero, bt_mesh_subnet_zero]"
  "app_keys factory_state = [bt_mesh_app_key_zero, bt_mesh_app_key_zero]"
  "nodes factory_state = [bt_mesh_node_zero, bt_mesh_node_zero]"
  "labels factory_state = [label_zero, label_zero]"
  "flags factory_state = {}"
  "seq factory_state = 0"
  "log factory_state = []"
  by (simp_all add: factory_state_def boot_state_simps)

lemma strtol16_examples:
  "strtol16 ''3'' = 3" "strtol16 ''1'' = 1" "strtol16 ''2'' = 2" "strtol16 ''4'' = 4" "strtol16 ''0'' = 0"
  by (simp_all add: strtol16_def isspace_def hex_value_def LONG_MAX_def LONG_MIN_def)

subsection \<open>Formatting an index is injective\<close>

text \<open>Parsing the digits that \<^verbatim>\<open>%x\<close> prints gives the number back, so two indices with
  the same path are the same index.\<close>

lemma hex_value_hex_digit: "d < 16 \<Longrightarrow> hex_value (hex_digit d) = Some d"
proof -
  have "\<forall>d \<in> set [0..<16]. hex_value (hex_digit d) = Some d"
    by (simp add: upt_conv_Cons hex_value_def hex_digit_def Let_def)
  then show "d < 16 \<Longrightarrow> hex_value (hex_digit d) = Some d"
    by simp
qed

lemma strtol_digits_map_hex:
  "list_all (\<lambda>d. d < 16) ds \<Longrightarrow>
   strtol_digits acc (map hex_digit ds) = fold (\<lambda>d a. a * 16 + int d) ds acc"
  by (induction ds arbitrary: acc) (simp_all add: hex_value_hex_digit)

lemma fold_dropWhile_zero:
  "fold (\<lambda>d a. a * 16 + int d) (dropWhile (\<lambda>d. d = 0) ds) 0 = fold (\<lambda>d a. a * 16 + int d) ds 0"
  by (induction ds) simp_all

lemma u16_nibbles:
  fixes x :: u16
  shows "unat (drop_bit 12 x) * 4096 + unat (take_bit 4 (drop_bit 8 x)) * 256
       + unat (take_bit 4 (drop_bit 4 x)) * 16 + unat (take_bit 4 x) = unat x"
proof -
  define n where "n = unat x"
  have a: "unat (drop_bit 12 x) = n div 4096"
    unfolding n_def unat_drop_bit_eq by (simp add: drop_bit_eq_div)
  have b: "unat (take_bit 4 (drop_bit 8 x)) = (n div 256) mod 16"
    unfolding n_def unsigned_take_bit_eq unat_drop_bit_eq by (simp add: drop_bit_eq_div take_bit_eq_mod)
  have c: "unat (take_bit 4 (drop_bit 4 x)) = (n div 16) mod 16"
    unfolding n_def unsigned_take_bit_eq unat_drop_bit_eq by (simp add: drop_bit_eq_div take_bit_eq_mod)
  have d: "unat (take_bit 4 x) = n mod 16"
    unfolding n_def unsigned_take_bit_eq by (simp add: take_bit_eq_mod)
  have e1: "n = (n div 16) * 16 + n mod 16" by simp
  have q1: "n div 16 div 16 = n div 256" and q2: "n div 256 div 16 = n div 4096"
    by (simp_all add: div_mult2_eq [symmetric])
  have e2: "n div 16 = (n div 256) * 16 + (n div 16) mod 16"
    using div_mult_mod_eq [of "n div 16" 16] by (simp only: q1)
  have e3: "n div 256 = (n div 4096) * 16 + (n div 256) mod 16"
    using div_mult_mod_eq [of "n div 256" 16] by (simp only: q2)
  show ?thesis
    unfolding a b c d n_def [symmetric]
    using e1 e2 e3 by linarith
qed

lemma strtol_digits_snprintk_x: "strtol_digits 0 (snprintk_x x) = int (unat x)"
proof -
  define ds where "ds = [unat (drop_bit 12 x), unat (take_bit 4 (drop_bit 8 x)),
              unat (take_bit 4 (drop_bit 4 x)), unat (take_bit 4 x)]"
  have lt4: "unat (take_bit 4 w) < 16" for w :: u16
    unfolding unsigned_take_bit_eq by (simp add: take_bit_eq_mod)
  have "unat x < 2 ^ LENGTH(16)" by (fact unsigned_less)
  then have top: "unat (drop_bit 12 x) < 16"
    unfolding unat_drop_bit_eq by (simp add: drop_bit_eq_div)
  have all: "list_all (\<lambda>d. d < 16) ds"
    by (simp add: ds_def lt4 top)
  have "fold (\<lambda>d a. a * 16 + int d) [a, b, c, d] 0 = int (a * 4096 + b * 256 + c * 16 + d)"
    for a b c d :: nat
    by simp
  then have val: "fold (\<lambda>d a. a * 16 + int d) ds 0 = int (unat x)"
    unfolding ds_def by (simp only: u16_nibbles)
  show ?thesis
  proof (cases "dropWhile (\<lambda>d. d = 0) ds")
    case Nil
    have "fold (\<lambda>d a. a * 16 + int d) (dropWhile (\<lambda>d. d = 0) ds) 0 = 0"
      unfolding Nil by simp
    then have "int (unat x) = 0" by (simp only: fold_dropWhile_zero val)
    moreover have "snprintk_x x = ''0''"
      using Nil by (simp add: snprintk_x_def ds_def)
    ultimately show ?thesis by (simp add: hex_value_def Let_def)
  next
    case (Cons d ds')
    have sub: "list_all (\<lambda>d. d < 16) (dropWhile (\<lambda>d. d = 0) ds)"
      using all by (metis list_all_append takeWhile_dropWhile_id)
    have "snprintk_x x = map hex_digit (dropWhile (\<lambda>d. d = 0) ds)"
      using Cons by (simp add: snprintk_x_def ds_def)
    then show ?thesis
      by (simp only: strtol_digits_map_hex [OF sub] fold_dropWhile_zero val)
  qed
qed

lemma snprintk_x_inject: "snprintk_x x = snprintk_x y \<Longrightarrow> x = y"
proof -
  assume "snprintk_x x = snprintk_x y"
  then have "strtol_digits 0 (snprintk_x x) = strtol_digits 0 (snprintk_x y)" by simp
  then have "unat x = unat y" by (simp only: strtol_digits_snprintk_x of_nat_eq_iff)
  then show "x = y" by (simp add: word_unat_eq_iff)
qed

text \<open>What \<^verbatim>\<open>strtol\<close> reads back from a formatted index, alone or followed by \<^verbatim>\<open>/\<close>.\<close>

lemma hex_digit_facts:
  assumes "d < 16"
  shows "\<not> isspace (hex_digit d)" "hex_digit d \<noteq> CHR ''-''" "hex_digit d \<noteq> CHR ''+''"
    "hex_digit d \<noteq> CHR ''/''" "hex_digit d \<noteq> CHR ''s''" "hex_digit d \<noteq> CHR ''i''"
    "(hex_digit d = CHR ''0'') = (d = 0)"
proof -
  have "\<forall>d \<in> set [0..<16]. \<not> isspace (hex_digit d) \<and> hex_digit d \<noteq> CHR ''-'' \<and>
      hex_digit d \<noteq> CHR ''+'' \<and> hex_digit d \<noteq> CHR ''/'' \<and> hex_digit d \<noteq> CHR ''s'' \<and>
      hex_digit d \<noteq> CHR ''i'' \<and> ((hex_digit d = CHR ''0'') = (d = 0))"
    by (simp add: upt_conv_Cons hex_digit_def isspace_def)
  then show "\<not> isspace (hex_digit d)" "hex_digit d \<noteq> CHR ''-''" "hex_digit d \<noteq> CHR ''+''"
    "hex_digit d \<noteq> CHR ''/''" "hex_digit d \<noteq> CHR ''s''" "hex_digit d \<noteq> CHR ''i''"
    "(hex_digit d = CHR ''0'') = (d = 0)"
    using assms by simp_all
qed

lemma snprintk_x_digits:
  "\<exists>ds. snprintk_x x = map hex_digit ds \<and> ds \<noteq> [] \<and> list_all (\<lambda>d. d < 16) ds \<and>
     (hd ds = 0 \<longrightarrow> ds = [0])"
proof -
  define all where "all = [unat (drop_bit 12 x), unat (take_bit 4 (drop_bit 8 x)),
              unat (take_bit 4 (drop_bit 4 x)), unat (take_bit 4 x)]"
  have lt4: "unat (take_bit 4 w) < 16" for w :: u16
    unfolding unsigned_take_bit_eq by (simp add: take_bit_eq_mod)
  have "unat x < 2 ^ LENGTH(16)" by (fact unsigned_less)
  then have "unat (drop_bit 12 x) < 16"
    unfolding unat_drop_bit_eq by (simp add: drop_bit_eq_div)
  then have a: "list_all (\<lambda>d. d < 16) all"
    by (simp add: all_def lt4)
  define ds where "ds = dropWhile (\<lambda>d. d = 0) all"
  have b: "list_all (\<lambda>d. d < 16) ds"
    using a unfolding ds_def list_all_iff by (meson set_dropWhileD)
  have e: "snprintk_x x = (case ds of [] \<Rightarrow> ''0'' | _ \<Rightarrow> map hex_digit ds)"
    unfolding snprintk_x_def ds_def all_def by (simp split: list.split)
  show ?thesis
  proof (cases ds)
    case Nil
    have "snprintk_x x = map hex_digit [0]"
      unfolding e Nil by (simp add: hex_digit_def)
    then show ?thesis
      by (intro exI [of _ "[0]"]) simp
  next
    case (Cons d rest)
    have "d \<noteq> 0"
      using hd_dropWhile [of "\<lambda>d. d = 0" all] Cons unfolding ds_def by auto
    then have "hd ds = 0 \<longrightarrow> ds = [0]"
      unfolding Cons by simp
    moreover have "snprintk_x x = map hex_digit ds"
      unfolding e Cons by simp
    moreover have "ds \<noteq> []"
      unfolding Cons by simp
    ultimately show ?thesis
      using b by (intro exI [of _ ds]) simp
  qed
qed

lemma strtol_digits_append_stop:
  assumes "list_all (\<lambda>d. d < 16) ds" and "rest = [] \<or> hd rest = CHR ''/''"
  shows "strtol_digits acc (map hex_digit ds @ rest) = strtol_digits acc (map hex_digit ds)"
  using assms(1)
proof (induction ds arbitrary: acc)
  case Nil
  show ?case
  proof (cases rest)
    case Nil
    then show ?thesis by simp
  next
    case (Cons c cs)
    then have "c = CHR ''/''" using assms(2) by simp
    then show ?thesis unfolding Cons by (simp add: hex_value_def)
  qed
next
  case (Cons d ds)
  then show ?case
    by (simp add: hex_value_hex_digit)
qed

lemma strtol16_snprintk_x:
  assumes rest: "rest = [] \<or> hd rest = CHR ''/''"
  shows "strtol16 (snprintk_x x @ rest) = int (unat x)"
proof -
  obtain ds where ds: "snprintk_x x = map hex_digit ds" "ds \<noteq> []" "list_all (\<lambda>d. d < 16) ds"
    "hd ds = 0 \<longrightarrow> ds = [0]"
    using snprintk_x_digits [of x] by (elim exE conjE)
  obtain d ds' where c: "ds = d # ds'"
    using ds(2) by (cases ds) auto
  have d: "d < 16" using ds(3) unfolding c by simp
  define str where "str = hex_digit d # map hex_digit ds' @ rest"
  have str: "snprintk_x x @ rest = str"
    unfolding ds(1) c str_def by simp
  have s1: "dropWhile isspace str = str"
    unfolding str_def by (simp add: hex_digit_facts [OF d])
  have nopre: "(case str of
                  a # b # c # r \<Rightarrow>
                    if a = CHR ''0'' \<and> (b = CHR ''x'' \<or> b = CHR ''X'') \<and> hex_value c \<noteq> None
                    then c # r else str
                | _ \<Rightarrow> str) = str"
  proof (cases "d = 0")
    case True
    then have "ds' = []" using ds(4) unfolding c by simp
    then show ?thesis
      using rest unfolding str_def by (cases rest) (auto split: list.splits)
  next
    case False
    then show ?thesis
      unfolding str_def by (simp add: hex_digit_facts [OF d] split: list.splits)
  qed
  have v: "strtol_digits 0 str = int (unat x)"
    using strtol_digits_append_stop [OF ds(3) rest, of 0] strtol_digits_snprintk_x [of x]
    unfolding ds(1) [symmetric] str by simp
  define n where "n = int (unat x)"
  have "uint x < 2 ^ LENGTH(16)" by (fact unsigned_less)
  then have bnd: "0 \<le> n" "n \<le> 65535"
    unfolding n_def by simp_all
  have "strtol16 str = max LONG_MIN (min LONG_MAX (int (unat x)))"
    unfolding strtol16_def Let_def s1
    unfolding str_def list.case
    using nopre [unfolded str_def] v [unfolded str_def]
    by (simp add: hex_digit_facts [OF d])
  then have "strtol16 str = max LONG_MIN (min LONG_MAX n)"
    unfolding n_def .
  then have "strtol16 str = n"
    using bnd by (simp add: LONG_MAX_def LONG_MIN_def)
  then show ?thesis
    unfolding str n_def .
qed

lemma key_index_round_trip:
  "(word_of_int (strtol16 (snprintk_x x)) :: u16) = x"
  "(word_of_int (strtol16 (snprintk_x x @ CHR ''/'' # tail)) :: u16) = x"
  using strtol16_snprintk_x [of "[]" x] strtol16_snprintk_x [of "CHR ''/'' # tail" x]
  by simp_all

subsection \<open>Sequence restore law\<close>

lemma unat_u8_less: "unat (b :: u8) < 256"
proof -
  have "unat b < 2 ^ LENGTH(8)" by (fact unsigned_less)
  then show ?thesis by simp
qed

lemma seq_bytes_bound:
  fixes b0 b1 b2 :: u8
  shows "unat b0 + 256 * unat b1 + 65536 * unat b2 < 2 ^ 24"
  using unat_u8_less [of b0] unat_u8_less [of b1] unat_u8_less [of b2] by simp

lemma seq_bytes_value:
  fixes b0 b1 b2 :: u8
  shows "unat ((ucast b0 :: u32) OR push_bit 8 (ucast b1) OR push_bit 16 (ucast b2))
       = unat b0 + 256 * unat b1 + 65536 * unat b2"
proof -
  define N where "N = unat b0 + 256 * unat b1 + 65536 * unat b2"
  have d1: "(push_bit 8 (ucast b1) :: u32) + push_bit 16 (ucast b2) = push_bit 8 (ucast b1) OR push_bit 16 (ucast b2)"
    by (rule disjunctive_add) (auto simp: bit_simps dest: bit_imp_le_length)
  have d2: "(ucast b0 :: u32) + (push_bit 8 (ucast b1) OR push_bit 16 (ucast b2))
          = ucast b0 OR (push_bit 8 (ucast b1) OR push_bit 16 (ucast b2))"
    by (rule disjunctive_add) (auto simp: bit_simps dest: bit_imp_le_length)
  have "(ucast b0 :: u32) OR push_bit 8 (ucast b1) OR push_bit 16 (ucast b2)
      = ucast b0 + (push_bit 8 (ucast b1) + push_bit 16 (ucast b2))"
    by (simp only: d1 d2)
  also have "\<dots> = of_nat N"
    by (simp add: N_def push_bit_eq_mult)
  finally have e: "(ucast b0 :: u32) OR push_bit 8 (ucast b1) OR push_bit 16 (ucast b2) = of_nat N" .
  have "N < 2 ^ 32"
    using seq_bytes_bound [of b0 b1 b2] by (simp add: N_def)
  then have "unat (of_nat N :: u32) = N"
    by (simp add: unat_of_nat)
  then show ?thesis
    by (simp only: e N_def)
qed

lemma positive_int_rate1:
  fixes r :: u32
  assumes "0 <s r"
  shows "0 < unat r"
  using assms by (simp add: signed.neq_iff unat_gt_0)

lemma positive_int_rate2:
  fixes r :: u32
  assumes "0 <s r"
  shows "unat r < 2 ^ 31"
proof -
  have "0 < sint r" using assms by (simp add: word_sless_alt)
  then have "\<not> sint r < 0" by simp
  then have "\<not> bit (uint r) 31"
    by (simp add: sint_uint)
  then have ev: "even (uint r div 2 ^ 31)"
    by (simp add: bit_iff_odd)
  have "uint r < 2 ^ LENGTH(32)" by (fact unsigned_less)
  then have lt: "uint r < 4294967296" by simp
  have ge: "0 \<le> uint r" by simp
  have "uint r < 2 ^ 31"
  proof (rule ccontr)
    assume "\<not> uint r < 2 ^ 31"
    then have "2147483648 \<le> uint r" by simp
    then have big: "2147483648 \<le> uint r" .
    define y where "y = uint r - 2147483648"
    have y: "uint r = y + 2147483648" "0 \<le> y" "y < 2147483648"
      using lt big by (simp_all add: y_def)
    have "(y + 2147483648) div 2147483648 = y div 2147483648 + 1"
      by (rule div_add_self2) simp
    with y have "uint r div 2147483648 = 1" by simp
    with ev show False by simp
  qed
  then show ?thesis
    apply (subst (asm) uint_nat) apply (simp only: of_nat_less_numeral_power_cancel_iff) done
qed

lemma seq_round_up:
  fixes sq rate :: u32
  assumes "0 <s rate" and "unat sq < 2 ^ 24"
  shows "unat ((sq + (rate - sq mod rate)) - 1) = unat sq + (unat rate - unat sq mod unat rate) - 1"
proof -
  have R: "0 < unat rate" "unat rate < 2 ^ 31"
    using assms(1) by (rule positive_int_rate1, rule positive_int_rate2)
  have m: "unat (sq mod rate) = unat sq mod unat rate"
    by (rule unat_mod)
  have mlt: "unat sq mod unat rate < unat rate"
    using R(1) by simp
  then have "sq mod rate \<le> rate"
    by (simp add: word_le_nat_alt m)
  then have d: "unat (rate - sq mod rate) = unat rate - unat sq mod unat rate"
    by (simp add: unat_sub m)
  have "unat sq + unat (rate - sq mod rate) < 2 ^ 32"
    using assms(2) R(2) by (simp add: d)
  then have "unat sq + unat (rate - sq mod rate) < 2 ^ LENGTH(32)"
    by simp
  then have a: "unat (sq + (rate - sq mod rate)) = unat sq + (unat rate - unat sq mod unat rate)"
    by (simp only: unat_add_lem [THEN iffD1] d)
  then have "0 < unat (sq + (rate - sq mod rate))"
    using mlt by simp
  then have "sq + (rate - sq mod rate) \<noteq> 0"
    by (simp add: unat_gt_0)
  then have "unat ((sq + (rate - sq mod rate)) - 1) = unat (sq + (rate - sq mod rate)) - 1"
    by (rule unat_minus_one)
  then show ?thesis
    by (simp only: a)
qed

text \<open>
  Claim C1. For a persisted 3-byte sequence value \<open>S\<close> (the bytes \<open>lo\<close>, \<open>mid\<close>,
  \<open>hi\<close>, little-endian) and a configured store rate \<open>R > 0\<close>, \<^verbatim>\<open>seq_set_bin\<close> succeeds
  and leaves the in-memory sequence number at \<open>S + (R - S mod R) - 1\<close>, computed in
  32 bits without wrap-around; the restored value is never below \<open>S\<close>.
\<close>

theorem seq_restore_law:
  fixes lo mid hi :: u8
  assumes "0 <s CONFIG_BT_MESH_SEQ_STORE_RATE cfg"
    and "S = unat lo + 256 * unat mid + 65536 * unat hi"
    and "R = unat (CONFIG_BT_MESH_SEQ_STORE_RATE cfg)"
  shows "fst (seq_set_bin cfg key [lo, mid, hi] 3 s) = 0
       \<and> unat (seq (snd (seq_set_bin cfg key [lo, mid, hi] 3 s))) = S + (R - S mod R) - 1
       \<and> S \<le> unat (seq (snd (seq_set_bin cfg key [lo, mid, hi] 3 s)))"
proof -
  define sq :: u32 where "sq = ucast lo OR push_bit 8 (ucast mid) OR push_bit 16 (ucast hi)"
  have S: "unat sq = S"
    by (simp only: sq_def seq_bytes_value assms(2))
  have lt: "unat sq < 2 ^ 24"
    using seq_bytes_bound [of lo mid hi] by (simp only: S assms(2))
  have r: "unat ((sq + (CONFIG_BT_MESH_SEQ_STORE_RATE cfg - sq mod CONFIG_BT_MESH_SEQ_STORE_RATE cfg)) - 1)
         = S + (R - S mod R) - 1"
    using seq_round_up [OF assms(1) lt] by (simp only: S assms(3))
  have run: "seq_set_bin cfg key [lo, mid, hi] 3 s
       = (0, s\<lparr>seq := (sq + (CONFIG_BT_MESH_SEQ_STORE_RATE cfg - sq mod CONFIG_BT_MESH_SEQ_STORE_RATE cfg)) - 1\<rparr>)"
    using assms(1) by (simp add: seq_set_bin_def sizeof_seq_val_def sq_def Let_def)
  have "0 < R" using positive_int_rate1 [OF assms(1)] by (simp add: assms(3))
  then have "S mod R < R" by simp
  then have "S \<le> S + (R - S mod R) - 1" by simp
  then show ?thesis
    by (simp add: run r)
qed

text \<open>The example of the spec: \<open>S = 100\<close>, \<open>R = 16\<close> restores 111.\<close>

theorem seq_restore_law_witness:
  "0 <s CONFIG_BT_MESH_SEQ_STORE_RATE example_config
   \<and> fst (seq_set_bin example_config ''Seq'' [100, 0, 0] 3 boot_state) = 0
   \<and> unat (seq (snd (seq_set_bin example_config ''Seq'' [100, 0, 0] 3 boot_state))) = 111"
proof -
  have h: "0 <s CONFIG_BT_MESH_SEQ_STORE_RATE example_config"
    by (simp add: example_config_def word_sless_alt)
  show ?thesis
    using h seq_restore_law [OF h refl refl, where lo = 100 and mid = 0 and hi = 0 and key = "''Seq''"
        and s = boot_state]
    by (simp add: example_config_def)
qed

subsection \<open>The scheduler\<close>

lemma no_wait_pending_iff: "(F \<inter> NO_WAIT_PENDING_BITS \<noteq> {}) =
      (BT_MESH_NET_PENDING \<in> F \<or> BT_MESH_IV_PENDING \<in> F \<or> BT_MESH_ROLE_PENDING \<in> F)"
    by (auto simp: NO_WAIT_PENDING_BITS_def)

lemma generic_pending_iff: "(F \<inter> GENERIC_PENDING_BITS = {}) =
      (BT_MESH_KEYS_PENDING \<notin> F \<and> BT_MESH_HB_PUB_PENDING \<notin> F \<and> BT_MESH_CFG_PENDING \<notin> F \<and>
          BT_MESH_MOD_PENDING \<notin> F \<and> BT_MESH_SEQ_PENDING \<notin> F \<and> BT_MESH_NODES_PENDING \<notin> F)"
    by (auto simp: GENERIC_PENDING_BITS_def)

lemma schedule_store_unfold:
  assumes "F = insert flag (flags s)"
    and "timeout =
      (if BT_MESH_NET_PENDING \<in> F \<or> BT_MESH_IV_PENDING \<in> F \<or> BT_MESH_ROLE_PENDING \<in> F then 500
       else if BT_MESH_RPL_PENDING \<in> F \<and>
               ((BT_MESH_KEYS_PENDING \<notin> F \<and> BT_MESH_HB_PUB_PENDING \<notin> F \<and> BT_MESH_CFG_PENDING \<notin> F \<and>
                 BT_MESH_MOD_PENDING \<notin> F \<and> BT_MESH_SEQ_PENDING \<notin> F \<and> BT_MESH_NODES_PENDING \<notin> F) \<or>
                CONFIG_BT_MESH_RPL_STORE_TIMEOUT cfg < CONFIG_BT_MESH_STORE_TIMEOUT cfg)
            then CONFIG_BT_MESH_RPL_STORE_TIMEOUT cfg * 1000
       else CONFIG_BT_MESH_STORE_TIMEOUT cfg * 1000)"
    and "remaining = k_delayed_work_remaining_get (pending_store s)"
  shows "schedule_store cfg flag s =
      (if remaining \<noteq> 0 \<and> remaining < timeout then s\<lparr>flags := F\<rparr>
       else s\<lparr>flags := F, pending_store := Some timeout, log := log s @ [Pending_store_submit timeout]\<rparr>)"
proof -
  have t: "(if F \<inter> NO_WAIT_PENDING_BITS \<noteq> {} then CONFIG_MESH_STORE_WORKAROUND_FLASH_FLUSH_TIMEOUT
       else if BT_MESH_RPL_PENDING \<in> F \<and> (\<not> (F \<inter> GENERIC_PENDING_BITS \<noteq> {}) \<or>
                CONFIG_BT_MESH_RPL_STORE_TIMEOUT cfg < CONFIG_BT_MESH_STORE_TIMEOUT cfg)
            then K_SECONDS (CONFIG_BT_MESH_RPL_STORE_TIMEOUT cfg)
       else K_SECONDS (CONFIG_BT_MESH_STORE_TIMEOUT cfg)) = timeout"
    unfolding assms(2) no_wait_pending_iff not_not generic_pending_iff K_SECONDS_def MSEC_PER_SEC_def
      CONFIG_MESH_STORE_WORKAROUND_FLASH_FLUSH_TIMEOUT_def
    by (rule refl)
  have eq: "flags (s\<lparr>flags := F\<rparr>) = F" "pending_store (s\<lparr>flags := F\<rparr>) = pending_store s"
    by simp_all
  have "schedule_store cfg flag s =
      (if k_delayed_work_remaining_get (pending_store s) \<noteq> 0 \<and> k_delayed_work_remaining_get (pending_store s) < timeout
       then s\<lparr>flags := F\<rparr>
       else k_delayed_work_submit_pending_store timeout (s\<lparr>flags := F\<rparr>))"
    unfolding schedule_store_def Let_def assms(1) [symmetric] eq t
    by (rule refl)
  then show ?thesis
    by (simp add: k_delayed_work_submit_pending_store_def assms(3))
qed


text \<open>
  Claim C3. \<^verbatim>\<open>schedule_store\<close> sets the flag and computes its timeout from the pending
  set \<open>F\<close> it then finds: 500 ms if network, IV or role is pending; else the
  replay-protection timeout if replay protection is pending and either no generic
  category (keys, heartbeat publication, configuration, models, sequence, nodes) is
  pending or the replay-protection timeout is strictly shorter than the generic
  one; else the generic timeout. That timeout is what the call compares with the
  time remaining on the timer and what it submits.
\<close>

theorem schedule_store_timeout_policy:
  assumes "F = insert flag (flags s)"
    and "timeout =
      (if BT_MESH_NET_PENDING \<in> F \<or> BT_MESH_IV_PENDING \<in> F \<or> BT_MESH_ROLE_PENDING \<in> F then 500
       else if BT_MESH_RPL_PENDING \<in> F \<and>
               ((BT_MESH_KEYS_PENDING \<notin> F \<and> BT_MESH_HB_PUB_PENDING \<notin> F \<and> BT_MESH_CFG_PENDING \<notin> F \<and>
                 BT_MESH_MOD_PENDING \<notin> F \<and> BT_MESH_SEQ_PENDING \<notin> F \<and> BT_MESH_NODES_PENDING \<notin> F) \<or>
                CONFIG_BT_MESH_RPL_STORE_TIMEOUT cfg < CONFIG_BT_MESH_STORE_TIMEOUT cfg)
            then CONFIG_BT_MESH_RPL_STORE_TIMEOUT cfg * 1000
       else CONFIG_BT_MESH_STORE_TIMEOUT cfg * 1000)"
    and "remaining = k_delayed_work_remaining_get (pending_store s)"
  shows "schedule_store cfg flag s =
      (if remaining \<noteq> 0 \<and> remaining < timeout then s\<lparr>flags := F\<rparr>
       else s\<lparr>flags := F, pending_store := Some timeout, log := log s @ [Pending_store_submit timeout]\<rparr>)"
  using assms by (rule schedule_store_unfold)

text \<open>Replay protection alone, with the sequence number pending, and with the IV
  pending (replay-protection timeout 5 s, generic timeout 2 s).\<close>

theorem schedule_store_timeout_policy_witness:
  "schedule_store example_config BT_MESH_RPL_PENDING boot_state =
     boot_state\<lparr>flags := {BT_MESH_RPL_PENDING}, pending_store := Some 5000, log := [Pending_store_submit 5000]\<rparr>
   \<and> schedule_store example_config BT_MESH_RPL_PENDING (boot_state\<lparr>flags := {BT_MESH_SEQ_PENDING}\<rparr>) =
     boot_state\<lparr>flags := {BT_MESH_RPL_PENDING, BT_MESH_SEQ_PENDING}, pending_store := Some 2000,
                  log := [Pending_store_submit 2000]\<rparr>
   \<and> schedule_store example_config BT_MESH_RPL_PENDING (boot_state\<lparr>flags := {BT_MESH_IV_PENDING}\<rparr>) =
     boot_state\<lparr>flags := {BT_MESH_RPL_PENDING, BT_MESH_IV_PENDING}, pending_store := Some 500,
                  log := [Pending_store_submit 500]\<rparr>"
  using schedule_store_timeout_policy [OF refl refl refl, of example_config BT_MESH_RPL_PENDING boot_state]
    schedule_store_timeout_policy [OF refl refl refl, of example_config BT_MESH_RPL_PENDING "boot_state\<lparr>flags := {BT_MESH_SEQ_PENDING}\<rparr>"]
    schedule_store_timeout_policy [OF refl refl refl, of example_config BT_MESH_RPL_PENDING "boot_state\<lparr>flags := {BT_MESH_IV_PENDING}\<rparr>"]
  by (simp add: example_config_simps boot_state_simps k_delayed_work_remaining_get_def)

text \<open>
  Claim C2, as amended. A flush is armed with \<open>r \<noteq> 0\<close> milliseconds remaining, and
  \<open>t\<close> is the timeout the call computes (the one it submits on an idle timer). If
  \<open>t\<close> is strictly later than \<open>r\<close> the call only sets the flag: the timer is not
  rearmed. If \<open>t\<close> is earlier than or equal to \<open>r\<close> the timer is rearmed with \<open>t\<close>;
  for \<open>t = r\<close> that is the deadline it had.
\<close>

theorem schedule_store_coalescing:
  assumes "pending_store s = Some r" and "r \<noteq> 0"
    and "pending_store (schedule_store cfg flag (s\<lparr>pending_store := None\<rparr>)) = Some t"
  shows "(r < t \<longrightarrow> schedule_store cfg flag s = s\<lparr>flags := insert flag (flags s)\<rparr>)
       \<and> (t \<le> r \<longrightarrow> schedule_store cfg flag s =
            s\<lparr>flags := insert flag (flags s), pending_store := Some t,
              log := log s @ [Pending_store_submit t]\<rparr>)"
proof -
  define F where "F = insert flag (flags s)"
  define tm where "tm =
      (if BT_MESH_NET_PENDING \<in> F \<or> BT_MESH_IV_PENDING \<in> F \<or> BT_MESH_ROLE_PENDING \<in> F then 500
       else if BT_MESH_RPL_PENDING \<in> F \<and>
               ((BT_MESH_KEYS_PENDING \<notin> F \<and> BT_MESH_HB_PUB_PENDING \<notin> F \<and> BT_MESH_CFG_PENDING \<notin> F \<and>
                 BT_MESH_MOD_PENDING \<notin> F \<and> BT_MESH_SEQ_PENDING \<notin> F \<and> BT_MESH_NODES_PENDING \<notin> F) \<or>
                CONFIG_BT_MESH_RPL_STORE_TIMEOUT cfg < CONFIG_BT_MESH_STORE_TIMEOUT cfg)
            then CONFIG_BT_MESH_RPL_STORE_TIMEOUT cfg * 1000
       else CONFIG_BT_MESH_STORE_TIMEOUT cfg * 1000)"
  have F': "F = insert flag (flags (s\<lparr>pending_store := None\<rparr>))"
    by (simp add: F_def)
  have r0: "(0 :: int) = k_delayed_work_remaining_get (pending_store (s\<lparr>pending_store := None\<rparr>))"
    by (simp add: k_delayed_work_remaining_get_def)
  have rr: "r = k_delayed_work_remaining_get (pending_store s)"
    by (simp add: k_delayed_work_remaining_get_def assms(1))
  have idle: "schedule_store cfg flag (s\<lparr>pending_store := None\<rparr>) =
        s\<lparr>pending_store := None, flags := F, pending_store := Some tm,
          log := log (s\<lparr>pending_store := None\<rparr>) @ [Pending_store_submit tm]\<rparr>"
    using schedule_store_unfold [OF F' tm_def r0] by simp
  have armed: "schedule_store cfg flag s =
        (if r \<noteq> 0 \<and> r < tm then s\<lparr>flags := F\<rparr>
         else s\<lparr>flags := F, pending_store := Some tm, log := log s @ [Pending_store_submit tm]\<rparr>)"
    by (rule schedule_store_unfold [OF F_def tm_def rr])
  have "pending_store (schedule_store cfg flag (s\<lparr>pending_store := None\<rparr>)) = Some tm"
    by (simp only: idle) simp
  with assms(3) have "tm = t" by simp
  with armed assms(2) show ?thesis by (simp add: F_def)
qed

text \<open>A generic mark (2000 ms) against 300 ms and against 7000 ms remaining.\<close>

theorem schedule_store_coalescing_witness:
  "schedule_store example_config BT_MESH_SEQ_PENDING (boot_state\<lparr>pending_store := Some 300\<rparr>)
     = boot_state\<lparr>pending_store := Some 300, flags := {BT_MESH_SEQ_PENDING}\<rparr>
   \<and> schedule_store example_config BT_MESH_SEQ_PENDING (boot_state\<lparr>pending_store := Some 7000\<rparr>)
     = boot_state\<lparr>pending_store := Some 7000, flags := {BT_MESH_SEQ_PENDING},
          pending_store := Some 2000, log := [Pending_store_submit 2000]\<rparr>"
proof -
  have idle: "pending_store (schedule_store example_config BT_MESH_SEQ_PENDING (boot_state\<lparr>pending_store := None\<rparr>)) = Some 2000"
    using schedule_store_unfold [OF refl refl refl, of example_config BT_MESH_SEQ_PENDING "boot_state\<lparr>pending_store := None\<rparr>"]
    by (simp add: example_config_simps boot_state_simps k_delayed_work_remaining_get_def)
  have a: "pending_store (boot_state\<lparr>pending_store := Some 300\<rparr>) = Some 300"
    and b: "pending_store (boot_state\<lparr>pending_store := Some 7000\<rparr>) = Some 7000"
    by simp_all
  have i1: "pending_store (schedule_store example_config BT_MESH_SEQ_PENDING
              (boot_state\<lparr>pending_store := Some 300, pending_store := None\<rparr>)) = Some 2000"
    and i2: "pending_store (schedule_store example_config BT_MESH_SEQ_PENDING
              (boot_state\<lparr>pending_store := Some 7000, pending_store := None\<rparr>)) = Some 2000"
    using idle by simp_all
  show ?thesis
    using schedule_store_coalescing [OF a _ i1] schedule_store_coalescing [OF b _ i2]
    by (simp add: boot_state_simps)
qed

text \<open>
  Claim C2 as stated fails where the computed timeout equals the time remaining:
  with 2000 ms remaining a generic mark computes 2000 ms and the timer is submitted
  again.
\<close>

theorem schedule_store_equal_deadline_counterexample:
  "k_delayed_work_remaining_get (pending_store (boot_state\<lparr>pending_store := Some 2000\<rparr>)) = 2000
   \<and> pending_store (schedule_store example_config BT_MESH_SEQ_PENDING (boot_state\<lparr>pending_store := None\<rparr>)) = Some 2000
   \<and> log (boot_state\<lparr>pending_store := Some 2000\<rparr>) = []
   \<and> log (schedule_store example_config BT_MESH_SEQ_PENDING (boot_state\<lparr>pending_store := Some 2000\<rparr>))
       = [Pending_store_submit 2000]"
  using schedule_store_unfold [OF refl refl refl, of example_config BT_MESH_SEQ_PENDING "boot_state\<lparr>pending_store := None\<rparr>"]
    schedule_store_unfold [OF refl refl refl, of example_config BT_MESH_SEQ_PENDING "boot_state\<lparr>pending_store := Some 2000\<rparr>"]
  by (simp add: example_config_simps boot_state_simps k_delayed_work_remaining_get_def)

subsection \<open>Storing the sequence number\<close>

lemma word_mod_eq_0_iff_dvd:
  fixes a r :: u32
  shows "(a mod r = 0) = (unat r dvd unat a)"
proof -
  have "(a mod r = 0) = (unat (a mod r) = 0)"
    by (simp add: unat_eq_0)
  also have "\<dots> = (unat a mod unat r = 0)"
    by (simp add: unat_mod)
  also have "\<dots> = (unat r dvd unat a)"
    by (simp add: dvd_eq_mod_eq_0)
  finally show ?thesis .
qed

text \<open>
  Claim C10, as amended. With a store rate other than 0, \<^verbatim>\<open>bt_mesh_store_seq\<close> changes
  nothing unless the sequence number is a multiple of the rate. On a multiple, and
  on every call when the rate is 0, it is \<^verbatim>\<open>schedule_store\<close> for the sequence
  category, which marks it pending.
\<close>

theorem store_seq_rate_gate:
  "(CONFIG_BT_MESH_SEQ_STORE_RATE cfg \<noteq> 0 \<and> \<not> unat (CONFIG_BT_MESH_SEQ_STORE_RATE cfg) dvd unat (seq s)
      \<longrightarrow> bt_mesh_store_seq cfg s = s)
   \<and> (CONFIG_BT_MESH_SEQ_STORE_RATE cfg = 0 \<or> unat (CONFIG_BT_MESH_SEQ_STORE_RATE cfg) dvd unat (seq s)
      \<longrightarrow> bt_mesh_store_seq cfg s = schedule_store cfg BT_MESH_SEQ_PENDING s
          \<and> BT_MESH_SEQ_PENDING \<in> flags (bt_mesh_store_seq cfg s))"
proof -
  have fl: "BT_MESH_SEQ_PENDING \<in> flags (schedule_store cfg BT_MESH_SEQ_PENDING s)"
    by (simp add: schedule_store_def Let_def k_delayed_work_submit_pending_store_def)
  show ?thesis
    using fl by (auto simp: bt_mesh_store_seq_def word_mod_eq_0_iff_dvd)
qed

text \<open>Rate 16: sequence number 33 is left alone, 32 is marked and scheduled.\<close>

theorem store_seq_rate_gate_witness:
  "bt_mesh_store_seq example_config (boot_state\<lparr>seq := 33\<rparr>) = boot_state\<lparr>seq := 33\<rparr>
   \<and> bt_mesh_store_seq example_config (boot_state\<lparr>seq := 32\<rparr>)
       = boot_state\<lparr>seq := 32, flags := {BT_MESH_SEQ_PENDING}, pending_store := Some 2000,
                      log := [Pending_store_submit 2000]\<rparr>"
proof -
  have run: "schedule_store example_config BT_MESH_SEQ_PENDING (boot_state\<lparr>seq := 32\<rparr>)
       = boot_state\<lparr>seq := 32, flags := {BT_MESH_SEQ_PENDING}, pending_store := Some 2000,
                      log := [Pending_store_submit 2000]\<rparr>"
    by (simp add: schedule_store_def example_config_def boot_state_def k_delayed_work_remaining_get_def
        k_delayed_work_submit_pending_store_def NO_WAIT_PENDING_BITS_def GENERIC_PENDING_BITS_def
        K_SECONDS_def MSEC_PER_SEC_def Let_def)
  have r: "CONFIG_BT_MESH_SEQ_STORE_RATE example_config = 16"
    by (simp add: example_config_def)
  show ?thesis
    using store_seq_rate_gate [of example_config "boot_state\<lparr>seq := 33\<rparr>"]
      store_seq_rate_gate [of example_config "boot_state\<lparr>seq := 32\<rparr>"]
    by (simp add: r run)
qed

text \<open>
  Claim C10 as stated fails for a store rate of 0, which the code tests for: the
  sequence number 5 is no multiple of 0, and the call marks the category and arms
  the timer.
\<close>

theorem store_seq_rate_zero_counterexample:
  "CONFIG_BT_MESH_SEQ_STORE_RATE (example_config\<lparr>CONFIG_BT_MESH_SEQ_STORE_RATE := 0\<rparr>) = 0
   \<and> seq (boot_state\<lparr>seq := 5\<rparr>) = 5
   \<and> \<not> (0 :: nat) dvd 5
   \<and> bt_mesh_store_seq (example_config\<lparr>CONFIG_BT_MESH_SEQ_STORE_RATE := 0\<rparr>) (boot_state\<lparr>seq := 5\<rparr>)
       = boot_state\<lparr>seq := 5, flags := {BT_MESH_SEQ_PENDING}, pending_store := Some 2000,
                      log := [Pending_store_submit 2000]\<rparr>"
  by (simp add: bt_mesh_store_seq_def schedule_store_def example_config_def boot_state_def
        k_delayed_work_remaining_get_def
        k_delayed_work_submit_pending_store_def NO_WAIT_PENDING_BITS_def GENERIC_PENDING_BITS_def
        K_SECONDS_def MSEC_PER_SEC_def Let_def)

subsection \<open>The tables of pending updates\<close>

lemma key_update_loop_no_match:
  "list_all (\<lambda>u. \<not> key_update_matches ak idx u) us \<Longrightarrow>
   fst (key_update_loop ak idx us i m f) = m"
  by (induction us arbitrary: i m f) (auto simp: key_update_matches_def)

lemma key_update_loop_all_valid:
  "list_all ku_valid us \<Longrightarrow> snd (key_update_loop ak idx us i m f) = f"
  by (induction us arbitrary: i m f) auto

lemma key_update_loop_append:
  "key_update_loop ak idx (xs @ ys) i m f =
     key_update_loop ak idx ys (i + length xs)
       (fst (key_update_loop ak idx xs i m f)) (snd (key_update_loop ak idx xs i m f))"
  by (induction xs arbitrary: i m f) auto

lemma key_update_find_exhausted:
  "key_updates_exhausted ak idx s \<Longrightarrow> key_update_find ak idx s = (None, None)"
proof -
  assume e: "key_updates_exhausted ak idx s"
  then have v: "list_all ku_valid (key_updates s)"
    and n: "list_all (\<lambda>u. \<not> key_update_matches ak idx u) (key_updates s)"
    by (simp_all add: key_updates_exhausted_def list_all_iff)
  show ?thesis
    unfolding key_update_find_def
    using key_update_loop_no_match [OF n, of 0 None None] key_update_loop_all_valid [OF v, of ak idx 0 None None]
    by (simp add: prod_eq_iff)
qed

lemma node_update_loop_exhausted:
  "list_all (\<lambda>u. nu_addr u \<noteq> BT_MESH_ADDR_UNASSIGNED \<and> nu_addr u \<noteq> addr) us \<Longrightarrow>
   node_update_loop addr us i m f = (m, f)"
  by (induction us arbitrary: i m f) auto

lemma node_update_find_exhausted:
  "node_updates_exhausted addr s \<Longrightarrow> node_update_find addr s = (None, None)"
  by (simp add: node_updates_exhausted_def node_update_find_def node_update_loop_exhausted)

text \<open>
  Claim C8. When the table of pending key updates holds no entry for the key and
  no free slot, storing or clearing a network key or an application key writes the
  record, or the empty value, at once: the call adds that one write to the log and
  changes nothing else, so no flag is set and the timer is not submitted. The
  same holds for nodes and the table of node updates. The functions return
  nothing, so no error reaches the caller.
\<close>

theorem table_full_writes_synchronously:
  "(key_updates_exhausted False (sub_net_idx sb) s \<longrightarrow>
      bt_mesh_store_subnet cfg sb s =
        s\<lparr>log := log s @ [Settings_save (''NetKey/'' @ snprintk_x (sub_net_idx sb)) 33
             (net_key_val_bytes \<lparr>nk_kr_flag = sub_kr_flag sb, nk_kr_phase = ucast (sub_kr_phase sb),
                 nk_val0 = k_net (sub_keys0 sb), nk_val1 = k_net (sub_keys1 sb)\<rparr>)]\<rparr>
      \<and> bt_mesh_clear_subnet cfg sb s =
        s\<lparr>log := log s @ [Settings_save (''NetKey/'' @ snprintk_x (sub_net_idx sb)) 0 []]\<rparr>)
   \<and> (key_updates_exhausted True (app_app_idx key) s \<longrightarrow>
      bt_mesh_store_app_key cfg key s =
        s\<lparr>log := log s @ [Settings_save (''AppKey/'' @ snprintk_x (app_app_idx key)) 35
             (app_key_val_bytes \<lparr>ak_net_idx = app_net_idx key, ak_updated = app_updated key,
                 ak_val0 = app_keys0_val key, ak_val1 = app_keys1_val key\<rparr>)]\<rparr>
      \<and> bt_mesh_clear_app_key cfg key s =
        s\<lparr>log := log s @ [Settings_save (''AppKey/'' @ snprintk_x (app_app_idx key)) 0 []]\<rparr>)
   \<and> (node_updates_exhausted (node_addr node) s \<longrightarrow>
      bt_mesh_store_node cfg node s =
        s\<lparr>log := log s @ [Settings_save (''Node/'' @ snprintk_x (node_addr node)) 19
             (node_val_bytes \<lparr>dv_net_idx = node_net_idx node, dv_dev_key = node_dev_key node,
                 dv_num_elem = node_num_elem node\<rparr>)]\<rparr>
      \<and> bt_mesh_clear_node cfg node s =
        s\<lparr>log := log s @ [Settings_save (''Node/'' @ snprintk_x (node_addr node)) 0 []]\<rparr>)"
proof (intro conjI impI)
  assume e: "key_updates_exhausted False (sub_net_idx sb) s"
  show "bt_mesh_store_subnet cfg sb s =
        s\<lparr>log := log s @ [Settings_save (''NetKey/'' @ snprintk_x (sub_net_idx sb)) 33
             (net_key_val_bytes \<lparr>nk_kr_flag = sub_kr_flag sb, nk_kr_phase = ucast (sub_kr_phase sb),
                 nk_val0 = k_net (sub_keys0 sb), nk_val1 = k_net (sub_keys1 sb)\<rparr>)]\<rparr>"
    by (simp add: bt_mesh_store_subnet_def key_update_find_exhausted [OF e] store_net_key_def
        settings_save_one_def sizeof_net_key_val_def)
  show "bt_mesh_clear_subnet cfg sb s =
        s\<lparr>log := log s @ [Settings_save (''NetKey/'' @ snprintk_x (sub_net_idx sb)) 0 []]\<rparr>"
    by (simp add: bt_mesh_clear_subnet_def key_update_find_exhausted [OF e] clear_net_key_def
        settings_save_one_def)
next
  assume e: "key_updates_exhausted True (app_app_idx key) s"
  show "bt_mesh_store_app_key cfg key s =
        s\<lparr>log := log s @ [Settings_save (''AppKey/'' @ snprintk_x (app_app_idx key)) 35
             (app_key_val_bytes \<lparr>ak_net_idx = app_net_idx key, ak_updated = app_updated key,
                 ak_val0 = app_keys0_val key, ak_val1 = app_keys1_val key\<rparr>)]\<rparr>"
    by (simp add: bt_mesh_store_app_key_def key_update_find_exhausted [OF e] store_app_key_def
        settings_save_one_def sizeof_app_key_val_def)
  show "bt_mesh_clear_app_key cfg key s =
        s\<lparr>log := log s @ [Settings_save (''AppKey/'' @ snprintk_x (app_app_idx key)) 0 []]\<rparr>"
    by (simp add: bt_mesh_clear_app_key_def key_update_find_exhausted [OF e] clear_app_key_def
        settings_save_one_def)
next
  assume e: "node_updates_exhausted (node_addr node) s"
  show "bt_mesh_store_node cfg node s =
        s\<lparr>log := log s @ [Settings_save (''Node/'' @ snprintk_x (node_addr node)) 19
             (node_val_bytes \<lparr>dv_net_idx = node_net_idx node, dv_dev_key = node_dev_key node,
                 dv_num_elem = node_num_elem node\<rparr>)]\<rparr>"
    by (simp add: bt_mesh_store_node_def node_update_find_exhausted [OF e] store_node_def
        settings_save_one_def sizeof_node_val_def)
  show "bt_mesh_clear_node cfg node s =
        s\<lparr>log := log s @ [Settings_save (''Node/'' @ snprintk_x (node_addr node)) 0 []]\<rparr>"
    by (simp add: bt_mesh_clear_node_def node_update_find_exhausted [OF e] clear_node_def
        settings_save_one_def)
qed


text \<open>Key and node 5 against the full tables.\<close>

lemma snprintk_x_5: "snprintk_x 5 = ''5''"
  by (simp add: snprintk_x_def hex_digit_def drop_bit_eq_div take_bit_eq_mod)

theorem table_full_writes_synchronously_witness:
  "key_updates_exhausted False 5 full_tables_state
   \<and> key_updates_exhausted True 5 full_tables_state
   \<and> node_updates_exhausted 5 full_tables_state
   \<and> bt_mesh_clear_subnet example_config (bt_mesh_subnet_zero\<lparr>sub_net_idx := 5\<rparr>) full_tables_state
       = full_tables_state\<lparr>log := [Settings_save ''NetKey/5'' 0 []]\<rparr>
   \<and> bt_mesh_clear_app_key example_config (bt_mesh_app_key_zero\<lparr>app_app_idx := 5\<rparr>) full_tables_state
       = full_tables_state\<lparr>log := [Settings_save ''AppKey/5'' 0 []]\<rparr>
   \<and> bt_mesh_store_node example_config (bt_mesh_node_zero\<lparr>node_addr := 5\<rparr>) full_tables_state
       = full_tables_state\<lparr>log := [Settings_save ''Node/5'' 19 (0 # 0 # replicate 16 0 @ [0])]\<rparr>"
proof -
  have k: "key_updates_exhausted False 5 full_tables_state"
    and a: "key_updates_exhausted True 5 full_tables_state"
    and n: "node_updates_exhausted 5 full_tables_state"
    by (simp_all add: key_updates_exhausted_def node_updates_exhausted_def key_update_matches_def
        full_tables_state_def boot_state_def BT_MESH_ADDR_UNASSIGNED_def)
  have l: "log full_tables_state = []"
    by (simp add: full_tables_state_def boot_state_def)
  show ?thesis
    using k a n
      table_full_writes_synchronously [of "bt_mesh_subnet_zero\<lparr>sub_net_idx := 5\<rparr>" full_tables_state
        example_config "bt_mesh_app_key_zero\<lparr>app_app_idx := 5\<rparr>" "bt_mesh_node_zero\<lparr>node_addr := 5\<rparr>"]
    by (simp add: l snprintk_x_5 bt_mesh_node_zero_def node_val_bytes_def le16_def)
qed

subsection \<open>Coalescing of key updates\<close>

lemma find_first_Some: "find_first P xs = Some i \<Longrightarrow> i < length xs \<and> P (xs ! i)"
  by (induction xs arbitrary: i) (auto split: if_splits)

lemma ucast_12_16_12: "(ucast (ucast (k :: 12 word) :: u16) :: 12 word) = k"
  by (rule bit_word_eqI) (simp add: bit_simps)

lemma ucast_16_12_16:
  fixes idx :: u16
  assumes "unat idx < 4096"
  shows "(ucast (ucast idx :: 12 word) :: u16) = idx"
proof -
  have "idx < 2 ^ 12"
    using assms by (simp add: word_less_nat_alt)
  then have "idx AND mask 12 = idx"
    by (rule less_mask_eq)
  then have "take_bit 12 idx = idx"
    by (simp only: take_bit_eq_mask)
  moreover have "(ucast (ucast idx :: 12 word) :: u16) = take_bit 12 idx"
    by (rule bit_word_eqI) (auto simp: bit_simps)
  ultimately show ?thesis by simp
qed

text \<open>What one valid entry writes depends on the keys in memory only.\<close>

lemma key_update_write_log:
  "sub s' = sub s \<Longrightarrow> app_keys s' = app_keys s \<Longrightarrow>
   key_update_write v s' = s'\<lparr>log := log s' @ new_events s (key_update_write v s)\<rparr>"
  by (simp add: key_update_write_def clear_app_key_def clear_net_key_def store_app_key_def
      store_net_key_def settings_save_one_def new_events_def bt_mesh_subnet_get_def
      bt_mesh_app_key_find_def Let_def split: option.split)

lemma store_pending_keys_prefix:
  "n \<le> length (key_updates s) \<Longrightarrow>
   fold store_pending_keys_step [0..<n] s =
     s\<lparr>key_updates := map (\<lambda>u. u\<lparr>ku_valid := False\<rparr>) (take n (key_updates s)) @ drop n (key_updates s),
       log := log s @ concat (map (key_update_events s) (take n (key_updates s)))\<rparr>"
proof (induction n)
  case 0
  then show ?case by simp
next
  case (Suc n)
  define T where "T = key_updates s"
  define K where "K = map (\<lambda>u. u\<lparr>ku_valid := False\<rparr>) (take n T) @ drop n T"
  define K' where "K' = map (\<lambda>u. u\<lparr>ku_valid := False\<rparr>) (take (Suc n) T) @ drop (Suc n) T"
  define L where "L = log s @ concat (map (key_update_events s) (take n T))"
  define u where "u = T ! n"
  from Suc.prems have n: "n < length T" by (simp add: T_def)
  have IH: "fold store_pending_keys_step [0..<n] s = s\<lparr>key_updates := K, log := L\<rparr>"
    using Suc.IH n by (simp add: T_def K_def L_def)
  have at: "K ! n = u"
    using n by (simp add: K_def u_def nth_append)
  have lenK: "n < length K"
    using n by (simp add: K_def)
  have upd: "K[n := u\<lparr>ku_valid := False\<rparr>] = K'"
    using n unfolding K_def K'_def u_def
    by (simp add: take_Suc_conv_app_nth list_update_append Cons_nth_drop_Suc [symmetric])
  have L': "log s @ concat (map (key_update_events s) (take (Suc n) T)) = L @ key_update_events s u"
    using n by (simp add: L_def u_def take_Suc_conv_app_nth)
  have step: "store_pending_keys_step n (s\<lparr>key_updates := K, log := L\<rparr>) =
      s\<lparr>key_updates := K', log := L @ key_update_events s u\<rparr>"
  proof (cases "ku_valid u")
    case True
    have w: "key_update_write u (s\<lparr>key_updates := K, log := L\<rparr>)
        = s\<lparr>key_updates := K, log := L\<rparr>\<lparr>log := log (s\<lparr>key_updates := K, log := L\<rparr>) @ new_events s (key_update_write u s)\<rparr>"
      by (rule key_update_write_log) simp_all
    show ?thesis
      unfolding store_pending_keys_step_def Let_def
      using True by (simp add: at w upd key_update_events_def)
  next
    case False
    then have "u\<lparr>ku_valid := False\<rparr> = u" by simp
    then have "K[n := u\<lparr>ku_valid := False\<rparr>] = K"
      using at by (metis list_update_id)
    then have "K' = K" using upd by simp
    then show ?thesis
      unfolding store_pending_keys_step_def Let_def
      using False by (simp add: at key_update_events_def)
  qed
  have "fold store_pending_keys_step [0..<Suc n] s
       = store_pending_keys_step n (fold store_pending_keys_step [0..<n] s)"
    by simp
  then show ?case
    by (simp only: IH step T_def [symmetric] K'_def [symmetric] L')
qed

lemma store_pending_keys_eq:
  "store_pending_keys s =
     s\<lparr>key_updates := map (\<lambda>u. u\<lparr>ku_valid := False\<rparr>) (key_updates s),
       log := log s @ concat (map (key_update_events s) (key_updates s))\<rparr>"
  unfolding store_pending_keys_def
  using store_pending_keys_prefix [of "length (key_updates s)" s] by simp

lemma key_path_inject: "key_path a x = key_path b y \<Longrightarrow> a = b \<and> x = y"
  by (cases a; cases b) (auto simp: key_path_def dest: snprintk_x_inject)

lemma key_update_write_path:
  "list_all (saves_to (key_path (ku_app_key u) (ucast (ku_key_idx u))))
     (new_events s (key_update_write u s))"
  by (auto simp: key_update_write_def clear_app_key_def clear_net_key_def store_app_key_def
      store_net_key_def settings_save_one_def key_path_def bt_mesh_subnet_get_def new_events_def
      bt_mesh_app_key_find_def Let_def split: option.split dest!: find_first_Some)

lemma saves_to_unique: "saves_to p e \<Longrightarrow> saves_to q e \<Longrightarrow> p = q"
  by (cases e) simp_all

lemma key_update_events_other:
  assumes "\<not> key_update_matches ak idx u"
  shows "filter (saves_to (key_path ak idx)) (key_update_events s u) = []"
proof (cases "ku_valid u")
  case False
  then show ?thesis by (simp add: key_update_events_def)
next
  case True
  with assms have ne: "key_path (ku_app_key u) (ucast (ku_key_idx u)) \<noteq> key_path ak idx"
    by (auto simp: key_update_matches_def dest: key_path_inject)
  from key_update_write_path [of u s] show ?thesis
    using True ne by (auto simp: key_update_events_def filter_empty_conv list_all_iff dest: saves_to_unique)
qed

lemma key_update_events_clear:
  assumes "key_update_matches ak idx u" and "ku_clear u"
  shows "key_update_events s u = [Settings_save (key_path ak idx) 0 []]"
  using assms
  by (auto simp: key_update_matches_def key_update_events_def new_events_def key_update_write_def
      clear_app_key_def clear_net_key_def settings_save_one_def key_path_def)

lemma filter_concat_map_empty:
  "list_all (\<lambda>x. filter P (f x) = []) xs \<Longrightarrow> filter P (concat (map f xs)) = []"
  by (induction xs) simp_all

lemma key_update_find_match:
  assumes "key_update_matches ak idx u"
    and "list_all (\<lambda>v. \<not> key_update_matches ak idx v) post"
  shows "fst (key_update_loop ak idx (pre @ u # post) 0 None None) = Some (length pre)"
  using assms
  by (simp add: key_update_loop_append key_update_loop_no_match key_update_matches_def)

lemma key_update_find_free:
  assumes "\<not> ku_valid u" and "list_all ku_valid post"
    and "list_all (\<lambda>v. \<not> key_update_matches ak idx v) (pre @ u # post)"
  shows "key_update_loop ak idx (pre @ u # post) 0 None None = (None, Some (length pre))"
proof -
  have "fst (key_update_loop ak idx (pre @ u # post) 0 None None) = None"
    using assms(3) by (rule key_update_loop_no_match)
  moreover have "snd (key_update_loop ak idx (pre @ u # post) 0 None None) = Some (length pre)"
    using assms(1,2) by (simp add: key_update_loop_append key_update_loop_all_valid)
  ultimately show ?thesis by (simp add: prod_eq_iff)
qed

text \<open>Where the table is not exhausted for a key and holds at most one entry for it,
  the search returns that entry, or else a free slot; no other entry is for the key.\<close>

lemma key_update_find_cases:
  assumes ne: "\<not> list_all (\<lambda>u. ku_valid u \<and> \<not> key_update_matches ak idx u) T"
    and uniq: "length (filter (key_update_matches ak idx) T) \<le> 1"
  shows "\<exists>pre u post. T = pre @ u # post
      \<and> list_all (\<lambda>v. \<not> key_update_matches ak idx v) pre
      \<and> list_all (\<lambda>v. \<not> key_update_matches ak idx v) post
      \<and> ((key_update_matches ak idx u \<and> fst (key_update_loop ak idx T 0 None None) = Some (length pre))
         \<or> (\<not> ku_valid u \<and> key_update_loop ak idx T 0 None None = (None, Some (length pre))))"
proof (cases "\<exists>u \<in> set T. key_update_matches ak idx u")
  case True
  from split_list_last_prop [OF True]
  obtain pre u post where T: "T = pre @ u # post" and m: "key_update_matches ak idx u"
    and post: "\<forall>v \<in> set post. \<not> key_update_matches ak idx v"
    by blast
  have pre: "\<forall>v \<in> set pre. \<not> key_update_matches ak idx v"
  proof (rule ccontr)
    assume "\<not> (\<forall>v \<in> set pre. \<not> key_update_matches ak idx v)"
    then have "filter (key_update_matches ak idx) pre \<noteq> []"
      by (simp add: filter_empty_conv)
    then have "1 \<le> length (filter (key_update_matches ak idx) pre)"
      by (cases "filter (key_update_matches ak idx) pre") simp_all
    then have "2 \<le> length (filter (key_update_matches ak idx) T)"
      using m by (simp add: T)
    with uniq show False by simp
  qed
  have "fst (key_update_loop ak idx T 0 None None) = Some (length pre)"
    unfolding T using m post by (intro key_update_find_match) (simp_all add: list_all_iff)
  with T m pre post show ?thesis
    by (auto simp: list_all_iff)
next
  case False
  then have nm: "list_all (\<lambda>v. \<not> key_update_matches ak idx v) T"
    by (simp add: list_all_iff)
  with ne have ex: "\<exists>u \<in> set T. \<not> ku_valid u"
    by (auto simp: list_all_iff)
  from split_list_last_prop [OF ex]
  obtain pre u post where T: "T = pre @ u # post" and f: "\<not> ku_valid u"
    and post: "\<forall>v \<in> set post. \<not> \<not> ku_valid v"
    by blast
  have "key_update_loop ak idx T 0 None None = (None, Some (length pre))"
    unfolding T using f post nm by (intro key_update_find_free) (simp_all add: list_all_iff T)
  with T f nm show ?thesis
    by (auto simp: list_all_iff)
qed

lemma schedule_store_frame:
  "key_updates (schedule_store cfg flag s) = key_updates s"
  "sub (schedule_store cfg flag s) = sub s"
  "app_keys (schedule_store cfg flag s) = app_keys s"
  "flag \<in> flags (schedule_store cfg flag s)"
  using schedule_store_unfold [OF refl refl refl, of cfg flag s]
  by (simp_all split: if_splits)

lemma key_intent_general:
  assumes idx: "unat idx < 4096"
    and ne: "\<not> key_updates_exhausted ak idx s"
    and uniq: "length (filter (key_update_matches ak idx) (key_updates s)) \<le> 1"
    and r: "r = (case key_update_find ak idx s of
        (Some u, free_slot) \<Rightarrow>
          schedule_store cfg BT_MESH_KEYS_PENDING (upd_key_update u (\<lambda>k. k\<lparr>ku_clear := c\<rparr>) s)
      | (None, None) \<Rightarrow> sync
      | (None, Some f) \<Rightarrow>
          schedule_store cfg BT_MESH_KEYS_PENDING
            (upd_key_update f (\<lambda>k. k\<lparr>ku_valid := True, ku_key_idx := ucast idx,
                                      ku_app_key := ak, ku_clear := c\<rparr>) s))"
  shows "\<exists>pre u post. key_updates s = pre @ u # post
      \<and> list_all (\<lambda>v. \<not> key_update_matches ak idx v) pre
      \<and> list_all (\<lambda>v. \<not> key_update_matches ak idx v) post
      \<and> r = schedule_store cfg BT_MESH_KEYS_PENDING
            (s\<lparr>key_updates := pre @ \<lparr>ku_key_idx = ucast idx, ku_valid = True, ku_app_key = ak, ku_clear = c\<rparr> # post\<rparr>)"
proof -
  from ne have ne': "\<not> list_all (\<lambda>u. ku_valid u \<and> \<not> key_update_matches ak idx u) (key_updates s)"
    by (simp add: key_updates_exhausted_def)
  from key_update_find_cases [OF ne' uniq]
  obtain pre u post where T: "key_updates s = pre @ u # post"
    and pre: "list_all (\<lambda>v. \<not> key_update_matches ak idx v) pre"
    and post: "list_all (\<lambda>v. \<not> key_update_matches ak idx v) post"
    and c: "(key_update_matches ak idx u \<and> fst (key_update_loop ak idx (key_updates s) 0 None None) = Some (length pre))
         \<or> (\<not> ku_valid u \<and> key_update_loop ak idx (key_updates s) 0 None None = (None, Some (length pre)))"
    by blast
  define n where "n = \<lparr>ku_key_idx = ucast idx, ku_valid = True, ku_app_key = ak, ku_clear = c\<rparr>"
  have "r = schedule_store cfg BT_MESH_KEYS_PENDING (s\<lparr>key_updates := pre @ n # post\<rparr>)"
    using c
  proof
    assume m: "key_update_matches ak idx u \<and> fst (key_update_loop ak idx (key_updates s) 0 None None) = Some (length pre)"
    then obtain fr where f: "key_update_find ak idx s = (Some (length pre), fr)"
      by (cases "key_update_loop ak idx (key_updates s) 0 None None") (simp add: key_update_find_def)
    from m have "ucast (ucast (ku_key_idx u) :: u16) = (ucast idx :: 12 word)"
      by (simp add: key_update_matches_def)
    then have "ku_key_idx u = ucast idx"
      by (simp only: ucast_12_16_12)
    with m have "u\<lparr>ku_clear := c\<rparr> = n"
      by (simp add: key_update_matches_def n_def)
    then show ?thesis
      by (simp add: r f upd_key_update_def T)
  next
    assume fr: "\<not> ku_valid u \<and> key_update_loop ak idx (key_updates s) 0 None None = (None, Some (length pre))"
    then have f: "key_update_find ak idx s = (None, Some (length pre))"
      by (simp add: key_update_find_def)
    have "u\<lparr>ku_valid := True, ku_key_idx := ucast idx, ku_app_key := ak, ku_clear := c\<rparr> = n"
      by (simp add: n_def)
    then show ?thesis
      by (simp add: r f upd_key_update_def T)
  qed
  with T pre post show ?thesis
    unfolding n_def by blast
qed


lemma coalesced_entry_flush:
  assumes T: "key_updates s = pre @ n # post"
    and pre: "list_all (\<lambda>v. \<not> key_update_matches ak idx v) pre"
    and post: "list_all (\<lambda>v. \<not> key_update_matches ak idx v) post"
    and n: "key_update_matches ak idx n" "ku_clear n"
  shows "filter (key_update_matches ak idx) (key_updates s) = [n]"
    and "filter (saves_to (key_path ak idx)) (new_events s (store_pending_keys s))
         = [Settings_save (key_path ak idx) 0 []]"
    and "list_all (\<lambda>u. \<not> ku_valid u) (key_updates (store_pending_keys s))"
    and "new_events (store_pending_keys s) (store_pending_keys (store_pending_keys s)) = []"
proof -
  have fp: "filter (key_update_matches ak idx) pre = []" "filter (key_update_matches ak idx) post = []"
    using pre post by (simp_all add: filter_empty_conv list_all_iff)
  show "filter (key_update_matches ak idx) (key_updates s) = [n]"
    by (simp add: T fp n)
  have ev: "new_events s (store_pending_keys s) = concat (map (key_update_events s) (key_updates s))"
    by (subst store_pending_keys_eq) (simp add: new_events_def)
  have ep: "filter (saves_to (key_path ak idx)) (concat (map (key_update_events s) pre)) = []"
    "filter (saves_to (key_path ak idx)) (concat (map (key_update_events s) post)) = []"
    using pre post
    by (auto intro!: filter_concat_map_empty simp: list_all_iff key_update_events_other)
  show "filter (saves_to (key_path ak idx)) (new_events s (store_pending_keys s))
         = [Settings_save (key_path ak idx) 0 []]"
    by (simp add: ev T ep key_update_events_clear [OF n])
  show inv: "list_all (\<lambda>u. \<not> ku_valid u) (key_updates (store_pending_keys s))"
    by (subst store_pending_keys_eq) (simp add: list_all_iff)
  have "concat (map (key_update_events (store_pending_keys s)) (key_updates (store_pending_keys s))) = []"
    using inv by (simp add: list_all_iff key_update_events_def)
  then show "new_events (store_pending_keys s) (store_pending_keys (store_pending_keys s)) = []"
    by (subst (2) store_pending_keys_eq) (simp add: new_events_def)
qed

lemma store_then_clear_general:
  assumes idx: "unat idx < 4096"
    and ne: "\<not> key_updates_exhausted ak idx s"
    and uniq: "length (filter (key_update_matches ak idx) (key_updates s)) \<le> 1"
    and r1: "s1 = (case key_update_find ak idx s of
        (Some u, free_slot) \<Rightarrow>
          schedule_store cfg BT_MESH_KEYS_PENDING (upd_key_update u (\<lambda>k. k\<lparr>ku_clear := False\<rparr>) s)
      | (None, None) \<Rightarrow> sync1
      | (None, Some f) \<Rightarrow>
          schedule_store cfg BT_MESH_KEYS_PENDING
            (upd_key_update f (\<lambda>k. k\<lparr>ku_valid := True, ku_key_idx := ucast idx,
                                      ku_app_key := ak, ku_clear := False\<rparr>) s))"
    and r2: "s2 = (case key_update_find ak idx s1 of
        (Some u, free_slot) \<Rightarrow>
          schedule_store cfg BT_MESH_KEYS_PENDING (upd_key_update u (\<lambda>k. k\<lparr>ku_clear := True\<rparr>) s1)
      | (None, None) \<Rightarrow> sync2
      | (None, Some f) \<Rightarrow>
          schedule_store cfg BT_MESH_KEYS_PENDING
            (upd_key_update f (\<lambda>k. k\<lparr>ku_valid := True, ku_key_idx := ucast idx,
                                      ku_app_key := ak, ku_clear := True\<rparr>) s1))"
  shows "filter (key_update_matches ak idx) (key_updates s2)
           = [\<lparr>ku_key_idx = ucast idx, ku_valid = True, ku_app_key = ak, ku_clear = True\<rparr>]
       \<and> BT_MESH_KEYS_PENDING \<in> flags s2
       \<and> filter (saves_to (key_path ak idx)) (new_events s2 (store_pending_keys s2))
           = [Settings_save (key_path ak idx) 0 []]
       \<and> list_all (\<lambda>u. \<not> ku_valid u) (key_updates (store_pending_keys s2))
       \<and> new_events (store_pending_keys s2) (store_pending_keys (store_pending_keys s2)) = []"
proof -
  define n1 where "n1 = \<lparr>ku_key_idx = ucast idx, ku_valid = True, ku_app_key = ak, ku_clear = False\<rparr>"
  define n2 where "n2 = \<lparr>ku_key_idx = ucast idx, ku_valid = True, ku_app_key = ak, ku_clear = True\<rparr>"
  have m1: "key_update_matches ak idx n1" and m2: "key_update_matches ak idx n2"
    using ucast_16_12_16 [OF idx] by (simp_all add: key_update_matches_def n1_def n2_def)
  from key_intent_general [OF idx ne uniq r1]
  obtain pre u post where pre: "list_all (\<lambda>v. \<not> key_update_matches ak idx v) pre"
    and post: "list_all (\<lambda>v. \<not> key_update_matches ak idx v) post"
    and s1: "s1 = schedule_store cfg BT_MESH_KEYS_PENDING (s\<lparr>key_updates := pre @ n1 # post\<rparr>)"
    unfolding n1_def by blast
  have T1: "key_updates s1 = pre @ n1 # post"
    by (simp add: s1 schedule_store_frame)
  have f1: "filter (key_update_matches ak idx) (key_updates s1) = [n1]"
    using pre post m1 by (simp add: T1 filter_empty_conv list_all_iff)
  have ne1: "\<not> key_updates_exhausted ak idx s1"
    using m1 by (simp add: key_updates_exhausted_def T1)
  have uniq1: "length (filter (key_update_matches ak idx) (key_updates s1)) \<le> 1"
    by (simp add: f1)
  from key_intent_general [OF idx ne1 uniq1 r2]
  obtain pre' u' post' where pre': "list_all (\<lambda>v. \<not> key_update_matches ak idx v) pre'"
    and post': "list_all (\<lambda>v. \<not> key_update_matches ak idx v) post'"
    and s2: "s2 = schedule_store cfg BT_MESH_KEYS_PENDING (s1\<lparr>key_updates := pre' @ n2 # post'\<rparr>)"
    unfolding n2_def by blast
  have T2: "key_updates s2 = pre' @ n2 # post'"
    by (simp add: s2 schedule_store_frame)
  have c2: "ku_clear n2" by (simp add: n2_def)
  have fl: "BT_MESH_KEYS_PENDING \<in> flags s2"
    by (simp add: s2 schedule_store_frame)
  show ?thesis
    using coalesced_entry_flush [OF T2 pre' post' m2 c2] fl
    unfolding n2_def by simp
qed

text \<open>
  Claim C4, as amended. For a 12-bit key index, a table that holds an entry for the
  key or a free slot, and at most one valid entry for the key: after a store and
  then a clear of the key (network key, and likewise application key) the table
  holds exactly one valid entry for the key, with the clear flag set, and the keys
  category is pending. \<^verbatim>\<open>store_pending_keys\<close> then writes to the path of the key
  exactly once, the empty value; it leaves no entry valid, and a second run writes
  nothing.
\<close>

theorem store_then_clear_coalesces:
  "(unat (sub_net_idx sb) < 4096
      \<and> \<not> key_updates_exhausted False (sub_net_idx sb) s
      \<and> length (filter (key_update_matches False (sub_net_idx sb)) (key_updates s)) \<le> 1
    \<longrightarrow>
      filter (key_update_matches False (sub_net_idx sb))
          (key_updates (bt_mesh_clear_subnet cfg sb (bt_mesh_store_subnet cfg sb s)))
        = [\<lparr>ku_key_idx = ucast (sub_net_idx sb), ku_valid = True, ku_app_key = False, ku_clear = True\<rparr>]
      \<and> BT_MESH_KEYS_PENDING \<in> flags (bt_mesh_clear_subnet cfg sb (bt_mesh_store_subnet cfg sb s))
      \<and> filter (saves_to (''NetKey/'' @ snprintk_x (sub_net_idx sb)))
          (new_events (bt_mesh_clear_subnet cfg sb (bt_mesh_store_subnet cfg sb s))
             (store_pending_keys (bt_mesh_clear_subnet cfg sb (bt_mesh_store_subnet cfg sb s))))
        = [Settings_save (''NetKey/'' @ snprintk_x (sub_net_idx sb)) 0 []]
      \<and> list_all (\<lambda>u. \<not> ku_valid u)
          (key_updates (store_pending_keys (bt_mesh_clear_subnet cfg sb (bt_mesh_store_subnet cfg sb s))))
      \<and> new_events (store_pending_keys (bt_mesh_clear_subnet cfg sb (bt_mesh_store_subnet cfg sb s)))
          (store_pending_keys (store_pending_keys (bt_mesh_clear_subnet cfg sb (bt_mesh_store_subnet cfg sb s))))
        = [])
   \<and> (unat (app_app_idx key) < 4096
      \<and> \<not> key_updates_exhausted True (app_app_idx key) s
      \<and> length (filter (key_update_matches True (app_app_idx key)) (key_updates s)) \<le> 1
    \<longrightarrow>
      filter (key_update_matches True (app_app_idx key))
          (key_updates (bt_mesh_clear_app_key cfg key (bt_mesh_store_app_key cfg key s)))
        = [\<lparr>ku_key_idx = ucast (app_app_idx key), ku_valid = True, ku_app_key = True, ku_clear = True\<rparr>]
      \<and> BT_MESH_KEYS_PENDING \<in> flags (bt_mesh_clear_app_key cfg key (bt_mesh_store_app_key cfg key s))
      \<and> filter (saves_to (''AppKey/'' @ snprintk_x (app_app_idx key)))
          (new_events (bt_mesh_clear_app_key cfg key (bt_mesh_store_app_key cfg key s))
             (store_pending_keys (bt_mesh_clear_app_key cfg key (bt_mesh_store_app_key cfg key s))))
        = [Settings_save (''AppKey/'' @ snprintk_x (app_app_idx key)) 0 []]
      \<and> list_all (\<lambda>u. \<not> ku_valid u)
          (key_updates (store_pending_keys (bt_mesh_clear_app_key cfg key (bt_mesh_store_app_key cfg key s))))
      \<and> new_events (store_pending_keys (bt_mesh_clear_app_key cfg key (bt_mesh_store_app_key cfg key s)))
          (store_pending_keys (store_pending_keys (bt_mesh_clear_app_key cfg key (bt_mesh_store_app_key cfg key s))))
        = [])"
proof (intro conjI impI; elim conjE)
  assume h: "unat (sub_net_idx sb) < 4096" "\<not> key_updates_exhausted False (sub_net_idx sb) s"
    "length (filter (key_update_matches False (sub_net_idx sb)) (key_updates s)) \<le> 1"
  note g = store_then_clear_general [OF h bt_mesh_store_subnet_def bt_mesh_clear_subnet_def,
      of cfg, unfolded key_path_def, simplified]
  from g show "filter (key_update_matches False (sub_net_idx sb))
          (key_updates (bt_mesh_clear_subnet cfg sb (bt_mesh_store_subnet cfg sb s)))
        = [\<lparr>ku_key_idx = ucast (sub_net_idx sb), ku_valid = True, ku_app_key = False, ku_clear = True\<rparr>]"
    by simp
  from g show "BT_MESH_KEYS_PENDING \<in> flags (bt_mesh_clear_subnet cfg sb (bt_mesh_store_subnet cfg sb s))"
    by simp
  from g show "filter (saves_to (''NetKey/'' @ snprintk_x (sub_net_idx sb)))
          (new_events (bt_mesh_clear_subnet cfg sb (bt_mesh_store_subnet cfg sb s))
             (store_pending_keys (bt_mesh_clear_subnet cfg sb (bt_mesh_store_subnet cfg sb s))))
        = [Settings_save (''NetKey/'' @ snprintk_x (sub_net_idx sb)) 0 []]"
    by simp
  from g show "list_all (\<lambda>u. \<not> ku_valid u)
          (key_updates (store_pending_keys (bt_mesh_clear_subnet cfg sb (bt_mesh_store_subnet cfg sb s))))"
    by simp
  from g show "new_events (store_pending_keys (bt_mesh_clear_subnet cfg sb (bt_mesh_store_subnet cfg sb s)))
          (store_pending_keys (store_pending_keys (bt_mesh_clear_subnet cfg sb (bt_mesh_store_subnet cfg sb s))))
        = []"
    by simp
next
  assume h: "unat (app_app_idx key) < 4096" "\<not> key_updates_exhausted True (app_app_idx key) s"
    "length (filter (key_update_matches True (app_app_idx key)) (key_updates s)) \<le> 1"
  note g = store_then_clear_general [OF h bt_mesh_store_app_key_def bt_mesh_clear_app_key_def,
      of cfg, unfolded key_path_def, simplified]
  from g show "filter (key_update_matches True (app_app_idx key))
          (key_updates (bt_mesh_clear_app_key cfg key (bt_mesh_store_app_key cfg key s)))
        = [\<lparr>ku_key_idx = ucast (app_app_idx key), ku_valid = True, ku_app_key = True, ku_clear = True\<rparr>]"
    by simp
  from g show "BT_MESH_KEYS_PENDING \<in> flags (bt_mesh_clear_app_key cfg key (bt_mesh_store_app_key cfg key s))"
    by simp
  from g show "filter (saves_to (''AppKey/'' @ snprintk_x (app_app_idx key)))
          (new_events (bt_mesh_clear_app_key cfg key (bt_mesh_store_app_key cfg key s))
             (store_pending_keys (bt_mesh_clear_app_key cfg key (bt_mesh_store_app_key cfg key s))))
        = [Settings_save (''AppKey/'' @ snprintk_x (app_app_idx key)) 0 []]"
    by simp
  from g show "list_all (\<lambda>u. \<not> ku_valid u)
          (key_updates (store_pending_keys (bt_mesh_clear_app_key cfg key (bt_mesh_store_app_key cfg key s))))"
    by simp
  from g show "new_events (store_pending_keys (bt_mesh_clear_app_key cfg key (bt_mesh_store_app_key cfg key s)))
          (store_pending_keys (store_pending_keys (bt_mesh_clear_app_key cfg key (bt_mesh_store_app_key cfg key s))))
        = []"
    by simp
qed


text \<open>Network key 5 on the state after boot, where both slots are free.\<close>

theorem store_then_clear_coalesces_witness:
  "unat (sub_net_idx (bt_mesh_subnet_zero\<lparr>sub_net_idx := 5\<rparr>)) < 4096
   \<and> \<not> key_updates_exhausted False 5 boot_state
   \<and> length (filter (key_update_matches False 5) (key_updates boot_state)) \<le> 1
   \<and> filter (key_update_matches False 5)
          (key_updates (bt_mesh_clear_subnet example_config (bt_mesh_subnet_zero\<lparr>sub_net_idx := 5\<rparr>)
             (bt_mesh_store_subnet example_config (bt_mesh_subnet_zero\<lparr>sub_net_idx := 5\<rparr>) boot_state)))
        = [\<lparr>ku_key_idx = 5, ku_valid = True, ku_app_key = False, ku_clear = True\<rparr>]
   \<and> filter (saves_to ''NetKey/5'')
          (new_events (bt_mesh_clear_subnet example_config (bt_mesh_subnet_zero\<lparr>sub_net_idx := 5\<rparr>)
               (bt_mesh_store_subnet example_config (bt_mesh_subnet_zero\<lparr>sub_net_idx := 5\<rparr>) boot_state))
             (store_pending_keys (bt_mesh_clear_subnet example_config (bt_mesh_subnet_zero\<lparr>sub_net_idx := 5\<rparr>)
               (bt_mesh_store_subnet example_config (bt_mesh_subnet_zero\<lparr>sub_net_idx := 5\<rparr>) boot_state))))
        = [Settings_save ''NetKey/5'' 0 []]"
proof -
  have i: "unat (sub_net_idx (bt_mesh_subnet_zero\<lparr>sub_net_idx := 5\<rparr>)) < 4096"
    by simp
  have e: "\<not> key_updates_exhausted False 5 boot_state"
    by (simp add: key_updates_exhausted_def boot_state_simps key_update_zero_def)
  have u: "length (filter (key_update_matches False 5) (key_updates boot_state)) \<le> 1"
    by (simp add: boot_state_simps key_update_zero_def key_update_matches_def)
  show ?thesis
    using i e u
      store_then_clear_coalesces [of "bt_mesh_subnet_zero\<lparr>sub_net_idx := 5\<rparr>" boot_state example_config]
    by (simp add: snprintk_x_5)
qed

text \<open>
  Claim C4 as stated fails on a full table: the store and the clear of key 5 write
  at once, two operations of which the first stores the key, and no entry is made.
\<close>

theorem store_then_clear_full_table_counterexample:
  "key_updates_exhausted False 5 full_tables_state
   \<and> filter (key_update_matches False 5)
          (key_updates (bt_mesh_clear_subnet example_config (bt_mesh_subnet_zero\<lparr>sub_net_idx := 5\<rparr>)
             (bt_mesh_store_subnet example_config (bt_mesh_subnet_zero\<lparr>sub_net_idx := 5\<rparr>) full_tables_state)))
        = []
   \<and> new_events full_tables_state
          (bt_mesh_clear_subnet example_config (bt_mesh_subnet_zero\<lparr>sub_net_idx := 5\<rparr>)
             (bt_mesh_store_subnet example_config (bt_mesh_subnet_zero\<lparr>sub_net_idx := 5\<rparr>) full_tables_state))
        = [Settings_save ''NetKey/5'' 33
             (net_key_val_bytes \<lparr>nk_kr_flag = False, nk_kr_phase = 0,
                nk_val0 = replicate 16 0, nk_val1 = replicate 16 0\<rparr>),
           Settings_save ''NetKey/5'' 0 []]"
proof -
  define sb where "sb = bt_mesh_subnet_zero\<lparr>sub_net_idx := 5\<rparr>"
  define s1 where "s1 = full_tables_state\<lparr>log := [Settings_save ''NetKey/5'' 33
             (net_key_val_bytes \<lparr>nk_kr_flag = False, nk_kr_phase = 0,
                nk_val0 = replicate 16 0, nk_val1 = replicate 16 0\<rparr>)]\<rparr>"
  have idx: "sub_net_idx sb = 5" by (simp add: sb_def)
  have T: "key_updates full_tables_state =
      [\<lparr>ku_key_idx = 1, ku_valid = True, ku_app_key = False, ku_clear = False\<rparr>,
       \<lparr>ku_key_idx = 2, ku_valid = True, ku_app_key = True, ku_clear = True\<rparr>]"
    and L: "log full_tables_state = []"
    by (simp_all add: full_tables_state_def boot_state_simps)
  have k: "key_updates_exhausted False 5 full_tables_state"
    by (simp add: key_updates_exhausted_def key_update_matches_def T)
  have k1: "key_updates_exhausted False 5 s1"
    by (simp add: key_updates_exhausted_def key_update_matches_def T s1_def)
  have r1: "bt_mesh_store_subnet example_config sb full_tables_state = s1"
    by (simp add: bt_mesh_store_subnet_def idx key_update_find_exhausted [OF k] store_net_key_def
        settings_save_one_def sizeof_net_key_val_def snprintk_x_5 L s1_def)
       (simp add: sb_def bt_mesh_subnet_zero_def bt_mesh_subnet_keys_zero_def)
  have r2: "bt_mesh_clear_subnet example_config sb s1 = s1\<lparr>log := log s1 @ [Settings_save ''NetKey/5'' 0 []]\<rparr>"
    by (simp add: bt_mesh_clear_subnet_def idx key_update_find_exhausted [OF k1] clear_net_key_def
        settings_save_one_def snprintk_x_5)
  show ?thesis
    unfolding sb_def [symmetric] r1 r2
    by (simp add: k new_events_def L s1_def T key_update_matches_def)
qed

subsection \<open>The deferred store: what each category's flush leaves alone\<close>

lemma appends_others_refl: "appends_others a a"
  by (simp add: appends_others_def new_events_def)

lemma appends_others_log: "appends_others a b \<Longrightarrow> log b = log a @ new_events a b"
  unfolding appends_others_def new_events_def
  by (metis append_take_drop_id)

lemma appends_others_trans:
  assumes "appends_others a b" and "appends_others b c"
  shows "appends_others a c"
proof -
  have lb: "log b = log a @ new_events a b"
    using assms(1) by (rule appends_others_log)
  have lc: "log c = log b @ new_events b c"
    using assms(2) by (rule appends_others_log)
  have "new_events a c = new_events a b @ new_events b c"
    unfolding new_events_def [of a c] lc unfolding lb by simp
  moreover have "take (length (log a)) (log c) = log a"
    unfolding lc unfolding lb by simp
  moreover have "list_all (\<lambda>e. \<not> core_key e) (new_events a b)"
    "list_all (\<lambda>e. \<not> core_key e) (new_events b c)"
    using assms unfolding appends_others_def by blast+
  moreover have "flags c = flags a" "primary_addr c = primary_addr a" "dev_key c = dev_key a"
    "iv_index c = iv_index a" "ivu_duration c = ivu_duration a" "cfg_srv c = cfg_srv a"
    using assms unfolding appends_others_def by simp_all
  ultimately show ?thesis
    unfolding appends_others_def by simp
qed

lemma appends_others_fold:
  assumes "\<And>i s. appends_others s (f i s)"
  shows "appends_others s (fold f xs s)"
proof (induction xs arbitrary: s)
  case Nil
  show ?case by (simp add: appends_others_refl)
next
  case (Cons x xs)
  have "appends_others s (f x s)" by (rule assms)
  moreover have "appends_others (f x s) (fold f xs (f x s))" by (rule Cons.IH)
  ultimately show ?case
    by (simp add: appends_others_trans)
qed

lemma appends_others_save:
  assumes "path \<noteq> ''Net''" "path \<noteq> ''IV''" "path \<noteq> ''Cfg''"
  shows "appends_others s (settings_save_one path len bytes s)"
  using assms by (simp add: appends_others_def settings_save_one_def new_events_def core_key_def)

lemma appends_others_frame:
  assumes "appends_others s' t"
    and "flags s' = flags s" "primary_addr s' = primary_addr s" "dev_key s' = dev_key s"
    "iv_index s' = iv_index s" "ivu_duration s' = ivu_duration s" "cfg_srv s' = cfg_srv s"
    "log s' = log s"
  shows "appends_others s t"
  using assms by (simp add: appends_others_def new_events_def)

lemma appends_others_frame2:
  assumes "appends_others s s'"
    and "flags t = flags s'" "primary_addr t = primary_addr s'" "dev_key t = dev_key s'"
    "iv_index t = iv_index s'" "ivu_duration t = ivu_duration s'" "cfg_srv t = cfg_srv s'"
    "log t = log s'"
  shows "appends_others s t"
  using assms by (simp add: appends_others_def new_events_def)

lemma store_pending_rpl_others: "appends_others s (store_pending_rpl cfg s)"
  unfolding store_pending_rpl_def
proof (rule appends_others_fold)
  fix i s
  show "appends_others s (store_pending_rpl_step cfg i s)"
    unfolding store_pending_rpl_step_def Let_def store_rpl_def
    by (auto simp: appends_others_refl intro!: appends_others_frame [OF appends_others_save])
qed

lemma clear_rpl_others: "appends_others s (clear_rpl s)"
  unfolding clear_rpl_def
proof (rule appends_others_fold)
  fix i s
  show "appends_others s (clear_rpl_step i s)"
    unfolding clear_rpl_step_def Let_def
    by (simp add: appends_others_def settings_save_one_def new_events_def core_key_def)
qed

lemma key_update_write_others: "appends_others s (key_update_write u s)"
  unfolding key_update_write_def clear_app_key_def clear_net_key_def store_app_key_def
    store_net_key_def Let_def
  by (auto simp: appends_others_refl intro!: appends_others_save split: option.splits)

lemma store_pending_keys_others: "appends_others s (store_pending_keys s)"
  unfolding store_pending_keys_def
proof (rule appends_others_fold)
  fix i s
  show "appends_others s (store_pending_keys_step i s)"
    unfolding store_pending_keys_step_def Let_def
    by (auto simp: appends_others_refl intro!: appends_others_frame2 [OF key_update_write_others])
qed

lemma store_pending_nodes_others: "appends_others s (store_pending_nodes s)"
  unfolding store_pending_nodes_def
proof (rule appends_others_fold)
  fix i s
  have w: "appends_others s (if nu_clear u then clear_node (nu_addr u) s
                  else (case bt_mesh_node_find (nu_addr u) s of
                       Some n \<Rightarrow> store_node (nodes s ! n) s
                     | None \<Rightarrow> s))" for u
    unfolding clear_node_def store_node_def Let_def
    by (auto simp: appends_others_refl intro!: appends_others_save split: option.splits)
  show "appends_others s (store_pending_nodes_step i s)"
    unfolding store_pending_nodes_step_def Let_def
    by (auto simp: appends_others_refl simp del: split_paired_All intro!: appends_others_frame2 [OF w])
qed

lemma store_pending_va_others: "appends_others s (store_pending_va s)"
  unfolding store_pending_va_def
proof (rule appends_others_fold)
  fix i s
  show "appends_others s (store_pending_va_step i s)"
    unfolding store_pending_va_step_def Let_def
    by (simp add: appends_others_def settings_save_one_def new_events_def core_key_def)
qed

lemma store_pending_seq_others: "appends_others s (store_pending_seq s)"
  unfolding store_pending_seq_def Let_def
  by (auto intro!: appends_others_save)

lemma store_pending_role_others: "appends_others s (store_pending_role s)"
  unfolding store_pending_role_def
  by (auto simp: appends_others_refl intro!: appends_others_save)

lemma store_pending_hb_pub_others: "appends_others s (store_pending_hb_pub cfg s)"
  unfolding store_pending_hb_pub_def Let_def
  by (auto simp: appends_others_refl intro!: appends_others_save split: option.splits)

lemma encode_mod_path_others:
  "encode_mod_path md vnd key \<noteq> ''Net''" "encode_mod_path md vnd key \<noteq> ''IV''"
  "encode_mod_path md vnd key \<noteq> ''Cfg''"
  by (simp_all add: encode_mod_path_def Let_def)

lemma upd_model_others: "appends_others s (upd_model m f s)"
  by (simp add: upd_model_def appends_others_def new_events_def)

lemma store_pending_mod_bind_others: "appends_others s (store_pending_mod_bind md vnd s)"
  unfolding store_pending_mod_bind_def Let_def
  by (rule appends_others_save) (rule encode_mod_path_others)+

lemma store_pending_mod_sub_others: "appends_others s (store_pending_mod_sub md vnd s)"
  unfolding store_pending_mod_sub_def Let_def
  by (rule appends_others_save) (rule encode_mod_path_others)+

lemma store_pending_mod_pub_others: "appends_others s (store_pending_mod_pub cfg md vnd s)"
  unfolding store_pending_mod_pub_def Let_def
  by (rule appends_others_save) (rule encode_mod_path_others)+

lemma store_pending_mod_others: "appends_others s (store_pending_mod cfg m s)"
proof -
  define v where "v = mod_vnd (models s ! m)"
  define B1 where "B1 = (\<lambda>a. if BT_MESH_MOD_BIND_PENDING \<in> mod_flags (models a ! m) then
      store_pending_mod_bind
        (models (upd_model m (\<lambda>md. md\<lparr>mod_flags := mod_flags md - {BT_MESH_MOD_BIND_PENDING}\<rparr>) a) ! m) v
        (upd_model m (\<lambda>md. md\<lparr>mod_flags := mod_flags md - {BT_MESH_MOD_BIND_PENDING}\<rparr>) a)
      else a)"
  define B2 where "B2 = (\<lambda>a. if BT_MESH_MOD_SUB_PENDING \<in> mod_flags (models a ! m) then
      store_pending_mod_sub
        (models (upd_model m (\<lambda>md. md\<lparr>mod_flags := mod_flags md - {BT_MESH_MOD_SUB_PENDING}\<rparr>) a) ! m) v
        (upd_model m (\<lambda>md. md\<lparr>mod_flags := mod_flags md - {BT_MESH_MOD_SUB_PENDING}\<rparr>) a)
      else a)"
  define B3 where "B3 = (\<lambda>a. if BT_MESH_MOD_PUB_PENDING \<in> mod_flags (models a ! m) then
      store_pending_mod_pub cfg
        (models (upd_model m (\<lambda>md. md\<lparr>mod_flags := mod_flags md - {BT_MESH_MOD_PUB_PENDING}\<rparr>) a) ! m) v
        (upd_model m (\<lambda>md. md\<lparr>mod_flags := mod_flags md - {BT_MESH_MOD_PUB_PENDING}\<rparr>) a)
      else a)"
  have e: "store_pending_mod cfg m s = (if mod_flags (models s ! m) = {} then s else B3 (B2 (B1 s)))"
    unfolding store_pending_mod_def Let_def B1_def B2_def B3_def v_def by (rule refl)
  have b1: "appends_others a (B1 a)" for a
    unfolding B1_def
    using appends_others_trans [OF upd_model_others store_pending_mod_bind_others]
    by (simp add: appends_others_refl)
  have b2: "appends_others a (B2 a)" for a
    unfolding B2_def
    using appends_others_trans [OF upd_model_others store_pending_mod_sub_others]
    by (simp add: appends_others_refl)
  have b3: "appends_others a (B3 a)" for a
    unfolding B3_def
    using appends_others_trans [OF upd_model_others store_pending_mod_pub_others]
    by (simp add: appends_others_refl)
  have "appends_others s (B3 (B2 (B1 s)))"
    by (rule appends_others_trans [OF appends_others_trans [OF b1 b2] b3])
  then show ?thesis
    unfolding e by (simp add: appends_others_refl)
qed

lemma store_pending_mods_others:
  "appends_others s (fold (store_pending_mod cfg) [0..<length (models s)] s)"
  by (rule appends_others_fold) (rule store_pending_mod_others)

lemma flush_stage_start: "flush_stage {} [] s s"
  by (simp add: flush_stage_def new_events_def)

lemma flush_stage_others:
  assumes st: "flush_stage D es s a" and b: "appends_others a b"
  shows "flush_stage D es s b"
proof -
  have la: "log a = log s @ new_events s a"
    using st unfolding flush_stage_def new_events_def by (metis append_take_drop_id)
  have lb: "log b = log a @ new_events a b"
    using b by (rule appends_others_log)
  have n: "new_events s b = new_events s a @ new_events a b"
    unfolding new_events_def [of s b] lb unfolding la by simp
  have "filter core_key (new_events a b) = []"
    using b unfolding appends_others_def by (simp add: filter_empty_conv list_all_iff)
  then have "filter core_key (new_events s b) = es"
    using st unfolding n flush_stage_def by simp
  moreover have "take (length (log s)) (log b) = log s"
    unfolding lb unfolding la by simp
  ultimately show ?thesis
    using st b unfolding flush_stage_def appends_others_def by simp
qed

lemma flush_stage_clear_flag:
  assumes st: "flush_stage D es s a"
  shows "flush_stage (D \<union> {f}) es s (a\<lparr>flags := flags a - {f}\<rparr>)"
  using st unfolding flush_stage_def new_events_def by auto

lemma flush_stage_skip:
  assumes st: "flush_stage D es s a" and "f \<notin> flags a"
  shows "flush_stage (D \<union> {f}) es s a"
  using assms unfolding flush_stage_def by auto

lemma flush_stage_test_and_clear:
  assumes st: "flush_stage D es s a" and b: "\<And>x. appends_others x (body x)"
  shows "flush_stage (D \<union> {f}) es s (test_and_clear f body a)"
proof (cases "f \<in> flags a")
  case True
  have "flush_stage (D \<union> {f}) es s (body (a\<lparr>flags := flags a - {f}\<rparr>))"
    by (rule flush_stage_others [OF flush_stage_clear_flag [OF st] b])
  then show ?thesis
    using True by (simp add: test_and_clear_def)
next
  case False
  then show ?thesis
    using flush_stage_skip [OF st False] by (simp add: test_and_clear_def)
qed

lemma flush_stage_save:
  assumes st: "flush_stage D es s a" and k: "core_key (Settings_save path len bytes)"
  shows "flush_stage D (es @ [Settings_save path len bytes]) s (settings_save_one path len bytes a)"
proof -
  have la: "log a = log s @ new_events s a"
    using st unfolding flush_stage_def new_events_def by (metis append_take_drop_id)
  have le: "length (log s) \<le> length (log a)"
    unfolding la by simp
  have n: "new_events s (settings_save_one path len bytes a) = new_events s a @ [Settings_save path len bytes]"
    using le by (simp add: new_events_def settings_save_one_def)
  have tk: "take (length (log s)) (log (settings_save_one path len bytes a)) = log s"
    using le st by (simp add: settings_save_one_def flush_stage_def)
  have fr: "flags (settings_save_one path len bytes a) = flags a"
    "primary_addr (settings_save_one path len bytes a) = primary_addr a"
    "dev_key (settings_save_one path len bytes a) = dev_key a"
    "iv_index (settings_save_one path len bytes a) = iv_index a"
    "ivu_duration (settings_save_one path len bytes a) = ivu_duration a"
    "cfg_srv (settings_save_one path len bytes a) = cfg_srv a"
    by (simp_all add: settings_save_one_def)
  show ?thesis
    using st k unfolding flush_stage_def n tk fr by simp
qed

lemma flush_stage_core:
  assumes st: "flush_stage D es s a"
    and b: "\<And>x. flush_stage (D \<union> {f}) es s x \<Longrightarrow> flush_stage (D \<union> {f}) (es @ E) s (body x)"
  shows "flush_stage (D \<union> {f}) (es @ (if f \<in> flags a then E else [])) s (test_and_clear f body a)"
proof (cases "f \<in> flags a")
  case True
  then show ?thesis
    using b [OF flush_stage_clear_flag [OF st]] by (simp add: test_and_clear_def)
next
  case False
  then show ?thesis
    using flush_stage_skip [OF st False] by (simp add: test_and_clear_def)
qed

lemma filter_saves_to_core:
  assumes "k = ''Net'' \<or> k = ''IV'' \<or> k = ''Cfg''"
  shows "filter (saves_to k) es = filter (saves_to k) (filter core_key es)"
proof -
  have "saves_to k e \<Longrightarrow> core_key e" for e
    using assms unfolding core_key_def by blast
  then show ?thesis
    by (simp add: filter_filter conj_commute cong: filter_cong) (metis (mono_tags, lifting) filter_cong)
qed

lemma store_pending_stage:
  fixes s :: bt_mesh_state and cfg :: mesh_config
  defines "N \<equiv> (if BT_MESH_NET_PENDING \<in> flags s then
        [if BT_MESH_VALID \<in> flags s
         then Settings_save ''Net'' (nat sizeof_net_val)
                (net_val_bytes \<lparr>nv_primary_addr = primary_addr s, nv_dev_key = dev_key s\<rparr>)
         else Settings_save ''Net'' 0 []]
      else [])"
    and "I \<equiv> (if BT_MESH_IV_PENDING \<in> flags s then
        [if BT_MESH_VALID \<in> flags s
         then Settings_save ''IV'' (nat sizeof_iv_val)
                (iv_val_bytes \<lparr>iv_iv_index = iv_index s,
                   iv_iv_update = (BT_MESH_IVU_IN_PROGRESS \<in> flags s),
                   iv_iv_duration = ucast (ivu_duration s)\<rparr>)
         else Settings_save ''IV'' 0 []]
      else [])"
    and "C \<equiv> (if BT_MESH_CFG_PENDING \<in> flags s then
        (if BT_MESH_VALID \<in> flags s then
           (case cfg_srv s of
              None \<Rightarrow> []
            | Some c \<Rightarrow>
                [Settings_save ''Cfg'' (nat sizeof_cfg_val)
                   (cfg_val_bytes \<lparr>cv_net_transmit = net_transmit c, cv_relay = relay c,
                      cv_relay_retransmit = relay_retransmit c, cv_beacon = beacon c,
                      cv_gatt_proxy = gatt_proxy c, cv_frnd = frnd c,
                      cv_default_ttl = default_ttl c\<rparr>)])
         else [Settings_save ''Cfg'' 0 []])
      else [])"
  shows "filter core_key (new_events s (store_pending cfg s)) = N @ I @ C"
proof -
  define s1 where "s1 = test_and_clear BT_MESH_RPL_PENDING
                 (\<lambda>s. if BT_MESH_VALID \<in> flags s then store_pending_rpl cfg s else clear_rpl s) s"
  define s2 where "s2 = test_and_clear BT_MESH_KEYS_PENDING store_pending_keys s1"
  define s3 where "s3 = test_and_clear BT_MESH_NET_PENDING
                 (\<lambda>s. if BT_MESH_VALID \<in> flags s then store_pending_net s else clear_net s) s2"
  define s4 where "s4 = test_and_clear BT_MESH_IV_PENDING
                 (\<lambda>s. if BT_MESH_VALID \<in> flags s then store_pending_iv s else clear_iv s) s3"
  define s5 where "s5 = test_and_clear BT_MESH_SEQ_PENDING store_pending_seq s4"
  define s6 where "s6 = test_and_clear BT_MESH_HB_PUB_PENDING (store_pending_hb_pub cfg) s5"
  define s7 where "s7 = test_and_clear BT_MESH_CFG_PENDING
                 (\<lambda>s. if BT_MESH_VALID \<in> flags s then store_pending_cfg s else clear_cfg s) s6"
  define s8 where "s8 = test_and_clear BT_MESH_MOD_PENDING
                 (\<lambda>s. fold (store_pending_mod cfg) [0..<length (models s)] s) s7"
  define s9 where "s9 = test_and_clear BT_MESH_VA_PENDING store_pending_va s8"
  define s10 where "s10 = test_and_clear BT_MESH_ROLE_PENDING store_pending_role s9"
  define s11 where "s11 = (if CONFIG_BT_MESH_PROVISIONER cfg
                 then test_and_clear BT_MESH_NODES_PENDING store_pending_nodes s10 else s10)"
  have sp: "store_pending cfg s = s11"
    unfolding store_pending_def Let_def s11_def s10_def s9_def s8_def s7_def s6_def s5_def
      s4_def s3_def s2_def s1_def by (rule refl)
  define D2 where "D2 = {} \<union> {BT_MESH_RPL_PENDING} \<union> {BT_MESH_KEYS_PENDING}"
  define D3 where "D3 = D2 \<union> {BT_MESH_NET_PENDING}"
  define D4 where "D4 = D3 \<union> {BT_MESH_IV_PENDING}"
  define D6 where "D6 = D4 \<union> {BT_MESH_SEQ_PENDING} \<union> {BT_MESH_HB_PUB_PENDING}"
  define D7 where "D7 = D6 \<union> {BT_MESH_CFG_PENDING}"
  define D10 where "D10 = D7 \<union> {BT_MESH_MOD_PENDING} \<union> {BT_MESH_VA_PENDING} \<union> {BT_MESH_ROLE_PENDING}"
  have rplb: "appends_others x (if BT_MESH_VALID \<in> flags x then store_pending_rpl cfg x else clear_rpl x)" for x
    by (simp add: store_pending_rpl_others clear_rpl_others)
  have st1: "flush_stage ({} \<union> {BT_MESH_RPL_PENDING}) [] s s1"
    unfolding s1_def by (rule flush_stage_test_and_clear [OF flush_stage_start rplb])
  have st2: "flush_stage D2 [] s s2"
    unfolding s2_def D2_def by (rule flush_stage_test_and_clear [OF st1 store_pending_keys_others])
  \<comment> \<open>network\<close>
  define EN where "EN = (if BT_MESH_VALID \<in> flags s
         then Settings_save ''Net'' (nat sizeof_net_val)
                (net_val_bytes \<lparr>nv_primary_addr = primary_addr s, nv_dev_key = dev_key s\<rparr>)
         else Settings_save ''Net'' 0 [])"
  have netb: "flush_stage D3 ([] @ [EN]) s
       (if BT_MESH_VALID \<in> flags x then store_pending_net x else clear_net x)"
    if x: "flush_stage D3 [] s x" for x
  proof -
    have v: "(BT_MESH_VALID \<in> flags x) = (BT_MESH_VALID \<in> flags s)"
      and p: "primary_addr x = primary_addr s" "dev_key x = dev_key s"
      using x unfolding flush_stage_def D3_def D2_def by auto
    show ?thesis
      unfolding v EN_def store_pending_net_def clear_net_def Let_def bt_mesh_primary_addr_def p
      using flush_stage_save [OF x, of "''Net''" "nat sizeof_net_val"
          "net_val_bytes \<lparr>nv_primary_addr = primary_addr s, nv_dev_key = dev_key s\<rparr>"]
        flush_stage_save [OF x, of "''Net''" 0 "[]"]
      by (simp add: core_key_def)
  qed
  have n3: "(BT_MESH_NET_PENDING \<in> flags s2) = (BT_MESH_NET_PENDING \<in> flags s)"
    using st2 unfolding flush_stage_def D2_def by auto
  have st3: "flush_stage D3 N s s3"
    using flush_stage_core [OF st2, where f = BT_MESH_NET_PENDING and E = "[EN]", folded D3_def, OF netb]
    unfolding s3_def N_def n3 EN_def by simp
  \<comment> \<open>IV\<close>
  define EI where "EI = (if BT_MESH_VALID \<in> flags s
         then Settings_save ''IV'' (nat sizeof_iv_val)
                (iv_val_bytes \<lparr>iv_iv_index = iv_index s,
                   iv_iv_update = (BT_MESH_IVU_IN_PROGRESS \<in> flags s),
                   iv_iv_duration = ucast (ivu_duration s)\<rparr>)
         else Settings_save ''IV'' 0 [])"
  have ivb: "flush_stage D4 (N @ [EI]) s
       (if BT_MESH_VALID \<in> flags x then store_pending_iv x else clear_iv x)"
    if x: "flush_stage D4 N s x" for x
  proof -
    have v: "(BT_MESH_VALID \<in> flags x) = (BT_MESH_VALID \<in> flags s)"
      "(BT_MESH_IVU_IN_PROGRESS \<in> flags x) = (BT_MESH_IVU_IN_PROGRESS \<in> flags s)"
      and p: "iv_index x = iv_index s" "ivu_duration x = ivu_duration s"
      using x unfolding flush_stage_def D4_def D3_def D2_def by auto
    show ?thesis
      unfolding v EI_def store_pending_iv_def clear_iv_def Let_def p
      using flush_stage_save [OF x, of "''IV''" "nat sizeof_iv_val"
          "iv_val_bytes \<lparr>iv_iv_index = iv_index s,
                   iv_iv_update = (BT_MESH_IVU_IN_PROGRESS \<in> flags s),
                   iv_iv_duration = ucast (ivu_duration s)\<rparr>"]
        flush_stage_save [OF x, of "''IV''" 0 "[]"]
      by (simp add: core_key_def)
  qed
  have n4: "(BT_MESH_IV_PENDING \<in> flags s3) = (BT_MESH_IV_PENDING \<in> flags s)"
    using st3 unfolding flush_stage_def D3_def D2_def by auto
  have st4: "flush_stage D4 (N @ I) s s4"
    using flush_stage_core [OF st3, where f = BT_MESH_IV_PENDING and E = "[EI]", folded D4_def, OF ivb]
    unfolding s4_def I_def n4 EI_def by simp
  have st5: "flush_stage (D4 \<union> {BT_MESH_SEQ_PENDING}) (N @ I) s s5"
    unfolding s5_def by (rule flush_stage_test_and_clear [OF st4 store_pending_seq_others])
  have st6: "flush_stage D6 (N @ I) s s6"
    unfolding s6_def D6_def by (rule flush_stage_test_and_clear [OF st5 store_pending_hb_pub_others])
  \<comment> \<open>configuration\<close>
  define EC where "EC = (if BT_MESH_VALID \<in> flags s then
           (case cfg_srv s of
              None \<Rightarrow> []
            | Some c \<Rightarrow>
                [Settings_save ''Cfg'' (nat sizeof_cfg_val)
                   (cfg_val_bytes \<lparr>cv_net_transmit = net_transmit c, cv_relay = relay c,
                      cv_relay_retransmit = relay_retransmit c, cv_beacon = beacon c,
                      cv_gatt_proxy = gatt_proxy c, cv_frnd = frnd c,
                      cv_default_ttl = default_ttl c\<rparr>)])
         else [Settings_save ''Cfg'' 0 []])"
  have cfgb: "flush_stage D7 ((N @ I) @ EC) s
       (if BT_MESH_VALID \<in> flags x then store_pending_cfg x else clear_cfg x)"
    if x: "flush_stage D7 (N @ I) s x" for x
  proof -
    have v: "(BT_MESH_VALID \<in> flags x) = (BT_MESH_VALID \<in> flags s)"
      and p: "cfg_srv x = cfg_srv s"
      using x unfolding flush_stage_def D7_def D6_def D4_def D3_def D2_def by auto
    show ?thesis
      unfolding v EC_def store_pending_cfg_def clear_cfg_def Let_def bt_mesh_cfg_get_def p
      using x flush_stage_save [OF x, of "''Cfg''" 0 "[]"]
        flush_stage_save [OF x, of "''Cfg''" "nat sizeof_cfg_val"]
      by (simp add: core_key_def split: option.splits)
  qed
  have n7: "(BT_MESH_CFG_PENDING \<in> flags s6) = (BT_MESH_CFG_PENDING \<in> flags s)"
    using st6 unfolding flush_stage_def D6_def D4_def D3_def D2_def by auto
  have st7: "flush_stage D7 (N @ I @ C) s s7"
    using flush_stage_core [OF st6, where f = BT_MESH_CFG_PENDING and E = EC, folded D7_def, OF cfgb]
    unfolding s7_def C_def n7 EC_def by simp
  have st8: "flush_stage (D7 \<union> {BT_MESH_MOD_PENDING}) (N @ I @ C) s s8"
    unfolding s8_def by (rule flush_stage_test_and_clear [OF st7 store_pending_mods_others])
  have st9: "flush_stage (D7 \<union> {BT_MESH_MOD_PENDING} \<union> {BT_MESH_VA_PENDING}) (N @ I @ C) s s9"
    unfolding s9_def by (rule flush_stage_test_and_clear [OF st8 store_pending_va_others])
  have st10: "flush_stage D10 (N @ I @ C) s s10"
    unfolding s10_def D10_def by (rule flush_stage_test_and_clear [OF st9 store_pending_role_others])
  have st11a: "flush_stage (D10 \<union> {BT_MESH_NODES_PENDING}) (N @ I @ C) s
      (test_and_clear BT_MESH_NODES_PENDING store_pending_nodes s10)"
    by (rule flush_stage_test_and_clear [OF st10 store_pending_nodes_others])
  have "filter core_key (new_events s s11) = N @ I @ C"
  proof (cases "CONFIG_BT_MESH_PROVISIONER cfg")
    case True
    then show ?thesis
      using st11a unfolding s11_def flush_stage_def by simp
  next
    case False
    then show ?thesis
      using st10 unfolding s11_def flush_stage_def by simp
  qed
  then show ?thesis
    unfolding sp .
qed

subsection \<open>The deferred store writes network, IV and configuration only when valid\<close>

text \<open>
  Claim C9. When the deferred store runs with the pending flag of the network
  record, the IV record or the configuration record set, it writes to that key
  exactly once: if the valid flag is set, the record built from the current state
  (for the configuration, only when a configuration server exists), and if the
  valid flag is not set, a zero-length write, which clears the key. With the
  pending flag not set it writes nothing to the key.
\<close>

theorem store_pending_valid_gate:
  "filter (saves_to ''Net'') (new_events s (store_pending cfg s)) =
     (if BT_MESH_NET_PENDING \<in> flags s then
        [if BT_MESH_VALID \<in> flags s
         then Settings_save ''Net'' (nat sizeof_net_val)
                (net_val_bytes \<lparr>nv_primary_addr = primary_addr s, nv_dev_key = dev_key s\<rparr>)
         else Settings_save ''Net'' 0 []]
      else []) \<and>
   filter (saves_to ''IV'') (new_events s (store_pending cfg s)) =
     (if BT_MESH_IV_PENDING \<in> flags s then
        [if BT_MESH_VALID \<in> flags s
         then Settings_save ''IV'' (nat sizeof_iv_val)
                (iv_val_bytes \<lparr>iv_iv_index = iv_index s,
                   iv_iv_update = (BT_MESH_IVU_IN_PROGRESS \<in> flags s),
                   iv_iv_duration = ucast (ivu_duration s)\<rparr>)
         else Settings_save ''IV'' 0 []]
      else []) \<and>
   filter (saves_to ''Cfg'') (new_events s (store_pending cfg s)) =
     (if BT_MESH_CFG_PENDING \<in> flags s then
        (if BT_MESH_VALID \<in> flags s then
           (case cfg_srv s of
              None \<Rightarrow> []
            | Some c \<Rightarrow>
                [Settings_save ''Cfg'' (nat sizeof_cfg_val)
                   (cfg_val_bytes \<lparr>cv_net_transmit = net_transmit c, cv_relay = relay c,
                      cv_relay_retransmit = relay_retransmit c, cv_beacon = beacon c,
                      cv_gatt_proxy = gatt_proxy c, cv_frnd = frnd c,
                      cv_default_ttl = default_ttl c\<rparr>)])
         else [Settings_save ''Cfg'' 0 []])
      else [])"
proof -
  have n: "filter (saves_to ''Net'') (new_events s (store_pending cfg s)) =
      filter (saves_to ''Net'') (filter core_key (new_events s (store_pending cfg s)))"
    by (rule filter_saves_to_core) simp
  have i: "filter (saves_to ''IV'') (new_events s (store_pending cfg s)) =
      filter (saves_to ''IV'') (filter core_key (new_events s (store_pending cfg s)))"
    by (rule filter_saves_to_core) simp
  have c: "filter (saves_to ''Cfg'') (new_events s (store_pending cfg s)) =
      filter (saves_to ''Cfg'') (filter core_key (new_events s (store_pending cfg s)))"
    by (rule filter_saves_to_core) simp
  show ?thesis
    unfolding n i c store_pending_stage
    by (simp split: option.splits)
qed

text \<open>
  Claim C9, on two states: all three pending and not valid, the network key is
  cleared; valid with IV index 1, duration 3 and no update in progress, the five
  bytes of the IV record are written.
\<close>

theorem store_pending_valid_gate_witness:
  "filter (saves_to ''Net'')
     (new_events (boot_state\<lparr>flags := {BT_MESH_NET_PENDING, BT_MESH_IV_PENDING, BT_MESH_CFG_PENDING}\<rparr>)
        (store_pending example_config
           (boot_state\<lparr>flags := {BT_MESH_NET_PENDING, BT_MESH_IV_PENDING, BT_MESH_CFG_PENDING}\<rparr>)))
     = [Settings_save ''Net'' 0 []] \<and>
   filter (saves_to ''IV'')
     (new_events (boot_state\<lparr>flags := {BT_MESH_VALID, BT_MESH_IV_PENDING}, iv_index := 1, ivu_duration := 3\<rparr>)
        (store_pending example_config
           (boot_state\<lparr>flags := {BT_MESH_VALID, BT_MESH_IV_PENDING}, iv_index := 1, ivu_duration := 3\<rparr>)))
     = [Settings_save ''IV'' 5 [1, 0, 0, 0, 6]]"
  using store_pending_valid_gate [of "boot_state\<lparr>flags := {BT_MESH_NET_PENDING, BT_MESH_IV_PENDING, BT_MESH_CFG_PENDING}\<rparr>" example_config]
    store_pending_valid_gate [of "boot_state\<lparr>flags := {BT_MESH_VALID, BT_MESH_IV_PENDING}, iv_index := 1, ivu_duration := 3\<rparr>" example_config]
  by (simp add: sizeof_iv_val_def iv_val_bytes_def le32_def of_bool8_def)

subsection \<open>Decoding a zero-length payload\<close>

text \<open>What each handler does with a value of length 0.\<close>

lemma net_zero_length:
  "fst (net_set_bin cfg key val 0 s) = 0 \<and>
   bt_mesh_primary_addr (snd (net_set_bin cfg key val 0 s)) = BT_MESH_ADDR_UNASSIGNED \<and>
   dev_key (snd (net_set_bin cfg key val 0 s)) = replicate 16 0"
  by (simp add: net_set_bin_def bt_mesh_comp_unprovision_def emit_def bt_mesh_primary_addr_def)

lemma iv_zero_length:
  "fst (iv_set_bin cfg key val 0 s) = 0 \<and>
   iv_index (snd (iv_set_bin cfg key val 0 s)) = 0 \<and>
   BT_MESH_IVU_IN_PROGRESS \<notin> flags (snd (iv_set_bin cfg key val 0 s))"
  by (simp add: iv_set_bin_def)

lemma seq_zero_length:
  "fst (seq_set_bin cfg key val 0 s) = 0 \<and> seq (snd (seq_set_bin cfg key val 0 s)) = 0"
  by (simp add: seq_set_bin_def)

lemma rpl_zero_length:
  assumes "rpl_find (word_of_int (strtol16 (drop 4 key))) s = Some i"
  shows "fst (rpl_set_bin cfg key val 0 s) = 0 \<and>
     rpl (snd (rpl_set_bin cfg key val 0 s)) ! i = bt_mesh_rpl_zero"
proof -
  have "i < length (rpl s)"
    using find_first_Some [OF assms [unfolded rpl_find_def]] by simp
  then show ?thesis
    using assms by (simp add: rpl_set_bin_def Let_def)
qed

lemma net_key_zero_length:
  assumes "bt_mesh_subnet_get (word_of_int (strtol16 (drop 7 key))) s = Some i"
  shows "net_key_set_bin cfg key val 0 s = (0, bt_mesh_subnet_del i s)"
  using assms by (simp add: net_key_set_bin_def Let_def)

lemma app_key_zero_length:
  assumes "bt_mesh_app_key_find (word_of_int (strtol16 (drop 7 key))) s = Some i"
  shows "app_key_set_bin cfg key val 0 s = (0, bt_mesh_app_key_del i s)"
  using assms by (simp add: app_key_set_bin_def Let_def)

lemma hb_pub_zero_length:
  assumes "bt_mesh_hb_pub_get s = Some pub"
  shows "fst (hb_pub_set_bin cfg key val 0 s) = 0 \<and>
     map_option hb_dst (bt_mesh_hb_pub_get (snd (hb_pub_set_bin cfg key val 0 s))) = Some BT_MESH_ADDR_UNASSIGNED"
  using assms by (simp add: hb_pub_set_bin_def bt_mesh_hb_pub_get_def)

lemma cfg_zero_length:
  assumes "bt_mesh_cfg_get s = Some c"
  shows "fst (cfg_set_bin cfg key val 0 s) = 0 \<and>
     \<not> stored_cfg_valid (snd (cfg_set_bin cfg key val 0 s))"
  using assms by (simp add: cfg_set_bin_def)

lemma mod_bind_zero_length:
  assumes "m < length (models s)"
  shows "fst (mod_set_bind_bin m val 0 s) = 0 \<and>
     list_all (\<lambda>k. k = BT_MESH_KEY_UNUSED) (mod_keys (models (snd (mod_set_bind_bin m val 0 s)) ! m))"
  using assms by (simp add: mod_set_bind_bin_def upd_model_def Let_def list_all_iff)

lemma mod_sub_zero_length:
  assumes "m < length (models s)"
  shows "fst (mod_set_sub_bin m val 0 s) = 0 \<and>
     list_all (\<lambda>g. g = BT_MESH_ADDR_UNASSIGNED) (mod_groups (models (snd (mod_set_sub_bin m val 0 s)) ! m))"
  using assms by (simp add: mod_set_sub_bin_def upd_model_def Let_def list_all_iff BT_MESH_ADDR_UNASSIGNED_def)

lemma mod_pub_zero_length:
  assumes "m < length (models s)" "mod_pub (models s ! m) = Some p"
  shows "fst (mod_set_pub_bin m val 0 s) = 0 \<and>
     map_option pub_addr (mod_pub (models (snd (mod_set_pub_bin m val 0 s)) ! m)) = Some BT_MESH_ADDR_UNASSIGNED"
  using assms by (simp add: mod_set_pub_bin_def upd_model_def)

lemma node_zero_length:
  assumes "bt_mesh_node_find (word_of_int (strtol16 (drop 5 key))) s = Some i"
  shows "node_set_bin cfg key val 0 s = (0, bt_mesh_node_del i s)"
  using assms by (simp add: node_set_bin_def Let_def)

lemma va_zero_length: "va_set_bin cfg key val 0 s = (0, s)"
  by (simp add: va_set_bin_def Let_def)

lemma role_zero_length:
  "role_set_bin cfg key val 0 s = role_set_bin cfg key val len s"
  "role_set_bin cfg key (value_buffer []) 0 s = (0, s)"
  by (simp_all add: role_set_bin_def value_buffer_def Let_def)

lemma mod_data_zero_length:
  assumes "bt_mesh_model_get vnd (ucast (drop_bit 8 (word_of_int (strtol16 (drop 2 key)) :: u16)))
             (ucast (word_of_int (strtol16 (drop 2 key)) :: u16)) s = Some m"
    and "\<not> strstr key ''bind''" "\<not> strstr key ''sub''" "\<not> strstr key ''pub''" "strstr key ''data''"
  shows "fst (mod_set_bin vnd cfg key val 0 s)
           = (case mod_cb_settings_set (models s ! m) of Some cb \<Rightarrow> cb [] | None \<Rightarrow> - ENOENT) \<and>
         models (snd (mod_set_bin vnd cfg key val 0 s))
           = (models s)[m := (models s ! m)
               \<lparr>mod_flags := insert BT_MESH_MOD_DATA_PRESENT (mod_flags (models s ! m))\<rparr>]"
  using assms
  by (simp add: mod_set_bin_def Let_def upd_model_def emit_def split: option.splits)

text \<open>
  Claim C6, as the code has it. A zero-length payload clears the entity, where it
  exists, for every row of the settings table but three: the network record
  (address unassigned, device key zeroed), the IV record, the sequence number, the
  replay entry of the source, the network key, the application key and the node
  (each handed to its delete function), the heartbeat publication (destination
  unassigned), the staged configuration (marked not valid), and the bindings,
  subscriptions and publication of a model. The three others clear nothing. For a
  virtual address label the handler returns 0 and leaves the state as it is. The
  role handler never looks at the length: it reads the first byte of the buffer,
  which for a zero-length value is the 0 that \<^verbatim>\<open>conf_load\<close> filled the buffer with,
  neither role, and leaves the state as it is. For model data the handler marks
  the model as having data and hands the empty data to the model's callback, or
  returns \<^verbatim>\<open>-ENOENT\<close> where the model has none; the rest of the model stays.
\<close>

theorem zero_length_clears:
  "(fst (net_set_bin cfg key val 0 s) = 0 \<and>
    bt_mesh_primary_addr (snd (net_set_bin cfg key val 0 s)) = BT_MESH_ADDR_UNASSIGNED \<and>
    dev_key (snd (net_set_bin cfg key val 0 s)) = replicate 16 0) \<and>
   (fst (iv_set_bin cfg key val 0 s) = 0 \<and>
    iv_index (snd (iv_set_bin cfg key val 0 s)) = 0 \<and>
    BT_MESH_IVU_IN_PROGRESS \<notin> flags (snd (iv_set_bin cfg key val 0 s))) \<and>
   (fst (seq_set_bin cfg key val 0 s) = 0 \<and> seq (snd (seq_set_bin cfg key val 0 s)) = 0) \<and>
   (rpl_find (word_of_int (strtol16 (drop 4 rpl_key))) s = Some r \<longrightarrow>
      fst (rpl_set_bin cfg rpl_key val 0 s) = 0 \<and>
      rpl (snd (rpl_set_bin cfg rpl_key val 0 s)) ! r = bt_mesh_rpl_zero) \<and>
   (bt_mesh_subnet_get (word_of_int (strtol16 (drop 7 net_key))) s = Some b \<longrightarrow>
      net_key_set_bin cfg net_key val 0 s = (0, bt_mesh_subnet_del b s)) \<and>
   (bt_mesh_app_key_find (word_of_int (strtol16 (drop 7 app_key))) s = Some a \<longrightarrow>
      app_key_set_bin cfg app_key val 0 s = (0, bt_mesh_app_key_del a s)) \<and>
   (bt_mesh_hb_pub_get s = Some pub \<longrightarrow>
      fst (hb_pub_set_bin cfg key val 0 s) = 0 \<and>
      map_option hb_dst (bt_mesh_hb_pub_get (snd (hb_pub_set_bin cfg key val 0 s)))
        = Some BT_MESH_ADDR_UNASSIGNED) \<and>
   (bt_mesh_cfg_get s = Some c \<longrightarrow>
      fst (cfg_set_bin cfg cfg_key val 0 s) = 0 \<and>
      \<not> stored_cfg_valid (snd (cfg_set_bin cfg cfg_key val 0 s))) \<and>
   (m < length (models s) \<longrightarrow>
      fst (mod_set_bind_bin m val 0 s) = 0 \<and>
      list_all (\<lambda>k. k = BT_MESH_KEY_UNUSED)
        (mod_keys (models (snd (mod_set_bind_bin m val 0 s)) ! m))) \<and>
   (m < length (models s) \<longrightarrow>
      fst (mod_set_sub_bin m val 0 s) = 0 \<and>
      list_all (\<lambda>g. g = BT_MESH_ADDR_UNASSIGNED)
        (mod_groups (models (snd (mod_set_sub_bin m val 0 s)) ! m))) \<and>
   (m < length (models s) \<and> mod_pub (models s ! m) = Some p \<longrightarrow>
      fst (mod_set_pub_bin m val 0 s) = 0 \<and>
      map_option pub_addr (mod_pub (models (snd (mod_set_pub_bin m val 0 s)) ! m))
        = Some BT_MESH_ADDR_UNASSIGNED) \<and>
   (bt_mesh_node_find (word_of_int (strtol16 (drop 5 node_key))) s = Some n \<longrightarrow>
      node_set_bin cfg node_key val 0 s = (0, bt_mesh_node_del n s)) \<and>
   va_set_bin cfg va_key val 0 s = (0, s) \<and>
   (role_set_bin cfg role_key val 0 s = role_set_bin cfg role_key val len s \<and>
    role_set_bin cfg role_key (value_buffer []) 0 s = (0, s)) \<and>
   (bt_mesh_model_get vnd (ucast (drop_bit 8 (word_of_int (strtol16 (drop 2 data_key)) :: u16)))
        (ucast (word_of_int (strtol16 (drop 2 data_key)) :: u16)) s = Some dm \<and>
    \<not> strstr data_key ''bind'' \<and> \<not> strstr data_key ''sub'' \<and> \<not> strstr data_key ''pub'' \<and>
    strstr data_key ''data'' \<longrightarrow>
      fst (mod_set_bin vnd cfg data_key val 0 s)
        = (case mod_cb_settings_set (models s ! dm) of Some cb \<Rightarrow> cb [] | None \<Rightarrow> - ENOENT) \<and>
      models (snd (mod_set_bin vnd cfg data_key val 0 s))
        = (models s)[dm := (models s ! dm)
            \<lparr>mod_flags := insert BT_MESH_MOD_DATA_PRESENT (mod_flags (models s ! dm))\<rparr>])"
  by (intro conjI impI)
    (simp_all add: net_zero_length iv_zero_length seq_zero_length va_zero_length
      rpl_zero_length net_key_zero_length app_key_zero_length
      hb_pub_zero_length cfg_zero_length mod_bind_zero_length mod_sub_zero_length
      mod_pub_zero_length node_zero_length role_zero_length(2) mod_data_zero_length,
     rule role_zero_length(1))

text \<open>Claim C6 on the provisioned example state, where every entity exists.\<close>

theorem zero_length_clears_witness:
  "(rpl_find (word_of_int (strtol16 (drop 4 ''RPL/3''))) provisioned_state = Some 0 \<and>
    rpl (snd (rpl_set_bin example_config ''RPL/3'' (value_buffer []) 0 provisioned_state)) ! 0
      = bt_mesh_rpl_zero) \<and>
   (bt_mesh_subnet_get (word_of_int (strtol16 (drop 7 ''NetKey/1''))) provisioned_state = Some 0 \<and>
    net_key_set_bin example_config ''NetKey/1'' (value_buffer []) 0 provisioned_state
      = (0, bt_mesh_subnet_del 0 provisioned_state)) \<and>
   (bt_mesh_app_key_find (word_of_int (strtol16 (drop 7 ''AppKey/2''))) provisioned_state = Some 0 \<and>
    app_key_set_bin example_config ''AppKey/2'' (value_buffer []) 0 provisioned_state
      = (0, bt_mesh_app_key_del 0 provisioned_state)) \<and>
   (bt_mesh_hb_pub_get provisioned_state
      = Some \<lparr>hb_dst = 6, hb_count = 0xffff, hb_ttl = 7, hb_period = 2, hb_feat = 1, hb_net_idx = 1\<rparr> \<and>
    map_option hb_dst (bt_mesh_hb_pub_get
        (snd (hb_pub_set_bin example_config ''HBPub'' (value_buffer []) 0 provisioned_state)))
      = Some BT_MESH_ADDR_UNASSIGNED) \<and>
   (bt_mesh_cfg_get provisioned_state
      = Some \<lparr>net_transmit = 1, relay = 1, relay_retransmit = 2, beacon = 1,
               gatt_proxy = 1, frnd = 0, default_ttl = 7\<rparr> \<and>
    \<not> stored_cfg_valid (snd (cfg_set_bin example_config ''Cfg'' (value_buffer []) 0 provisioned_state))) \<and>
   ((0 :: nat) < length (models provisioned_state) \<and>
    mod_pub (models provisioned_state ! 0) = mod_pub example_model \<and>
    mod_pub example_model \<noteq> None \<and>
    list_all (\<lambda>k. k = BT_MESH_KEY_UNUSED)
      (mod_keys (models (snd (mod_set_bind_bin 0 (value_buffer []) 0 provisioned_state)) ! 0)) \<and>
    list_all (\<lambda>g. g = BT_MESH_ADDR_UNASSIGNED)
      (mod_groups (models (snd (mod_set_sub_bin 0 (value_buffer []) 0 provisioned_state)) ! 0)) \<and>
    map_option pub_addr (mod_pub (models (snd (mod_set_pub_bin 0 (value_buffer []) 0 provisioned_state)) ! 0))
      = Some BT_MESH_ADDR_UNASSIGNED) \<and>
   (bt_mesh_node_find (word_of_int (strtol16 (drop 5 ''Node/4''))) provisioned_state = Some 0 \<and>
    node_set_bin example_config ''Node/4'' (value_buffer []) 0 provisioned_state
      = (0, bt_mesh_node_del 0 provisioned_state)) \<and>
   role_set_bin example_config ''Role'' (value_buffer []) 0 provisioned_state
     = role_set_bin example_config ''Role'' (value_buffer []) 1 provisioned_state \<and>
   (bt_mesh_model_get False (ucast (drop_bit 8 (word_of_int (strtol16 (drop 2 ''s/1/data'')) :: u16)))
        (ucast (word_of_int (strtol16 (drop 2 ''s/1/data'')) :: u16)) provisioned_state = Some 0 \<and>
    \<not> strstr ''s/1/data'' ''bind'' \<and> \<not> strstr ''s/1/data'' ''sub'' \<and>
    \<not> strstr ''s/1/data'' ''pub'' \<and> strstr ''s/1/data'' ''data'' \<and>
    fst (mod_set_bin False example_config ''s/1/data'' (value_buffer []) 0 provisioned_state) = - ENOENT \<and>
    models (snd (mod_set_bin False example_config ''s/1/data'' (value_buffer []) 0 provisioned_state))
      = [example_model\<lparr>mod_flags := {BT_MESH_MOD_DATA_PRESENT}\<rparr>])"
proof -
  have h1: "rpl_find (word_of_int (strtol16 (drop 4 ''RPL/3''))) provisioned_state = Some 0"
    by (simp add: strtol16_examples rpl_find_def provisioned_state_simps)
  have h2: "bt_mesh_subnet_get (word_of_int (strtol16 (drop 7 ''NetKey/1''))) provisioned_state = Some 0"
    by (simp add: strtol16_examples bt_mesh_subnet_get_def provisioned_state_simps)
  have h3: "bt_mesh_app_key_find (word_of_int (strtol16 (drop 7 ''AppKey/2''))) provisioned_state = Some 0"
    by (simp add: strtol16_examples bt_mesh_app_key_find_def provisioned_state_simps
        bt_mesh_app_key_zero_def BT_MESH_KEY_UNUSED_def)
  have h4: "bt_mesh_hb_pub_get provisioned_state
      = Some \<lparr>hb_dst = 6, hb_count = 0xffff, hb_ttl = 7, hb_period = 2, hb_feat = 1, hb_net_idx = 1\<rparr>"
    by (simp add: bt_mesh_hb_pub_get_def provisioned_state_simps)
  have h5: "bt_mesh_cfg_get provisioned_state
      = Some \<lparr>net_transmit = 1, relay = 1, relay_retransmit = 2, beacon = 1,
               gatt_proxy = 1, frnd = 0, default_ttl = 7\<rparr>"
    by (simp add: bt_mesh_cfg_get_def provisioned_state_simps)
  have h6: "(0 :: nat) < length (models provisioned_state)"
    "mod_pub (models provisioned_state ! 0) = mod_pub example_model"
    by (simp_all add: provisioned_state_simps)
  obtain p where h7: "mod_pub example_model = Some p"
    by (simp add: example_model_def)
  have h8: "bt_mesh_node_find (word_of_int (strtol16 (drop 5 ''Node/4''))) provisioned_state = Some 0"
    by (simp add: strtol16_examples bt_mesh_node_find_def provisioned_state_simps
        BT_MESH_ADDR_UNASSIGNED_def)
  have h9: "bt_mesh_model_get False (ucast (drop_bit 8 (word_of_int (strtol16 (drop 2 ''s/1/data'')) :: u16)))
        (ucast (word_of_int (strtol16 (drop 2 ''s/1/data'')) :: u16)) provisioned_state = Some 0"
    by (simp add: strtol16_def isspace_def hex_value_def LONG_MAX_def LONG_MIN_def
        bt_mesh_model_get_def provisioned_state_simps example_model_def)
  have h10: "\<not> strstr ''s/1/data'' ''bind''" "\<not> strstr ''s/1/data'' ''sub''"
    "\<not> strstr ''s/1/data'' ''pub''" "strstr ''s/1/data'' ''data''"
    by simp_all
  have h11: "mod_cb_settings_set (models provisioned_state ! 0) = None"
    "mod_flags (models provisioned_state ! 0) = {}"
    "models provisioned_state = [example_model]"
    by (simp_all add: provisioned_state_simps example_model_def)
  show ?thesis
    using zero_length_clears [where s = provisioned_state and cfg = example_config
        and val = "value_buffer []" and rpl_key = "''RPL/3''" and r = 0
        and net_key = "''NetKey/1''" and b = 0 and app_key = "''AppKey/2''" and a = 0
        and key = "''HBPub''" and cfg_key = "''Cfg''" and m = 0 and p = p and node_key = "''Node/4''" and n = 0
        and role_key = "''Role''" and len = 1 and vnd = False and data_key = "''s/1/data''" and dm = 0
        and pub = "\<lparr>hb_dst = 6, hb_count = 0xffff, hb_ttl = 7, hb_period = 2, hb_feat = 1, hb_net_idx = 1\<rparr>"
        and c = "\<lparr>net_transmit = 1, relay = 1, relay_retransmit = 2, beacon = 1,
               gatt_proxy = 1, frnd = 0, default_ttl = 7\<rparr>"]
      h1 h2 h3 h4 h5 h6 h7 h8 h9 h10 h11
    by simp
qed

text \<open>
  Claim C6 as stated fails for three rows of the table, on the provisioned example
  state: a zero-length payload for the key \<^verbatim>\<open>Va/0\<close> is accepted and the label 0, in
  use with address \<open>0x8000\<close>, stays; one for the key \<^verbatim>\<open>Role\<close> is accepted and the node
  role stays; one for the key \<^verbatim>\<open>s/1/data\<close> marks the model as having data and
  returns \<^verbatim>\<open>-ENOENT\<close>.
\<close>

theorem zero_length_kept_counterexample:
  "(mesh_set_bin example_config ''Va/0'' (value_buffer []) 0 provisioned_state = (0, provisioned_state) \<and>
    lab_ref (labels provisioned_state ! 0) = 1 \<and>
    lab_addr (labels provisioned_state ! 0) = 0x8000) \<and>
   (mesh_set_bin example_config ''Role'' (value_buffer []) 0 provisioned_state = (0, provisioned_state) \<and>
    BT_MESH_NODE \<in> flags provisioned_state) \<and>
   (fst (mesh_set_bin example_config ''s/1/data'' (value_buffer []) 0 provisioned_state) = - ENOENT \<and>
    models (snd (mesh_set_bin example_config ''s/1/data'' (value_buffer []) 0 provisioned_state))
      = [example_model\<lparr>mod_flags := {BT_MESH_MOD_DATA_PRESENT}\<rparr>])"
proof -
  have va: "mesh_set_bin example_config ''Va/0'' (value_buffer []) 0 provisioned_state = (0, provisioned_state)"
    by (simp add: mesh_set_bin_def settings_def provisioned_state_simps va_set_bin_def Let_def)
  have role: "mesh_set_bin example_config ''Role'' (value_buffer []) 0 provisioned_state = (0, provisioned_state)"
    by (simp add: mesh_set_bin_def settings_def provisioned_state_simps role_set_bin_def Let_def
        value_buffer_def)
  have data: "mesh_set_bin example_config ''s/1/data'' (value_buffer []) 0 provisioned_state
      = (- ENOENT, upd_model 0 (\<lambda>md. md\<lparr>mod_flags := insert BT_MESH_MOD_DATA_PRESENT (mod_flags md)\<rparr>)
           provisioned_state)"
    by (simp add: mesh_set_bin_def settings_def provisioned_state_simps sig_mod_set_bin_def
        mod_set_bin_def Let_def strtol16_def isspace_def hex_value_def LONG_MAX_def LONG_MIN_def
        bt_mesh_model_get_def example_model_def)
  show ?thesis
    unfolding va role data
    by (simp add: provisioned_state_simps upd_model_def example_model_def)
qed

subsection \<open>Loading with the wrong role\<close>

text \<open>No handler of the settings table activates anything: restoring only restores.\<close>

lemma restore_only_refl: "restore_only a a"
  by (simp add: restore_only_def new_events_def)

lemma restore_only_trans:
  assumes "restore_only a b" and "restore_only b c"
  shows "restore_only a c"
proof -
  have lb: "log b = log a @ new_events a b"
    using assms(1) unfolding restore_only_def new_events_def by (metis append_take_drop_id)
  have lc: "log c = log b @ new_events b c"
    using assms(2) unfolding restore_only_def new_events_def by (metis append_take_drop_id)
  have "new_events a c = new_events a b @ new_events b c"
    unfolding new_events_def [of a c] lc unfolding lb by simp
  moreover have "take (length (log a)) (log c) = log a"
    unfolding lc unfolding lb by simp
  moreover have "list_all (\<lambda>e. \<not> activation_event e) (new_events a b)"
    "list_all (\<lambda>e. \<not> activation_event e) (new_events b c)"
    using assms unfolding restore_only_def by blast+
  moreover have "(BT_MESH_VALID \<in> flags c) = (BT_MESH_VALID \<in> flags a)"
    "pending_store c = pending_store a"
    using assms unfolding restore_only_def by simp_all
  ultimately show ?thesis
    unfolding restore_only_def by simp
qed

lemma role_restore_only: "restore_only s (snd (role_set_bin cfg key val len s))"
  by (simp add: role_set_bin_def Let_def restore_only_def new_events_def)

lemma net_restore_only: "restore_only s (snd (net_set_bin cfg key val len s))"
  by (simp add: net_set_bin_def Let_def restore_only_def new_events_def
      bt_mesh_comp_unprovision_def bt_mesh_comp_provision_def emit_def)

lemma iv_restore_only: "restore_only s (snd (iv_set_bin cfg key val len s))"
  by (simp add: iv_set_bin_def Let_def restore_only_def new_events_def)

lemma seq_restore_only: "restore_only s (snd (seq_set_bin cfg key val len s))"
  by (simp add: seq_set_bin_def Let_def restore_only_def new_events_def)

lemma rpl_restore_only: "restore_only s (snd (rpl_set_bin cfg key val len s))"
  by (simp add: rpl_set_bin_def rpl_alloc_def Let_def restore_only_def new_events_def
      split: option.splits prod.splits)

lemma net_key_restore_only: "restore_only s (snd (net_key_set_bin cfg key val len s))"
  by (simp add: net_key_set_bin_def bt_mesh_subnet_del_def emit_def Let_def restore_only_def
      new_events_def split: option.splits)

lemma app_key_restore_only: "restore_only s (snd (app_key_set_bin cfg key val len s))"
  by (simp add: app_key_set_bin_def bt_mesh_app_key_del_def emit_def Let_def restore_only_def
      new_events_def split: option.splits)

lemma hb_pub_restore_only: "restore_only s (snd (hb_pub_set_bin cfg key val len s))"
  by (simp add: hb_pub_set_bin_def Let_def restore_only_def new_events_def split: option.splits)

lemma cfg_restore_only: "restore_only s (snd (cfg_set_bin cfg key val len s))"
  by (simp add: cfg_set_bin_def Let_def restore_only_def new_events_def split: option.splits)

lemma mod_restore_only: "restore_only s (snd (mod_set_bin vnd cfg key val len s))"
  by (simp add: mod_set_bin_def mod_set_bind_bin_def mod_set_sub_bin_def mod_set_pub_bin_def
      upd_model_def emit_def Let_def restore_only_def new_events_def split: option.splits)

lemma va_restore_only: "restore_only s (snd (va_set_bin cfg key val len s))"
  by (simp add: va_set_bin_def Let_def restore_only_def new_events_def split: option.splits)

lemma node_restore_only: "restore_only s (snd (node_set_bin cfg key val len s))"
  by (simp add: node_set_bin_def bt_mesh_node_del_def bt_mesh_node_alloc_def emit_def Let_def
      restore_only_def new_events_def split: option.splits prod.splits)


lemma mesh_set_lookup_restore_only:
  assumes "mesh_set_lookup (settings cfg s0) tmp_key = Some func"
  shows "restore_only s (snd (func cfg key val len s))"
proof -
  have "func \<in> {net_set_bin, iv_set_bin, seq_set_bin, rpl_set_bin, net_key_set_bin,
      app_key_set_bin, hb_pub_set_bin, cfg_set_bin, sig_mod_set_bin, vnd_mod_set_bin,
      role_set_bin, va_set_bin, node_set_bin}"
    using assms by (auto simp: settings_def split: if_splits)
  then show ?thesis
    by (auto simp: role_restore_only net_restore_only iv_restore_only seq_restore_only
        rpl_restore_only net_key_restore_only app_key_restore_only hb_pub_restore_only
        cfg_restore_only mod_restore_only va_restore_only node_restore_only
        sig_mod_set_bin_def vnd_mod_set_bin_def)
qed

lemma mesh_set_bin_restore_only: "restore_only s (snd (mesh_set_bin cfg key val len s))"
proof (cases "mesh_set_lookup (settings cfg s) (takeWhile (\<lambda>c. c \<noteq> CHR ''/'') key)")
  case None
  then show ?thesis
    by (simp add: mesh_set_bin_def Let_def restore_only_refl)
next
  case (Some func)
  then show ?thesis
    using mesh_set_lookup_restore_only [OF Some, of s key val len]
    by (simp add: mesh_set_bin_def Let_def)
qed

lemma conf_load_loop_restore_only: "restore_only s (conf_load_loop cfg items s)"
proof (induction items arbitrary: s)
  case Nil
  show ?case by (simp add: restore_only_refl)
next
  case (Cons item items)
  obtain key bytes where item: "item = (key, bytes)"
    by (cases item)
  show ?case
    unfolding item conf_load_loop.simps
    by (rule restore_only_trans [OF mesh_set_bin_restore_only Cons.IH])
qed

text \<open>Only the role handler touches the two role flags, and it sets the flag of the
  role it reads.\<close>

lemma role_keeps_flag:
  assumes "val ! 0 \<noteq> role_byte role_node" and "role_flag role_node \<notin> flags s"
  shows "role_flag role_node \<notin> flags (snd (role_set_bin cfg key val len s))"
  using assms by (auto simp: role_set_bin_def Let_def role_byte_def role_flag_def split: if_splits)

lemma net_keeps_flag: "flags (snd (net_set_bin cfg key val len s)) = flags s"
  by (simp add: net_set_bin_def Let_def bt_mesh_comp_unprovision_def bt_mesh_comp_provision_def emit_def)

lemma iv_keeps_flag:
  "(role_flag role_node \<in> flags (snd (iv_set_bin cfg key val len s))) = (role_flag role_node \<in> flags s)"
  by (simp add: iv_set_bin_def Let_def role_flag_def)

lemma seq_keeps_flag: "flags (snd (seq_set_bin cfg key val len s)) = flags s"
  by (simp add: seq_set_bin_def Let_def)

lemma rpl_keeps_flag: "flags (snd (rpl_set_bin cfg key val len s)) = flags s"
  by (simp add: rpl_set_bin_def rpl_alloc_def Let_def split: option.splits prod.splits)

lemma net_key_keeps_flag: "flags (snd (net_key_set_bin cfg key val len s)) = flags s"
  by (simp add: net_key_set_bin_def bt_mesh_subnet_del_def emit_def Let_def split: option.splits)

lemma app_key_keeps_flag: "flags (snd (app_key_set_bin cfg key val len s)) = flags s"
  by (simp add: app_key_set_bin_def bt_mesh_app_key_del_def emit_def Let_def split: option.splits)

lemma hb_pub_keeps_flag: "flags (snd (hb_pub_set_bin cfg key val len s)) = flags s"
  by (simp add: hb_pub_set_bin_def Let_def split: option.splits)

lemma cfg_keeps_flag: "flags (snd (cfg_set_bin cfg key val len s)) = flags s"
  by (simp add: cfg_set_bin_def Let_def split: option.splits)

lemma mod_keeps_flag: "flags (snd (mod_set_bin vnd cfg key val len s)) = flags s"
  by (simp add: mod_set_bin_def mod_set_bind_bin_def mod_set_sub_bin_def mod_set_pub_bin_def
      upd_model_def emit_def Let_def split: option.splits)

lemma va_keeps_flag: "flags (snd (va_set_bin cfg key val len s)) = flags s"
  by (simp add: va_set_bin_def Let_def split: option.splits)

lemma node_keeps_flag: "flags (snd (node_set_bin cfg key val len s)) = flags s"
  by (simp add: node_set_bin_def bt_mesh_node_del_def bt_mesh_node_alloc_def emit_def Let_def
      split: option.splits prod.splits)

lemma mesh_set_lookup_keeps_flag:
  assumes l: "mesh_set_lookup (settings cfg s0) tmp_key = Some func"
    and v: "tmp_key = ''Role'' \<longrightarrow> val ! 0 \<noteq> role_byte role_node"
    and f: "role_flag role_node \<notin> flags s"
  shows "role_flag role_node \<notin> flags (snd (func cfg key val len s))"
proof -
  have "(tmp_key = ''Role'' \<and> func = role_set_bin) \<or>
      func \<in> {net_set_bin, iv_set_bin, seq_set_bin, rpl_set_bin, net_key_set_bin,
        app_key_set_bin, hb_pub_set_bin, cfg_set_bin, sig_mod_set_bin, vnd_mod_set_bin,
        va_set_bin, node_set_bin}"
    using l by (auto simp: settings_def split: if_splits)
  then show ?thesis
  proof
    assume "tmp_key = ''Role'' \<and> func = role_set_bin"
    then show ?thesis
      using role_keeps_flag [OF _ f] v by simp
  next
    assume "func \<in> {net_set_bin, iv_set_bin, seq_set_bin, rpl_set_bin, net_key_set_bin,
        app_key_set_bin, hb_pub_set_bin, cfg_set_bin, sig_mod_set_bin, vnd_mod_set_bin,
        va_set_bin, node_set_bin}"
    then show ?thesis
      using f
      by (auto simp: net_keeps_flag iv_keeps_flag seq_keeps_flag rpl_keeps_flag net_key_keeps_flag
          app_key_keeps_flag hb_pub_keeps_flag cfg_keeps_flag mod_keeps_flag va_keeps_flag
          node_keeps_flag sig_mod_set_bin_def vnd_mod_set_bin_def)
  qed
qed

lemma mesh_set_bin_keeps_flag:
  assumes v: "takeWhile (\<lambda>c. c \<noteq> CHR ''/'') key = ''Role'' \<longrightarrow> val ! 0 \<noteq> role_byte role_node"
    and f: "role_flag role_node \<notin> flags s"
  shows "role_flag role_node \<notin> flags (snd (mesh_set_bin cfg key val len s))"
proof (cases "mesh_set_lookup (settings cfg s) (takeWhile (\<lambda>c. c \<noteq> CHR ''/'') key)")
  case None
  then show ?thesis
    using f by (simp add: mesh_set_bin_def Let_def)
next
  case (Some func)
  then show ?thesis
    using mesh_set_lookup_keeps_flag [OF Some v f, of key len]
    by (simp add: mesh_set_bin_def Let_def)
qed

lemma conf_load_loop_keeps_flag:
  assumes "list_all (\<lambda>item. \<not> stores_role role_node item) items"
    and "role_flag role_node \<notin> flags s"
  shows "role_flag role_node \<notin> flags (conf_load_loop cfg items s)"
  using assms
proof (induction items arbitrary: s)
  case Nil
  then show ?case by simp
next
  case (Cons item items)
  obtain key bytes where item: "item = (key, bytes)"
    by (cases item)
  have v: "takeWhile (\<lambda>c. c \<noteq> CHR ''/'') key = ''Role'' \<longrightarrow> value_buffer bytes ! 0 \<noteq> role_byte role_node"
    using Cons.prems(1) unfolding item by (simp add: stores_role_def)
  have "role_flag role_node \<notin> flags (snd (mesh_set_bin cfg key (value_buffer bytes) (int (length bytes)) s))"
    by (rule mesh_set_bin_keeps_flag [OF v Cons.prems(2)])
  moreover have "list_all (\<lambda>item. \<not> stores_role role_node item) items"
    using Cons.prems(1) by simp
  ultimately show ?case
    unfolding item conf_load_loop.simps by (rule Cons.IH [rotated])
qed

text \<open>
  Claim C7, as the code has it. \<^verbatim>\<open>bt_mesh_settings_load\<close> compares the role asked for
  with the role flags as they are after the restore. When the flag of that role
  is not set at the start of the call and no item of the store carries that role
  (the persisted role, where there is one, is the other role), the function
  returns \<open>-2\<close> after a read of the store that reached its end, and the error of the
  read otherwise; in both cases its state is the restored state: the commit did
  not run. Since the start of the call no network key material was derived, no
  timer or work item was submitted and the network was not started, the store
  timer is as it was, and the valid flag is as it was. This is stated of loads
  that write past no array.
\<close>

theorem settings_load_role_mismatch:
  assumes "role_flag role_node \<notin> flags s"
    and "list_all (\<lambda>item. \<not> stores_role role_node item) (store_items st)"
    and "list_all (\<lambda>e. \<not> memory_fault e) (new_events s (snd (conf_load cfg st s)))"
  shows "(store_end st = 0 \<longrightarrow> fst (bt_mesh_settings_load cfg st role_node s) = - 2) \<and>
         (store_end st \<noteq> 0 \<longrightarrow> fst (bt_mesh_settings_load cfg st role_node s) = store_end st) \<and>
         snd (bt_mesh_settings_load cfg st role_node s) = snd (conf_load cfg st s) \<and>
         list_all (\<lambda>e. \<not> activation_event e)
           (new_events s (snd (bt_mesh_settings_load cfg st role_node s))) \<and>
         pending_store (snd (bt_mesh_settings_load cfg st role_node s)) = pending_store s \<and>
         (BT_MESH_VALID \<in> flags (snd (bt_mesh_settings_load cfg st role_node s)))
           = (BT_MESH_VALID \<in> flags s)"
proof -
  define s1 where "s1 = conf_load_loop cfg (store_items st) s"
  have c: "conf_load cfg st s = (store_end st, s1)"
    by (simp add: conf_load_def s1_def)
  have "role_flag role_node \<notin> flags s1"
    unfolding s1_def by (rule conf_load_loop_keeps_flag [OF assms(2) assms(1)])
  then have m: "\<not> ((BT_MESH_NODE \<in> flags s1 \<and> role_node) \<or> (BT_MESH_PROVISIONER \<in> flags s1 \<and> \<not> role_node))"
    by (auto simp: role_flag_def split: if_splits)
  have l: "bt_mesh_settings_load cfg st role_node s = (if store_end st = 0 then - 2 else store_end st, s1)"
    using m by (auto simp: bt_mesh_settings_load_def c)
  have r: "restore_only s s1"
    unfolding s1_def by (rule conf_load_loop_restore_only)
  show ?thesis
    using r unfolding l c restore_only_def by simp
qed

text \<open>
  Claim C7 on a store that holds the provisioner role, a network key and a
  sequence number, loaded as a node from the boot state: the result is \<open>-2\<close>,
  nothing was activated and the state is not valid.
\<close>

theorem settings_load_role_mismatch_witness:
  "role_flag True \<notin> flags boot_state \<and>
   list_all (\<lambda>item. \<not> stores_role True item)
     [(''Role'', [2]), (''NetKey/1'', replicate 33 0), (''Seq'', [5, 0, 0])] \<and>
   list_all (\<lambda>e. \<not> memory_fault e)
     (new_events boot_state (snd (conf_load example_config
        \<lparr>store_items = [(''Role'', [2]), (''NetKey/1'', replicate 33 0), (''Seq'', [5, 0, 0])],
         store_end = 0\<rparr> boot_state))) \<and>
   fst (bt_mesh_settings_load example_config
        \<lparr>store_items = [(''Role'', [2]), (''NetKey/1'', replicate 33 0), (''Seq'', [5, 0, 0])],
         store_end = 0\<rparr> True boot_state) = - 2 \<and>
   list_all (\<lambda>e. \<not> activation_event e)
     (new_events boot_state (snd (bt_mesh_settings_load example_config
        \<lparr>store_items = [(''Role'', [2]), (''NetKey/1'', replicate 33 0), (''Seq'', [5, 0, 0])],
         store_end = 0\<rparr> True boot_state))) \<and>
   BT_MESH_VALID \<notin> flags (snd (bt_mesh_settings_load example_config
        \<lparr>store_items = [(''Role'', [2]), (''NetKey/1'', replicate 33 0), (''Seq'', [5, 0, 0])],
         store_end = 0\<rparr> True boot_state))"
proof -
  define st where "st = \<lparr>store_items = [(''Role'', [2 :: u8]), (''NetKey/1'', replicate 33 0), (''Seq'', [5, 0, 0])], store_end = 0\<rparr>"
  have h1: "role_flag True \<notin> flags boot_state"
    by (simp add: boot_state_simps)
  have h2: "list_all (\<lambda>item. \<not> stores_role True item) (store_items st)"
    by (simp add: st_def stores_role_def role_byte_def value_buffer_def)
  have lg: "log (snd (conf_load example_config st boot_state)) = []"
    unfolding st_def
    by (simp add: conf_load_def mesh_set_bin_def settings_def boot_state_simps example_config_simps
        role_set_bin_def net_key_set_bin_def seq_set_bin_def value_buffer_def Let_def
        strtol16_examples bt_mesh_subnet_get_def bt_mesh_subnet_zero_def BT_MESH_KEY_UNUSED_def
        sizeof_net_key_val_def sizeof_seq_val_def split: option.splits)
  have h3: "list_all (\<lambda>e. \<not> memory_fault e) (new_events boot_state (snd (conf_load example_config st boot_state)))"
    by (simp add: new_events_def lg)
  have v: "BT_MESH_VALID \<notin> flags boot_state"
    by (simp add: boot_state_simps)
  have e: "store_end st = 0"
    by (simp add: st_def)
  have c1: "fst (bt_mesh_settings_load example_config st True boot_state) = - 2"
    using settings_load_role_mismatch [OF h1 h2 h3] e by blast
  have c2: "list_all (\<lambda>e. \<not> activation_event e)
      (new_events boot_state (snd (bt_mesh_settings_load example_config st True boot_state)))"
    using settings_load_role_mismatch [OF h1 h2 h3] by blast
  have c3: "BT_MESH_VALID \<notin> flags (snd (bt_mesh_settings_load example_config st True boot_state))"
    using settings_load_role_mismatch [OF h1 h2 h3] v by blast
  show ?thesis
    using h1 h2 h3 c1 c2 c3 by (simp add: st_def)
qed

text \<open>Two stores with a network key, restored and committed.\<close>

lemma load_role2_netkey:
  "conf_load_loop example_config [(''Role'', [2]), (''NetKey/1'', replicate 33 0)] (boot_state\<lparr>flags := F\<rparr>)
     = boot_state\<lparr>flags := insert BT_MESH_PROVISIONER F,
          sub := [bt_mesh_subnet_zero\<lparr>sub_net_idx := 1\<rparr>, bt_mesh_subnet_zero]\<rparr>"
  by (simp add: mesh_set_bin_def settings_def boot_state_simps example_config_simps
      role_set_bin_def net_key_set_bin_def value_buffer_def Let_def
      strtol16_examples bt_mesh_subnet_get_def bt_mesh_subnet_zero_def BT_MESH_KEY_UNUSED_def
      sizeof_net_key_val_def net_key_val_of_bytes_def bt_mesh_subnet_keys_zero_def nth_append
      split: option.splits)

lemma commit_one_subnet:
  assumes "BT_MESH_PROVISIONER \<in> F"
  shows "mesh_commit example_config (boot_state\<lparr>flags := F,
          sub := [bt_mesh_subnet_zero\<lparr>sub_net_idx := 1\<rparr>, bt_mesh_subnet_zero]\<rparr>)
     = (0, boot_state\<lparr>flags := insert BT_MESH_VALID F,
          sub := [bt_mesh_subnet_zero\<lparr>sub_net_idx := 1,
                    sub_keys0 := bt_mesh_subnet_keys_zero\<lparr>k_derived := True\<rparr>,
                    sub_node_id := BT_MESH_NODE_IDENTITY_STOPPED\<rparr>, bt_mesh_subnet_zero],
          log := [Call_proxy_prov_disable, Call_net_keys_create 1 0,
                  Call_net_beacon_update 1, Ivu_timer_submit BT_MESH_IVU_TIMEOUT]\<rparr>)"
  using assms
  by (simp add: mesh_commit_def mesh_commit_subnet_def subnet_init_def commit_mod_def emit_def
      boot_state_def example_config_def Let_def bt_mesh_subnet_zero_def BT_MESH_KEY_UNUSED_def
      BT_MESH_KR_NORMAL_def BT_MESH_IVU_MIN_HOURS_def bt_mesh_hb_pub_get_def bt_mesh_cfg_get_def
      upt_conv_Cons bt_mesh_subnet_keys_zero_def)


lemma load_role1_role2_netkey:
  "conf_load_loop example_config [(''Role'', [1]), (''Role'', [2]), (''NetKey/1'', replicate 33 0)] boot_state
     = boot_state\<lparr>flags := {BT_MESH_PROVISIONER, BT_MESH_NODE},
          sub := [bt_mesh_subnet_zero\<lparr>sub_net_idx := 1\<rparr>, bt_mesh_subnet_zero]\<rparr>"
proof -
  have "snd (mesh_set_bin example_config ''Role'' (value_buffer [1]) (int (length [1 :: u8])) boot_state)
      = boot_state\<lparr>flags := {BT_MESH_NODE}\<rparr>"
    by (simp add: mesh_set_bin_def settings_def boot_state_simps role_set_bin_def value_buffer_def Let_def)
  then show ?thesis
    using load_role2_netkey [of "{BT_MESH_NODE}"] by simp
qed

text \<open>
  Claim C7 as stated fails in four ways, each with the provisioner role persisted
  last and the node role asked for. With the node flag set before the call, and
  with an older item of the store that carries the node role, both role flags are
  set after the restore: the load returns 0 and the commit derives the key
  material of the subnet, arms the IV update timer and marks the state valid.
  With a read of the store that fails after the role item the load returns the
  error of the read, \<open>-1\<close>. And the restore of an application key computes the
  identifiers of the key, derived key material, although the load returns \<open>-2\<close>.
\<close>

theorem settings_load_role_mismatch_counterexample:
  "(fst (bt_mesh_settings_load example_config
       \<lparr>store_items = [(''Role'', [2]), (''NetKey/1'', replicate 33 0)], store_end = 0\<rparr>
       True (boot_state\<lparr>flags := {BT_MESH_NODE}\<rparr>)) = 0 \<and>
    log (snd (bt_mesh_settings_load example_config
       \<lparr>store_items = [(''Role'', [2]), (''NetKey/1'', replicate 33 0)], store_end = 0\<rparr>
       True (boot_state\<lparr>flags := {BT_MESH_NODE}\<rparr>)))
      = [Call_proxy_prov_disable, Call_net_keys_create 1 0, Call_net_beacon_update 1,
         Ivu_timer_submit BT_MESH_IVU_TIMEOUT]) \<and>
   (fst (bt_mesh_settings_load example_config
       \<lparr>store_items = [(''Role'', [1]), (''Role'', [2]), (''NetKey/1'', replicate 33 0)], store_end = 0\<rparr>
       True boot_state) = 0 \<and>
    BT_MESH_VALID \<in> flags (snd (bt_mesh_settings_load example_config
       \<lparr>store_items = [(''Role'', [1]), (''Role'', [2]), (''NetKey/1'', replicate 33 0)], store_end = 0\<rparr>
       True boot_state))) \<and>
   fst (bt_mesh_settings_load example_config
       \<lparr>store_items = [(''Role'', [2])], store_end = - 1\<rparr> True boot_state) = - 1 \<and>
   (fst (bt_mesh_settings_load (example_config\<lparr>bt_mesh_app_id := (\<lambda>k. 5)\<rparr>)
       \<lparr>store_items = [(''Role'', [2]), (''AppKey/2'', 1 # 0 # 0 # replicate 32 7)], store_end = 0\<rparr>
       True boot_state) = - 2 \<and>
    app_keys0_id (app_keys (snd (bt_mesh_settings_load (example_config\<lparr>bt_mesh_app_id := (\<lambda>k. 5)\<rparr>)
       \<lparr>store_items = [(''Role'', [2]), (''AppKey/2'', 1 # 0 # 0 # replicate 32 7)], store_end = 0\<rparr>
       True boot_state)) ! 0) = 5)"
proof -
  have a: "bt_mesh_settings_load example_config
       \<lparr>store_items = [(''Role'', [2]), (''NetKey/1'', replicate 33 0)], store_end = 0\<rparr>
       True (boot_state\<lparr>flags := {BT_MESH_NODE}\<rparr>)
     = (0, snd (mesh_commit example_config (boot_state\<lparr>flags := {BT_MESH_PROVISIONER, BT_MESH_NODE},
          sub := [bt_mesh_subnet_zero\<lparr>sub_net_idx := 1\<rparr>, bt_mesh_subnet_zero]\<rparr>)))"
    unfolding bt_mesh_settings_load_def conf_load_def mesh_store.select_convs load_role2_netkey
    by simp
  have b: "bt_mesh_settings_load example_config
       \<lparr>store_items = [(''Role'', [1]), (''Role'', [2]), (''NetKey/1'', replicate 33 0)], store_end = 0\<rparr>
       True boot_state
     = (0, snd (mesh_commit example_config (boot_state\<lparr>flags := {BT_MESH_PROVISIONER, BT_MESH_NODE},
          sub := [bt_mesh_subnet_zero\<lparr>sub_net_idx := 1\<rparr>, bt_mesh_subnet_zero]\<rparr>)))"
    unfolding bt_mesh_settings_load_def conf_load_def mesh_store.select_convs load_role1_role2_netkey
    by simp
  have c: "fst (bt_mesh_settings_load example_config
       \<lparr>store_items = [(''Role'', [2])], store_end = - 1\<rparr> True boot_state) = - 1"
    by (simp add: bt_mesh_settings_load_def conf_load_def split: prod.splits)
  have d0: "conf_load_loop (example_config\<lparr>bt_mesh_app_id := (\<lambda>k. 5)\<rparr>)
        [(''Role'', [2]), (''AppKey/2'', 1 # 0 # 0 # replicate 32 7)] boot_state
      = boot_state\<lparr>flags := {BT_MESH_PROVISIONER},
          app_keys := [\<lparr>app_net_idx = 1, app_app_idx = 2, app_updated = False,
             app_keys0_val = replicate 16 7, app_keys0_id = 5,
             app_keys1_val = replicate 16 7, app_keys1_id = 5\<rparr>, bt_mesh_app_key_zero]\<rparr>"
    by (simp add: mesh_set_bin_def settings_def boot_state_simps example_config_def
        role_set_bin_def app_key_set_bin_def value_buffer_def Let_def strtol16_examples
        bt_mesh_app_key_find_def bt_mesh_app_key_alloc_def bt_mesh_app_key_zero_def
        BT_MESH_KEY_UNUSED_def sizeof_app_key_val_def app_key_val_of_bytes_def rd16_def
        nth_append split: option.splits)
  have d: "bt_mesh_settings_load (example_config\<lparr>bt_mesh_app_id := (\<lambda>k. 5)\<rparr>)
       \<lparr>store_items = [(''Role'', [2]), (''AppKey/2'', 1 # 0 # 0 # replicate 32 7)], store_end = 0\<rparr>
       True boot_state
     = (- 2, boot_state\<lparr>flags := {BT_MESH_PROVISIONER},
          app_keys := [\<lparr>app_net_idx = 1, app_app_idx = 2, app_updated = False,
             app_keys0_val = replicate 16 7, app_keys0_id = 5,
             app_keys1_val = replicate 16 7, app_keys1_id = 5\<rparr>, bt_mesh_app_key_zero]\<rparr>)"
    unfolding bt_mesh_settings_load_def conf_load_def mesh_store.select_convs d0
    by simp
  show ?thesis
    unfolding a b c d
    by (simp add: commit_one_subnet)
qed

subsection \<open>Round trips of the stored records\<close>

text \<open>Little-endian units and bit-fields read back what was written into them,
  whatever the bits that belong to no field hold.\<close>

lemma rd16_le16: "rd16 (le16 x @ rest) 0 = x"
  unfolding rd16_def le16_def
  by (rule bit_word_eqI) (auto simp: bit_simps)

lemma rd16_le16_at:
  assumes "length pre = n"
  shows "rd16 (pre @ le16 x @ rest) n = x"
proof -
  have "(pre @ le16 x @ rest) ! n = ucast x" "(pre @ le16 x @ rest) ! (n + 1) = ucast (drop_bit 8 x)"
    using assms by (auto simp: nth_append le16_def)
  then show ?thesis
    unfolding rd16_def
    by (simp only:) (rule bit_word_eqI, auto simp: bit_simps)
qed

lemma rd32_le32: "rd32 (le32 x @ rest) 0 = x"
proof (rule bit_word_eqI)
  fix n
  assume n: "n < LENGTH(32)"
  consider "n < 8" | "8 \<le> n" "n < 16" | "16 \<le> n" "n < 24" | "24 \<le> n"
    by linarith
  then show "bit (rd32 (le32 x @ rest) 0) n = bit x n"
    unfolding rd32_def le32_def
    using n by cases (auto simp: bit_simps le_add_diff_inverse)
qed

lemma flag7_byte:
  fixes d :: "7 word"
  shows "bit (of_bool8 b OR push_bit 1 (ucast d) :: u8) 0 = b"
    "(ucast (drop_bit 1 (of_bool8 b OR push_bit 1 (ucast d) :: u8)) :: 7 word) = d"
proof -
  show "bit (of_bool8 b OR push_bit 1 (ucast d) :: u8) 0 = b"
    unfolding bit_or_iff bit_push_bit_iff by (simp add: of_bool8_def)
  show "(ucast (drop_bit 1 (of_bool8 b OR push_bit 1 (ucast d) :: u8)) :: 7 word) = d"
    by (rule bit_word_eqI) (auto simp: of_bool8_def bit_simps simp del: push_bit_Suc dest: bit_imp_le_length)
qed

lemma ucast_8_7_8:
  fixes x :: u8
  assumes "unat x < 128"
  shows "(ucast (ucast x :: 7 word) :: u8) = x"
proof -
  have "x < 2 ^ 7"
    using assms by (simp add: word_less_nat_alt)
  then have "take_bit 7 x = x"
    by (simp add: less_mask_eq take_bit_eq_mask)
  moreover have "(ucast (ucast x :: 7 word) :: u8) = take_bit 7 x"
    by (rule bit_word_eqI) (auto simp: bit_simps)
  ultimately show ?thesis by simp
qed

lemma ucast_32_24_32:
  fixes x :: u32
  assumes "unat x < 2 ^ 24"
  shows "(ucast (ucast x :: 24 word) :: u32) = x"
proof -
  have "x < 2 ^ 24"
    using assms by (simp add: word_less_nat_alt)
  then have "take_bit 24 x = x"
    by (simp add: less_mask_eq take_bit_eq_mask)
  moreover have "(ucast (ucast x :: 24 word) :: u32) = take_bit 24 x"
    by (rule bit_word_eqI) (auto simp: bit_simps)
  ultimately show ?thesis by simp
qed

lemma rpl_unit:
  fixes q :: "24 word" and pad :: "7 word" and old :: bool
  defines "W \<equiv> (ucast q OR push_bit 24 (if old then 1 else 0) OR push_bit 25 (ucast pad) :: u32)"
  shows "(ucast W :: 24 word) = q" "bit W 24 = old"
  unfolding W_def
  by (rule bit_word_eqI, auto simp: bit_simps dest: bit_imp_le_length)+

lemma hb_unit:
  fixes n :: "12 word" and pad :: "3 word" and ind :: bool
  defines "U \<equiv> (ucast n OR push_bit 12 (if ind then 1 else 0) OR push_bit 13 (ucast pad) :: u16)"
  shows "(ucast U :: 12 word) = n" "bit U 12 = ind"
  unfolding U_def
  by (rule bit_word_eqI, auto simp: bit_simps dest: bit_imp_le_length)+

lemma pub_byte:
  fixes d :: "4 word" and pad :: "3 word" and c :: bool
  defines "B \<equiv> (ucast d OR push_bit 4 (of_bool8 c) OR push_bit 5 (ucast pad) :: u8)"
  shows "(ucast B :: 4 word) = d" "bit B 4 = c"
  unfolding B_def of_bool8_def
  by (rule bit_word_eqI, auto simp: bit_simps dest: bit_imp_le_length)+

text \<open>The records with a key of their own.\<close>

lemma value_buffer_nth:
  "i < length bytes \<Longrightarrow> value_buffer bytes ! i = bytes ! i"
  by (simp add: value_buffer_def nth_append)

lemma mesh_set_bin_singleton:
  "mesh_set_bin cfg ''Net'' val len t = net_set_bin cfg ''Net'' val len t"
  "mesh_set_bin cfg ''IV'' val len t = iv_set_bin cfg ''IV'' val len t"
  "mesh_set_bin cfg ''Seq'' val len t = seq_set_bin cfg ''Seq'' val len t"
  "mesh_set_bin cfg ''HBPub'' val len t = hb_pub_set_bin cfg ''HBPub'' val len t"
  "mesh_set_bin cfg ''Cfg'' val len t = cfg_set_bin cfg ''Cfg'' val len t"
  "mesh_set_bin cfg ''Role'' val len t = role_set_bin cfg ''Role'' val len t"
  by (simp_all add: mesh_set_bin_def settings_def Let_def)

lemma net_round_trip:
  assumes "length (dev_key s) = 16"
  shows "fst (restore_saved cfg (saved_last (store_pending_net s)) t) = 0 \<and>
    bt_mesh_primary_addr (snd (restore_saved cfg (saved_last (store_pending_net s)) t)) = bt_mesh_primary_addr s \<and>
    dev_key (snd (restore_saved cfg (saved_last (store_pending_net s)) t)) = dev_key s"
proof -
  define B where "B = net_val_bytes \<lparr>nv_primary_addr = bt_mesh_primary_addr s, nv_dev_key = dev_key s\<rparr>"
  have sv: "saved_last (store_pending_net s) = Settings_save ''Net'' (nat sizeof_net_val) B"
    by (simp add: saved_last_def store_pending_net_def settings_save_one_def Let_def B_def)
  have B: "value_buffer B = le16 (bt_mesh_primary_addr s) @ dev_key s @ replicate 110 0"
    using assms by (simp add: B_def net_val_bytes_def value_buffer_def le16_def)
  have d: "net_val_of_bytes (value_buffer B) = \<lparr>nv_primary_addr = bt_mesh_primary_addr s, nv_dev_key = dev_key s\<rparr>"
    unfolding B net_val_of_bytes_def using assms by (simp add: rd16_le16) (simp add: le16_def)
  show ?thesis
    unfolding sv restore_saved.simps mesh_set_bin_singleton
    by (simp add: net_set_bin_def sizeof_net_val_def d Let_def bt_mesh_comp_provision_def emit_def
        bt_mesh_primary_addr_def)
qed

lemma iv_round_trip:
  assumes "unat (ivu_duration s) < 128"
  shows "fst (restore_saved cfg (saved_last (store_pending_iv s)) t) = 0 \<and>
    iv_index (snd (restore_saved cfg (saved_last (store_pending_iv s)) t)) = iv_index s \<and>
    ivu_duration (snd (restore_saved cfg (saved_last (store_pending_iv s)) t)) = ivu_duration s \<and>
    (BT_MESH_IVU_IN_PROGRESS \<in> flags (snd (restore_saved cfg (saved_last (store_pending_iv s)) t)))
      = (BT_MESH_IVU_IN_PROGRESS \<in> flags s)"
proof -
  define v where "v = \<lparr>iv_iv_index = iv_index s, iv_iv_update = (BT_MESH_IVU_IN_PROGRESS \<in> flags s),
      iv_iv_duration = (ucast (ivu_duration s) :: 7 word)\<rparr>"
  have sv: "saved_last (store_pending_iv s) = Settings_save ''IV'' (nat sizeof_iv_val) (iv_val_bytes v)"
    by (simp add: saved_last_def store_pending_iv_def settings_save_one_def Let_def v_def)
  have B: "value_buffer (iv_val_bytes v) = le32 (iv_iv_index v)
      @ (of_bool8 (iv_iv_update v) OR push_bit 1 (ucast (iv_iv_duration v))) # replicate 123 0"
    by (simp add: iv_val_bytes_def value_buffer_def le32_def)
  have n4: "(le32 x @ y # ys) ! 4 = y" for x :: u32 and y :: u8 and ys
    by (simp add: le32_def)
  have d: "iv_val_of_bytes (value_buffer (iv_val_bytes v)) = v"
    unfolding B iv_val_of_bytes_def rd32_le32 n4 flag7_byte by simp
  have vf: "iv_iv_index v = iv_index s" "iv_iv_update v = (BT_MESH_IVU_IN_PROGRESS \<in> flags s)"
    "(ucast (iv_iv_duration v) :: u8) = ivu_duration s"
    using ucast_8_7_8 [OF assms] by (simp_all add: v_def)
  show ?thesis
    unfolding sv restore_saved.simps mesh_set_bin_singleton
    by (auto simp: iv_set_bin_def sizeof_iv_val_def d Let_def vf)
qed

lemma cfg_round_trip:
  assumes "bt_mesh_cfg_get s = Some c" and "bt_mesh_cfg_get t \<noteq> None"
  shows "fst (restore_saved cfg (saved_last (store_pending_cfg s)) t) = 0 \<and>
    stored_cfg_valid (snd (restore_saved cfg (saved_last (store_pending_cfg s)) t)) \<and>
    stored_cfg_cfg (snd (restore_saved cfg (saved_last (store_pending_cfg s)) t))
      = \<lparr>cv_net_transmit = net_transmit c, cv_relay = relay c,
         cv_relay_retransmit = relay_retransmit c, cv_beacon = beacon c,
         cv_gatt_proxy = gatt_proxy c, cv_frnd = frnd c, cv_default_ttl = default_ttl c\<rparr>"
proof -
  define v where "v = \<lparr>cv_net_transmit = net_transmit c, cv_relay = relay c,
         cv_relay_retransmit = relay_retransmit c, cv_beacon = beacon c,
         cv_gatt_proxy = gatt_proxy c, cv_frnd = frnd c, cv_default_ttl = default_ttl c\<rparr>"
  have sv: "saved_last (store_pending_cfg s) = Settings_save ''Cfg'' (nat sizeof_cfg_val) (cfg_val_bytes v)"
    using assms(1) by (simp add: saved_last_def store_pending_cfg_def settings_save_one_def Let_def v_def)
  have d: "cfg_val_of_bytes (value_buffer (cfg_val_bytes v)) = v"
    by (simp add: cfg_val_of_bytes_def cfg_val_bytes_def value_buffer_def)
  show ?thesis
    unfolding sv restore_saved.simps mesh_set_bin_singleton v_def [symmetric]
    using assms(2)
    by (auto simp: cfg_set_bin_def sizeof_cfg_val_def d split: option.splits)
qed

lemma role_round_trip:
  assumes "BT_MESH_PROVISIONER \<in> flags s \<or> BT_MESH_NODE \<in> flags s"
  shows "fst (restore_saved cfg (saved_last (store_pending_role s)) t) = 0 \<and>
    (if BT_MESH_PROVISIONER \<in> flags s then BT_MESH_PROVISIONER else BT_MESH_NODE)
      \<in> flags (snd (restore_saved cfg (saved_last (store_pending_role s)) t))"
  using assms
  by (auto simp: saved_last_def store_pending_role_def settings_save_one_def mesh_set_bin_singleton
      role_set_bin_def value_buffer_def Let_def)


lemma seq_bytes_read:
  fixes x :: u32
  assumes "unat x < 2 ^ 24"
  shows "(ucast (ucast x :: u8) :: u32) OR push_bit 8 (ucast (ucast (drop_bit 8 x) :: u8))
      OR push_bit 16 (ucast (ucast (drop_bit 16 x) :: u8)) = x"
proof -
  have "x < 2 ^ 24"
    using assms by (simp add: word_less_nat_alt)
  then have tb: "take_bit 24 x = x"
    by (simp add: less_mask_eq take_bit_eq_mask)
  have "(ucast (ucast x :: u8) :: u32) OR push_bit 8 (ucast (ucast (drop_bit 8 x) :: u8))
      OR push_bit 16 (ucast (ucast (drop_bit 16 x) :: u8)) = take_bit 24 x"
  proof (rule bit_word_eqI)
    fix n
    assume n: "n < LENGTH(32)"
    consider "n < 8" | "8 \<le> n" "n < 16" | "16 \<le> n" "n < 24" | "24 \<le> n"
      by linarith
    then show "bit ((ucast (ucast x :: u8) :: u32) OR push_bit 8 (ucast (ucast (drop_bit 8 x) :: u8))
      OR push_bit 16 (ucast (ucast (drop_bit 16 x) :: u8))) n = bit (take_bit 24 x) n"
      using n by cases (auto simp: bit_simps le_add_diff_inverse)
  qed
  then show ?thesis
    unfolding tb .
qed

lemma seq_round_trip:
  assumes "unat (seq s) < 2 ^ 24"
  shows "fst (restore_saved cfg (saved_last (store_pending_seq s)) t) = 0 \<and>
    seq (snd (restore_saved cfg (saved_last (store_pending_seq s)) t))
      = (if 0 <s CONFIG_BT_MESH_SEQ_STORE_RATE cfg
         then (seq s + (CONFIG_BT_MESH_SEQ_STORE_RATE cfg - seq s mod CONFIG_BT_MESH_SEQ_STORE_RATE cfg)) - 1
         else seq s)"
proof -
  define B where "B = [ucast (seq s), ucast (drop_bit 8 (seq s)), ucast (drop_bit 16 (seq s)) :: u8]"
  have sv: "saved_last (store_pending_seq s) = Settings_save ''Seq'' (nat sizeof_seq_val) B"
    by (simp add: saved_last_def store_pending_seq_def settings_save_one_def B_def)
  have b: "value_buffer B ! 0 = ucast (seq s)" "value_buffer B ! 1 = ucast (drop_bit 8 (seq s))"
    "value_buffer B ! 2 = ucast (drop_bit 16 (seq s))"
    by (simp_all add: value_buffer_def B_def)
  show ?thesis
    unfolding sv restore_saved.simps mesh_set_bin_singleton seq_set_bin_def Let_def b
      seq_bytes_read [OF assms]
    by (simp add: sizeof_seq_val_def)
qed

lemma hb_pub_round_trip:
  assumes s: "bt_mesh_hb_pub_get s = Some pub" and a: "hb_dst pub \<noteq> BT_MESH_ADDR_UNASSIGNED"
    and n: "unat (hb_net_idx pub) < 4096" and t: "bt_mesh_hb_pub_get t = Some q"
  shows "fst (restore_saved cfg (saved_last (store_pending_hb_pub cfg s)) t) = 0 \<and>
    bt_mesh_hb_pub_get (snd (restore_saved cfg (saved_last (store_pending_hb_pub cfg s)) t))
      = Some (q\<lparr>hb_dst := hb_dst pub, hb_period := hb_period pub, hb_ttl := hb_ttl pub,
                 hb_feat := hb_feat pub, hb_net_idx := hb_net_idx pub,
                 hb_count := (if hb_count pub = 0xffff then 0xffff else 0)\<rparr>)"
proof -
  define pad where "pad = (ucast (uninitialised cfg (length (log s))) :: 3 word)"
  define v where "v = \<lparr>hv_dst = hb_dst pub, hv_period = hb_period pub, hv_ttl = hb_ttl pub,
      hv_feat = hb_feat pub, hv_net_idx = (ucast (hb_net_idx pub) :: 12 word),
      hv_indefinite = (hb_count pub = 0xffff)\<rparr>"
  have sv: "saved_last (store_pending_hb_pub cfg s)
      = Settings_save ''HBPub'' (nat sizeof_hb_pub_val) (hb_pub_val_bytes pad v)"
    using s a by (simp add: saved_last_def store_pending_hb_pub_def settings_save_one_def Let_def v_def pad_def)
  define U where "U = (ucast (hv_net_idx v) OR push_bit 12 (if hv_indefinite v then 1 else 0)
             OR push_bit 13 (ucast pad) :: u16)"
  have B: "value_buffer (hb_pub_val_bytes pad v)
      = le16 (hv_dst v) @ [hv_period v, hv_ttl v] @ le16 (hv_feat v) @ le16 U @ replicate 120 0"
    by (simp add: hb_pub_val_bytes_def value_buffer_def le16_def U_def)
  have r0: "rd16 (value_buffer (hb_pub_val_bytes pad v)) 0 = hv_dst v"
    unfolding B by (rule rd16_le16)
  have r4: "rd16 (value_buffer (hb_pub_val_bytes pad v)) 4 = hv_feat v"
    unfolding B using rd16_le16_at [of "le16 (hv_dst v) @ [hv_period v, hv_ttl v]" 4 "hv_feat v"]
    by (simp add: le16_def)
  have r6: "rd16 (value_buffer (hb_pub_val_bytes pad v)) 6 = U"
    unfolding B
    using rd16_le16_at [of "le16 (hv_dst v) @ [hv_period v, hv_ttl v] @ le16 (hv_feat v)" 6 U]
    by (simp add: le16_def)
  have b: "value_buffer (hb_pub_val_bytes pad v) ! 2 = hv_period v"
    "value_buffer (hb_pub_val_bytes pad v) ! 3 = hv_ttl v"
    unfolding B by (simp_all add: le16_def)
  have d: "hb_pub_val_of_bytes (value_buffer (hb_pub_val_bytes pad v)) = v"
    unfolding hb_pub_val_of_bytes_def r0 r4 r6 b
    unfolding U_def hb_unit by simp
  have n12: "(ucast (ucast (hb_net_idx pub) :: 12 word) :: u16) = hb_net_idx pub"
    by (rule ucast_16_12_16 [OF n])
  have vf: "hv_dst v = hb_dst pub" "hv_period v = hb_period pub" "hv_ttl v = hb_ttl pub"
    "hv_feat v = hb_feat pub" "(ucast (hv_net_idx v) :: u16) = hb_net_idx pub"
    "hv_indefinite v = (hb_count pub = 0xffff)"
    using n12 by (simp_all add: v_def)
  show ?thesis
    unfolding sv restore_saved.simps mesh_set_bin_singleton
    using t
    by (simp add: hb_pub_set_bin_def sizeof_hb_pub_val_def d Let_def vf bt_mesh_hb_pub_get_def)
qed

text \<open>The records with an index in their key.\<close>

lemma snprintk_x_no_slash: "CHR ''/'' \<notin> set (snprintk_x x)"
proof -
  obtain ds where ds: "snprintk_x x = map hex_digit ds" "list_all (\<lambda>d. d < 16) ds"
    using snprintk_x_digits [of x] by (elim exE conjE)
  show ?thesis
    unfolding ds(1) using ds(2) hex_digit_facts(4) by (fastforce simp: list_all_iff)
qed

lemma snprintk_x_chars:
  "CHR ''i'' \<notin> set (snprintk_x x)" "CHR ''s'' \<notin> set (snprintk_x x)"
proof -
  obtain ds where ds: "snprintk_x x = map hex_digit ds" "list_all (\<lambda>d. d < 16) ds"
    using snprintk_x_digits [of x] by (elim exE conjE)
  show "CHR ''i'' \<notin> set (snprintk_x x)"
    unfolding ds(1) using ds(2) hex_digit_facts(6) by (fastforce simp: list_all_iff)
  show "CHR ''s'' \<notin> set (snprintk_x x)"
    unfolding ds(1) using ds(2) hex_digit_facts(5) by (fastforce simp: list_all_iff)
qed

lemma mesh_set_bin_indexed:
  "mesh_set_bin cfg (''RPL/'' @ k) val len t = rpl_set_bin cfg (''RPL/'' @ k) val len t"
  "mesh_set_bin cfg (''NetKey/'' @ k) val len t = net_key_set_bin cfg (''NetKey/'' @ k) val len t"
  "mesh_set_bin cfg (''AppKey/'' @ k) val len t = app_key_set_bin cfg (''AppKey/'' @ k) val len t"
  "labels t \<noteq> [] \<Longrightarrow> mesh_set_bin cfg (''Va/'' @ k) val len t = va_set_bin cfg (''Va/'' @ k) val len t"
  "CONFIG_BT_MESH_PROVISIONER cfg \<Longrightarrow>
     mesh_set_bin cfg (''Node/'' @ k) val len t = node_set_bin cfg (''Node/'' @ k) val len t"
  "mesh_set_bin cfg (''s/'' @ k) val len t = mod_set_bin False cfg (''s/'' @ k) val len t"
  "mesh_set_bin cfg (''v/'' @ k) val len t = mod_set_bin True cfg (''v/'' @ k) val len t"
  by (simp_all add: mesh_set_bin_def settings_def Let_def sig_mod_set_bin_def vnd_mod_set_bin_def)

lemma rpl_round_trip:
  assumes q: "unat (rpl_seq e) < 2 ^ 24"
    and slot: "(case rpl_find (rpl_src e) t of Some i \<Rightarrow> Some i
                | None \<Rightarrow> find_first (\<lambda>x. rpl_src x = 0) (rpl t)) = Some i"
  shows "fst (restore_saved cfg (saved_last (store_rpl cfg e s)) t) = 0 \<and>
    rpl_src (rpl (snd (restore_saved cfg (saved_last (store_rpl cfg e s)) t)) ! i) = rpl_src e \<and>
    rpl_seq (rpl (snd (restore_saved cfg (saved_last (store_rpl cfg e s)) t)) ! i) = rpl_seq e \<and>
    rpl_old_iv (rpl (snd (restore_saved cfg (saved_last (store_rpl cfg e s)) t)) ! i) = rpl_old_iv e"
proof -
  define pad where "pad = (ucast (uninitialised cfg (length (log s))) :: 7 word)"
  define v where "v = \<lparr>rv_seq = (ucast (rpl_seq e) :: 24 word), rv_old_iv = rpl_old_iv e\<rparr>"
  define key where "key = ''RPL/'' @ snprintk_x (rpl_src e)"
  have sv: "saved_last (store_rpl cfg e s) = Settings_save key (nat sizeof_rpl_val) (rpl_val_bytes pad v)"
    by (simp add: saved_last_def store_rpl_def settings_save_one_def Let_def v_def pad_def key_def)
  define W where "W = (ucast (rv_seq v) OR push_bit 24 (if rv_old_iv v then 1 else 0)
      OR push_bit 25 (ucast pad) :: u32)"
  have B: "value_buffer (rpl_val_bytes pad v) = le32 W @ replicate 124 0"
    by (simp add: rpl_val_bytes_def value_buffer_def le32_def W_def)
  have d: "rpl_val_of_bytes (value_buffer (rpl_val_bytes pad v)) = v"
    unfolding B rpl_val_of_bytes_def rd32_le32 unfolding W_def rpl_unit by simp
  have vf: "(ucast (rv_seq v) :: u32) = rpl_seq e" "rv_old_iv v = rpl_old_iv e"
    using ucast_32_24_32 [OF q] by (simp_all add: v_def)
  have src: "(word_of_int (strtol16 (drop 4 key)) :: u16) = rpl_src e"
    by (simp add: key_def key_index_round_trip)
  show ?thesis
  proof (cases "rpl_find (rpl_src e) t")
    case (Some j)
    then have ji: "j = i" using slot by simp
    have "i < length (rpl t)" "rpl_src (rpl t ! i) = rpl_src e"
      using find_first_Some [OF Some [unfolded rpl_find_def]] ji by simp_all
    then show ?thesis
      unfolding sv restore_saved.simps
      unfolding key_def mesh_set_bin_indexed
      unfolding key_def [symmetric]
      using Some ji
      by (simp add: rpl_set_bin_def src Let_def sizeof_rpl_val_def d vf)
  next
    case None
    then have f: "find_first (\<lambda>x. rpl_src x = 0) (rpl t) = Some i" using slot by simp
    have "i < length (rpl t)"
      using find_first_Some [OF f] by simp
    then show ?thesis
      unfolding sv restore_saved.simps
      unfolding key_def mesh_set_bin_indexed
      unfolding key_def [symmetric]
      using None f
      by (simp add: rpl_set_bin_def rpl_alloc_def src Let_def sizeof_rpl_val_def d vf)
  qed
qed


lemma net_key_round_trip:
  assumes ph: "unat (sub_kr_phase sb) < 128"
    and k0: "length (k_net (sub_keys0 sb)) = 16" and k1: "length (k_net (sub_keys1 sb)) = 16"
    and slot: "(case bt_mesh_subnet_get (sub_net_idx sb) t of Some i \<Rightarrow> Some i
                | None \<Rightarrow> find_first (\<lambda>b. sub_net_idx b = BT_MESH_KEY_UNUSED) (sub t)) = Some i"
  shows "fst (restore_saved cfg (saved_last (store_net_key sb s)) t) = 0 \<and>
    sub_net_idx (sub (snd (restore_saved cfg (saved_last (store_net_key sb s)) t)) ! i) = sub_net_idx sb \<and>
    sub_kr_flag (sub (snd (restore_saved cfg (saved_last (store_net_key sb s)) t)) ! i) = sub_kr_flag sb \<and>
    sub_kr_phase (sub (snd (restore_saved cfg (saved_last (store_net_key sb s)) t)) ! i) = sub_kr_phase sb \<and>
    k_net (sub_keys0 (sub (snd (restore_saved cfg (saved_last (store_net_key sb s)) t)) ! i))
      = k_net (sub_keys0 sb) \<and>
    k_net (sub_keys1 (sub (snd (restore_saved cfg (saved_last (store_net_key sb s)) t)) ! i))
      = k_net (sub_keys1 sb)"
proof -
  define v where "v = \<lparr>nk_kr_flag = sub_kr_flag sb, nk_kr_phase = (ucast (sub_kr_phase sb) :: 7 word),
      nk_val0 = k_net (sub_keys0 sb), nk_val1 = k_net (sub_keys1 sb)\<rparr>"
  define key where "key = ''NetKey/'' @ snprintk_x (sub_net_idx sb)"
  have sv: "saved_last (store_net_key sb s) = Settings_save key (nat sizeof_net_key_val) (net_key_val_bytes v)"
    by (simp add: saved_last_def store_net_key_def settings_save_one_def Let_def v_def key_def)
  define b0 where "b0 = (of_bool8 (nk_kr_flag v) OR push_bit 1 (ucast (nk_kr_phase v)) :: u8)"
  have B: "value_buffer (net_key_val_bytes v) = b0 # nk_val0 v @ nk_val1 v @ replicate 95 0"
    using k0 k1 by (simp add: net_key_val_bytes_def value_buffer_def b0_def v_def)
  have f: "bit b0 0 = nk_kr_flag v" "(ucast (drop_bit 1 b0) :: 7 word) = nk_kr_phase v"
    unfolding b0_def by (rule flag7_byte)+
  have f': "(ucast (drop_bit (Suc 0) b0) :: 7 word) = nk_kr_phase v"
    using f(2) by simp
  have l: "length (nk_val0 v) = 16" "length (nk_val1 v) = 16"
    using k0 k1 by (simp_all add: v_def)
  have d: "net_key_val_of_bytes (value_buffer (net_key_val_bytes v)) = v"
    unfolding B net_key_val_of_bytes_def using l
    by (simp add: f f')
  have vf: "nk_kr_flag v = sub_kr_flag sb" "(ucast (nk_kr_phase v) :: u8) = sub_kr_phase sb"
    "nk_val0 v = k_net (sub_keys0 sb)" "nk_val1 v = k_net (sub_keys1 sb)"
    using ucast_8_7_8 [OF ph] by (simp_all add: v_def)
  have idx: "(word_of_int (strtol16 (drop 7 key)) :: u16) = sub_net_idx sb"
    by (simp add: key_def key_index_round_trip)
  show ?thesis
  proof (cases "bt_mesh_subnet_get (sub_net_idx sb) t")
    case (Some j)
    then have ji: "j = i" using slot by simp
    have "i < length (sub t)" "sub_net_idx (sub t ! i) = sub_net_idx sb"
      using find_first_Some [OF Some [unfolded bt_mesh_subnet_get_def]] ji by simp_all
    then show ?thesis
      unfolding sv restore_saved.simps
      unfolding key_def mesh_set_bin_indexed
      unfolding key_def [symmetric]
      using Some ji
      by (simp add: net_key_set_bin_def idx Let_def sizeof_net_key_val_def d vf)
  next
    case None
    then have f: "find_first (\<lambda>b. sub_net_idx b = BT_MESH_KEY_UNUSED) (sub t) = Some i"
      using slot by simp
    have "i < length (sub t)"
      using find_first_Some [OF f] by simp
    then show ?thesis
      unfolding sv restore_saved.simps
      unfolding key_def mesh_set_bin_indexed
      unfolding key_def [symmetric]
      using None f
      by (simp add: net_key_set_bin_def idx Let_def sizeof_net_key_val_def d vf)
  qed
qed

lemma app_key_round_trip:
  assumes k0: "length (app_keys0_val app) = 16" and k1: "length (app_keys1_val app) = 16"
    and slot: "(case bt_mesh_app_key_find (app_app_idx app) t of Some i \<Rightarrow> Some i
                | None \<Rightarrow> bt_mesh_app_key_alloc (app_app_idx app) t) = Some i"
  shows "fst (restore_saved cfg (saved_last (store_app_key app s)) t) = 0 \<and>
    app_net_idx (app_keys (snd (restore_saved cfg (saved_last (store_app_key app s)) t)) ! i) = app_net_idx app \<and>
    app_app_idx (app_keys (snd (restore_saved cfg (saved_last (store_app_key app s)) t)) ! i) = app_app_idx app \<and>
    app_updated (app_keys (snd (restore_saved cfg (saved_last (store_app_key app s)) t)) ! i) = app_updated app \<and>
    app_keys0_val (app_keys (snd (restore_saved cfg (saved_last (store_app_key app s)) t)) ! i)
      = app_keys0_val app \<and>
    app_keys1_val (app_keys (snd (restore_saved cfg (saved_last (store_app_key app s)) t)) ! i)
      = app_keys1_val app"
proof -
  define v where "v = \<lparr>ak_net_idx = app_net_idx app, ak_updated = app_updated app,
      ak_val0 = app_keys0_val app, ak_val1 = app_keys1_val app\<rparr>"
  define key where "key = ''AppKey/'' @ snprintk_x (app_app_idx app)"
  have sv: "saved_last (store_app_key app s) = Settings_save key (nat sizeof_app_key_val) (app_key_val_bytes v)"
    by (simp add: saved_last_def store_app_key_def settings_save_one_def Let_def v_def key_def)
  have B: "value_buffer (app_key_val_bytes v)
      = le16 (ak_net_idx v) @ of_bool8 (ak_updated v) # ak_val0 v @ ak_val1 v @ replicate 93 0"
    using k0 k1 by (simp add: app_key_val_bytes_def value_buffer_def v_def le16_def)
  have d: "app_key_val_of_bytes (value_buffer (app_key_val_bytes v)) = v"
    unfolding B app_key_val_of_bytes_def rd16_le16 using k0 k1
    by (simp add: le16_def of_bool8_def) (simp add: v_def)
  have vf: "ak_net_idx v = app_net_idx app" "ak_updated v = app_updated app"
    "ak_val0 v = app_keys0_val app" "ak_val1 v = app_keys1_val app"
    by (simp_all add: v_def)
  have idx: "(word_of_int (strtol16 (drop 7 key)) :: u16) = app_app_idx app"
    by (simp add: key_def key_index_round_trip)
  have i: "i < length (app_keys t)"
  proof (cases "bt_mesh_app_key_find (app_app_idx app) t")
    case (Some j)
    then show ?thesis
      using find_first_Some [OF Some [unfolded bt_mesh_app_key_find_def]] slot by simp
  next
    case None
    then have "bt_mesh_app_key_alloc (app_app_idx app) t = Some i" using slot by simp
    then show ?thesis
      using find_first_Some [of _ "app_keys t" i] by (simp add: bt_mesh_app_key_alloc_def)
  qed
  show ?thesis
    unfolding sv restore_saved.simps
    unfolding key_def mesh_set_bin_indexed
    unfolding key_def [symmetric]
    using slot i
    by (auto simp: app_key_set_bin_def idx Let_def sizeof_app_key_val_def d vf split: option.splits)
qed

lemma node_round_trip:
  assumes prov: "CONFIG_BT_MESH_PROVISIONER cfg"
    and k: "length (node_dev_key node) = 16"
    and absent: "bt_mesh_node_find (node_addr node) t = None"
    and slot: "find_first (\<lambda>n. node_addr n = BT_MESH_ADDR_UNASSIGNED) (nodes t) = Some i"
  shows "fst (restore_saved cfg (saved_last (store_node node s)) t) = 0 \<and>
    nodes (snd (restore_saved cfg (saved_last (store_node node s)) t)) ! i = node"
proof -
  define v where "v = \<lparr>dv_net_idx = node_net_idx node, dv_dev_key = node_dev_key node,
      dv_num_elem = node_num_elem node\<rparr>"
  define key where "key = ''Node/'' @ snprintk_x (node_addr node)"
  have sv: "saved_last (store_node node s) = Settings_save key (nat sizeof_node_val) (node_val_bytes v)"
    by (simp add: saved_last_def store_node_def settings_save_one_def Let_def v_def key_def)
  have B: "value_buffer (node_val_bytes v)
      = le16 (dv_net_idx v) @ dv_dev_key v @ dv_num_elem v # replicate 109 0"
    using k by (simp add: node_val_bytes_def value_buffer_def v_def le16_def)
  have d: "node_val_of_bytes (value_buffer (node_val_bytes v)) = v"
    unfolding B node_val_of_bytes_def rd16_le16 using k
    by (simp add: le16_def nth_append) (simp add: v_def)
  have vf: "dv_net_idx v = node_net_idx node" "dv_dev_key v = node_dev_key node"
    "dv_num_elem v = node_num_elem node"
    by (simp_all add: v_def)
  have idx: "(word_of_int (strtol16 (drop 5 key)) :: u16) = node_addr node"
    by (simp add: key_def key_index_round_trip)
  have i: "i < length (nodes t)"
    using find_first_Some [OF slot] by simp
  show ?thesis
    unfolding sv restore_saved.simps
    unfolding key_def mesh_set_bin_indexed(5) [OF prov]
    unfolding key_def [symmetric]
    using absent slot i
    by (simp add: node_set_bin_def bt_mesh_node_alloc_def idx Let_def sizeof_node_val_def d vf)
qed

lemma va_round_trip:
  assumes ch: "lab_changed (labels s ! i)" and ref: "lab_ref (labels s ! i) \<noteq> 0"
    and k: "length (lab_uuid (labels s ! i)) = 16"
    and i: "i < length (labels t)" and i16: "i < 65536"
  shows "fst (restore_saved cfg (saved_last (store_pending_va_step i s)) t) = 0 \<and>
    lab_ref (labels (snd (restore_saved cfg (saved_last (store_pending_va_step i s)) t)) ! i)
      = lab_ref (labels s ! i) \<and>
    lab_addr (labels (snd (restore_saved cfg (saved_last (store_pending_va_step i s)) t)) ! i)
      = lab_addr (labels s ! i) \<and>
    lab_uuid (labels (snd (restore_saved cfg (saved_last (store_pending_va_step i s)) t)) ! i)
      = lab_uuid (labels s ! i)"
proof -
  define lab where "lab = labels s ! i"
  define v where "v = \<lparr>vv_ref = lab_ref lab, vv_addr = lab_addr lab, vv_uuid = lab_uuid lab\<rparr>"
  define key where "key = ''Va/'' @ snprintk_x (of_nat i)"
  have sv: "saved_last (store_pending_va_step i s) = Settings_save key (nat sizeof_va_val) (va_val_bytes v)"
    using ch ref
    by (simp add: saved_last_def store_pending_va_step_def settings_save_one_def Let_def v_def key_def lab_def)
  have B: "value_buffer (va_val_bytes v)
      = le16 (vv_ref v) @ le16 (vv_addr v) @ vv_uuid v @ replicate 108 0"
    using k by (simp add: va_val_bytes_def value_buffer_def v_def le16_def lab_def)
  have r2: "rd16 (value_buffer (va_val_bytes v)) 2 = vv_addr v"
    unfolding B using rd16_le16_at [of "le16 (vv_ref v)" 2 "vv_addr v"] by (simp add: le16_def)
  have d: "va_val_of_bytes (value_buffer (va_val_bytes v)) = v"
    unfolding va_val_of_bytes_def r2 unfolding B rd16_le16 using k
    by (simp add: le16_def) (simp add: v_def lab_def)
  have vf: "vv_ref v = lab_ref lab" "vv_addr v = lab_addr lab" "vv_uuid v = lab_uuid lab"
    by (simp_all add: v_def)
  have idx: "(word_of_int (strtol16 (drop 3 key)) :: u16) = of_nat i"
    by (simp add: key_def key_index_round_trip)
  have u: "unat (of_nat i :: u16) = i"
    using i16 by (simp add: unat_of_nat)
  have ne: "labels t \<noteq> []"
    using i by auto
  show ?thesis
    unfolding sv restore_saved.simps
    unfolding key_def mesh_set_bin_indexed(4) [OF ne]
    unfolding key_def [symmetric] lab_def [symmetric]
    using ref i
    by (simp add: va_set_bin_def get_label_def idx u Let_def sizeof_va_val_def d vf lab_def [symmetric])
qed

text \<open>The records of a model: what its key parses to, and the arrays.\<close>

lemma snprintk_x_hex: "c \<in> set (snprintk_x x) \<Longrightarrow> c \<in> set ''0123456789abcdef''"
proof -
  assume c: "c \<in> set (snprintk_x x)"
  obtain ds where ds: "snprintk_x x = map hex_digit ds" "list_all (\<lambda>d. d < 16) ds"
    using snprintk_x_digits [of x] by (elim exE conjE)
  obtain d where d: "d \<in> set ds" "c = hex_digit d"
    using c unfolding ds(1) by auto
  have "d < 16"
    using ds(2) d(1) by (simp add: list_all_iff)
  moreover have "length ''0123456789abcdef'' = 16"
    by simp
  ultimately have "d < length ''0123456789abcdef''"
    by (simp only:)
  then show ?thesis
    unfolding d(2) hex_digit_def by (rule nth_mem)
qed

lemma strstr_set: "strstr hay needle \<Longrightarrow> set needle \<subseteq> set hay"
proof (induction hay)
  case Nil
  then show ?case by simp
next
  case (Cons c cs)
  from Cons.prems have "take (length needle) (c # cs) = needle \<or> strstr cs needle"
    by simp
  then show ?case
  proof
    assume "take (length needle) (c # cs) = needle"
    then have "set needle = set (take (length needle) (c # cs))" by simp
    then show ?thesis
      using set_take_subset [of "length needle" "c # cs"] by simp
  next
    assume "strstr cs needle"
    then show ?thesis
      using Cons.IH by auto
  qed
qed

lemma strstr_suffix: "strstr (pre @ needle) needle"
proof (induction pre)
  case Nil
  show ?case by (cases needle) simp_all
next
  case (Cons c pre)
  then show ?case by simp
qed

lemma mod_path_strstr:
  fixes k :: u16
  defines "P \<equiv> (\<lambda>pfx sfx. pfx # CHR ''/'' # snprintk_x k @ CHR ''/'' # sfx)"
  assumes pfx: "pfx = CHR ''s'' \<or> pfx = CHR ''v''"
  shows "strstr (P pfx ''bind'') ''bind''"
    "\<not> strstr (P pfx ''sub'') ''bind''" "strstr (P pfx ''sub'') ''sub''"
    "\<not> strstr (P pfx ''pub'') ''bind''" "\<not> strstr (P pfx ''pub'') ''sub''"
    "strstr (P pfx ''pub'') ''pub''"
    "\<not> strstr (P pfx ''data'') ''bind''" "\<not> strstr (P pfx ''data'') ''sub''"
    "\<not> strstr (P pfx ''data'') ''pub''" "strstr (P pfx ''data'') ''data''"
proof -
  have suf: "strstr (P pfx sfx) sfx" for sfx
    using strstr_suffix [of "pfx # CHR ''/'' # snprintk_x k @ [CHR ''/'']" sfx]
    by (simp add: P_def)
  show "strstr (P pfx ''bind'') ''bind''" "strstr (P pfx ''sub'') ''sub''"
    "strstr (P pfx ''pub'') ''pub''" "strstr (P pfx ''data'') ''data''"
    by (rule suf)+
  have hex: "c \<notin> set (snprintk_x k)"
    if "c = CHR ''i'' \<or> c = CHR ''u'' \<or> c = CHR ''p'' \<or> c = CHR ''s''" for c
    using that snprintk_x_hex [of c k] by auto
  have noi: "\<not> strstr (P pfx sfx) ''bind''" if "CHR ''i'' \<notin> set sfx" for sfx
  proof
    assume "strstr (P pfx sfx) ''bind''"
    then have "CHR ''i'' \<in> set (P pfx sfx)"
      using strstr_set by fastforce
    then show False
      using that pfx hex [of "CHR ''i''"] by (auto simp: P_def)
  qed
  show "\<not> strstr (P pfx ''sub'') ''bind''" "\<not> strstr (P pfx ''pub'') ''bind''"
    "\<not> strstr (P pfx ''data'') ''bind''"
    by (rule noi, simp)+
  have tail: "\<not> strstr (CHR ''/'' # snprintk_x k @ CHR ''/'' # sfx) ''sub''" if "CHR ''s'' \<notin> set sfx" for sfx
  proof
    assume "strstr (CHR ''/'' # snprintk_x k @ CHR ''/'' # sfx) ''sub''"
    then have "CHR ''s'' \<in> set (CHR ''/'' # snprintk_x k @ CHR ''/'' # sfx)"
      using strstr_set by fastforce
    then show False
      using that hex [of "CHR ''s''"] by auto
  qed
  have nosub: "\<not> strstr (P pfx sfx) ''sub''" if "CHR ''s'' \<notin> set sfx" for sfx
    using tail [OF that] pfx unfolding P_def by (auto split: if_splits)
  show "\<not> strstr (P pfx ''pub'') ''sub''" "\<not> strstr (P pfx ''data'') ''sub''"
    by (rule nosub, simp)+
  show "\<not> strstr (P pfx ''data'') ''pub''"
  proof
    assume "strstr (P pfx ''data'') ''pub''"
    then have "CHR ''p'' \<in> set (P pfx ''data'')"
      using strstr_set by fastforce
    then show False
      using pfx hex [of "CHR ''p''"] by (auto simp: P_def)
  qed
qed

lemma mod_key_parts:
  fixes e i :: u8
  shows "(ucast (drop_bit 8 (push_bit 8 (ucast e) OR ucast i :: u16)) :: u8) = e"
    "(ucast (push_bit 8 (ucast e) OR ucast i :: u16) :: u8) = i"
  by (rule bit_word_eqI, auto simp: bit_simps dest: bit_imp_le_length)+

lemma rd16_u16s_bytes:
  "i < length xs \<Longrightarrow> rd16 (u16s_bytes xs @ rest) (2 * i) = xs ! i"
proof (induction xs arbitrary: i)
  case Nil
  then show ?case by simp
next
  case (Cons x xs)
  show ?case
  proof (cases i)
    case 0
    then show ?thesis
      using rd16_le16 [of x "u16s_bytes xs @ rest"] by (simp add: u16s_bytes_def)
  next
    case (Suc j)
    have "rd16 (u16s_bytes (x # xs) @ rest) (2 * Suc j) = rd16 (u16s_bytes xs @ rest) (2 * j)"
      by (simp add: u16s_bytes_def le16_def rd16_def)
    then show ?thesis
      using Cons.IH [of j] Cons.prems Suc by simp
  qed
qed

lemma length_u16s_bytes: "length (u16s_bytes xs) = 2 * length xs"
  by (induction xs) (simp_all add: u16s_bytes_def le16_def)

lemma memcpy_u16s_read:
  assumes "length xs \<le> n"
  shows "memcpy_u16s (replicate n u) (value_buffer (u16s_bytes xs)) (2 * length xs)
    = xs @ replicate (n - length xs) u"
proof (rule nth_equalityI)
  show "length (memcpy_u16s (replicate n u) (value_buffer (u16s_bytes xs)) (2 * length xs))
      = length (xs @ replicate (n - length xs) u)"
    using assms by (simp add: memcpy_u16s_def)
next
  fix i
  assume "i < length (memcpy_u16s (replicate n u) (value_buffer (u16s_bytes xs)) (2 * length xs))"
  then have i: "i < n"
    by (simp add: memcpy_u16s_def)
  show "memcpy_u16s (replicate n u) (value_buffer (u16s_bytes xs)) (2 * length xs) ! i
      = (xs @ replicate (n - length xs) u) ! i"
  proof (cases "i < length xs")
    case True
    then have "rd16 (value_buffer (u16s_bytes xs)) (2 * i) = xs ! i"
      unfolding value_buffer_def by (rule rd16_u16s_bytes)
    then show ?thesis
      using True i by (simp add: memcpy_u16s_def nth_append)
  next
    case False
    then show ?thesis
      using i by (simp add: memcpy_u16s_def nth_append)
  qed
qed

lemma mesh_set_bin_mod_path:
  assumes g: "bt_mesh_model_get vnd (mod_elem_idx md) (mod_mod_idx md) t = Some m"
  shows "mesh_set_bin cfg (encode_mod_path md vnd ''bind'') val len t = mod_set_bind_bin m val len t"
    "mesh_set_bin cfg (encode_mod_path md vnd ''sub'') val len t = mod_set_sub_bin m val len t"
    "mesh_set_bin cfg (encode_mod_path md vnd ''pub'') val len t = mod_set_pub_bin m val len t"
    "mesh_set_bin cfg (encode_mod_path md vnd ''data'') val len t =
       (let t' = upd_model m (\<lambda>md. md\<lparr>mod_flags := insert BT_MESH_MOD_DATA_PRESENT (mod_flags md)\<rparr>) t
        in case mod_cb_settings_set (models t ! m) of
             Some cb \<Rightarrow>
               (let t'' = (if len < 0 \<or> 128 \<le> len then emit (Memory_fault ''mod_data'') t' else t')
                in (cb (take (nat len) val),
                    emit (Call_mod_settings_set vnd (mod_elem_idx md) (mod_mod_idx md) (take (nat len) val)) t''))
           | None \<Rightarrow> (- ENOENT, t'))"
proof -
  define K where "K = (push_bit 8 (ucast (mod_elem_idx md)) OR ucast (mod_mod_idx md) :: u16)"
  define pfx where "pfx = (if vnd then CHR ''v'' else CHR ''s'')"
  have p: "encode_mod_path md vnd sfx = pfx # CHR ''/'' # snprintk_x K @ CHR ''/'' # sfx" for sfx
    by (simp add: encode_mod_path_def K_def pfx_def Let_def)
  have pv: "pfx = CHR ''s'' \<or> pfx = CHR ''v''"
    by (simp add: pfx_def)
  have disp: "mesh_set_bin cfg (pfx # CHR ''/'' # rest) val len t = mod_set_bin vnd cfg (pfx # CHR ''/'' # rest) val len t"
    for rest
    using mesh_set_bin_indexed(6) [of cfg rest val len t] mesh_set_bin_indexed(7) [of cfg rest val len t]
    by (simp add: pfx_def)
  have k: "(word_of_int (strtol16 (drop 2 (pfx # CHR ''/'' # snprintk_x K @ CHR ''/'' # sfx))) :: u16) = K" for sfx
    by (simp add: key_index_round_trip)
  have ei: "(ucast (drop_bit 8 K) :: u8) = mod_elem_idx md" "(ucast K :: u8) = mod_mod_idx md"
    unfolding K_def by (rule mod_key_parts)+
  note ss = mod_path_strstr [OF pv, of K]
  show "mesh_set_bin cfg (encode_mod_path md vnd ''bind'') val len t = mod_set_bind_bin m val len t"
    unfolding p disp mod_set_bin_def Let_def k ei g using ss(1) by simp
  show "mesh_set_bin cfg (encode_mod_path md vnd ''sub'') val len t = mod_set_sub_bin m val len t"
    unfolding p disp mod_set_bin_def Let_def k ei g using ss(2,3) by simp
  show "mesh_set_bin cfg (encode_mod_path md vnd ''pub'') val len t = mod_set_pub_bin m val len t"
    unfolding p disp mod_set_bin_def Let_def k ei g using ss(4,5,6) by simp
  show "mesh_set_bin cfg (encode_mod_path md vnd ''data'') val len t =
       (let t' = upd_model m (\<lambda>md. md\<lparr>mod_flags := insert BT_MESH_MOD_DATA_PRESENT (mod_flags md)\<rparr>) t
        in case mod_cb_settings_set (models t ! m) of
             Some cb \<Rightarrow>
               (let t'' = (if len < 0 \<or> 128 \<le> len then emit (Memory_fault ''mod_data'') t' else t')
                in (cb (take (nat len) val),
                    emit (Call_mod_settings_set vnd (mod_elem_idx md) (mod_mod_idx md) (take (nat len) val)) t''))
           | None \<Rightarrow> (- ENOENT, t'))"
    unfolding p disp mod_set_bin_def Let_def k ei g using ss(7,8,9,10) by simp
qed

lemma mod_bind_round_trip:
  assumes g: "bt_mesh_model_get vnd (mod_elem_idx md) (mod_mod_idx md) t = Some m"
    and n: "length (mod_keys (models t ! m)) = length (mod_keys md)"
  shows "fst (restore_saved cfg (saved_last (store_pending_mod_bind md vnd s)) t) = 0 \<and>
    mod_keys (models (snd (restore_saved cfg (saved_last (store_pending_mod_bind md vnd s)) t)) ! m)
      = (if filter (\<lambda>k. k \<noteq> BT_MESH_KEY_UNUSED) (mod_keys md) = [] then mod_keys (models t ! m)
         else filter (\<lambda>k. k \<noteq> BT_MESH_KEY_UNUSED) (mod_keys md)
           @ replicate (length (mod_keys md) - length (filter (\<lambda>k. k \<noteq> BT_MESH_KEY_UNUSED) (mod_keys md)))
               BT_MESH_KEY_UNUSED) \<and>
    list_all (\<lambda>e. \<not> memory_fault e)
      (new_events t (snd (restore_saved cfg (saved_last (store_pending_mod_bind md vnd s)) t)))"
proof -
  define used where "used = filter (\<lambda>k. k \<noteq> BT_MESH_KEY_UNUSED) (mod_keys md)"
  have sv: "saved_last (store_pending_mod_bind md vnd s)
      = Settings_save (encode_mod_path md vnd ''bind'') (length used * 2) (u16s_bytes used)"
    by (simp add: saved_last_def store_pending_mod_bind_def settings_save_one_def Let_def used_def)
  have le: "length used \<le> length (mod_keys md)"
    unfolding used_def by (rule length_filter_le)
  have m: "m < length (models t)"
    using find_first_Some [OF g [unfolded bt_mesh_model_get_def]] by simp
  have c: "memcpy_u16s (replicate (length (mod_keys md)) BT_MESH_KEY_UNUSED)
      (value_buffer (u16s_bytes used)) (length used * 2)
      = used @ replicate (length (mod_keys md) - length used) BT_MESH_KEY_UNUSED"
    using memcpy_u16s_read [OF le, of BT_MESH_KEY_UNUSED] by (simp add: mult.commute)
  have no: "\<not> memcpy_overruns (replicate (length (mod_keys md)) BT_MESH_KEY_UNUSED) (int (length used * 2))"
    using le by (simp add: memcpy_overruns_def)
  have nn: "nat (int k * 2) = k * 2" for k
    by (simp add: nat_mult_distrib)
  show ?thesis
  proof (cases "used = []")
    case True
    then show ?thesis
      unfolding sv restore_saved.simps mesh_set_bin_mod_path [OF g] used_def [symmetric]
      using m n by (simp add: mod_set_bind_bin_def upd_model_def Let_def new_events_def)
  next
    case False
    then show ?thesis
      unfolding sv restore_saved.simps mesh_set_bin_mod_path [OF g] used_def [symmetric]
      using m n c no nn by (simp add: mod_set_bind_bin_def upd_model_def Let_def new_events_def)
  qed
qed

lemma mod_sub_round_trip:
  assumes g: "bt_mesh_model_get vnd (mod_elem_idx md) (mod_mod_idx md) t = Some m"
    and n: "length (mod_groups (models t ! m)) = length (mod_groups md)"
  shows "fst (restore_saved cfg (saved_last (store_pending_mod_sub md vnd s)) t) = 0 \<and>
    mod_groups (models (snd (restore_saved cfg (saved_last (store_pending_mod_sub md vnd s)) t)) ! m)
      = filter (\<lambda>g. g \<noteq> BT_MESH_ADDR_UNASSIGNED) (mod_groups md)
        @ replicate (length (mod_groups md) - length (filter (\<lambda>g. g \<noteq> BT_MESH_ADDR_UNASSIGNED) (mod_groups md)))
            BT_MESH_ADDR_UNASSIGNED \<and>
    list_all (\<lambda>e. \<not> memory_fault e)
      (new_events t (snd (restore_saved cfg (saved_last (store_pending_mod_sub md vnd s)) t)))"
proof -
  define found where "found = filter (\<lambda>g. g \<noteq> BT_MESH_ADDR_UNASSIGNED) (mod_groups md)"
  define groups where "groups = found @ replicate (length (mod_groups md) - length found) (0 :: u16)"
  have sv: "saved_last (store_pending_mod_sub md vnd s)
      = Settings_save (encode_mod_path md vnd ''sub'') (length (mod_groups md) * 2) (u16s_bytes groups)"
    by (simp add: saved_last_def store_pending_mod_sub_def settings_save_one_def Let_def found_def groups_def)
  have le: "length found \<le> length (mod_groups md)"
    unfolding found_def by (rule length_filter_le)
  then have lg: "length groups = length (mod_groups md)"
    by (simp add: groups_def)
  have m: "m < length (models t)"
    using find_first_Some [OF g [unfolded bt_mesh_model_get_def]] by simp
  have c: "memcpy_u16s (replicate (length (mod_groups md)) 0)
      (value_buffer (u16s_bytes groups)) (length (mod_groups md) * 2) = groups"
    using memcpy_u16s_read [of groups "length (mod_groups md)" 0] lg by (simp add: mult.commute)
  have no: "\<not> memcpy_overruns (replicate (length (mod_groups md)) (0 :: u16)) (int (length (mod_groups md) * 2))"
    by (simp add: memcpy_overruns_def)
  have z: "BT_MESH_ADDR_UNASSIGNED = (0 :: u16)"
    by (simp add: BT_MESH_ADDR_UNASSIGNED_def)
  have nn: "nat (int k * 2) = k * 2" for k
    by (simp add: nat_mult_distrib)
  have fz: "filter (\<lambda>g. g \<noteq> 0) (mod_groups md) = found"
    by (simp add: found_def z)
  show ?thesis
  proof (cases "mod_groups md = []")
    case True
    then show ?thesis
      unfolding sv restore_saved.simps mesh_set_bin_mod_path [OF g]
      using m n by (simp add: mod_set_sub_bin_def upd_model_def Let_def new_events_def)
  next
    case False
    then show ?thesis
      unfolding sv restore_saved.simps mesh_set_bin_mod_path [OF g] z fz
      using m n c no nn by (simp add: mod_set_sub_bin_def upd_model_def Let_def new_events_def groups_def)
  qed
qed


lemma mod_pub_round_trip:
  assumes g: "bt_mesh_model_get vnd (mod_elem_idx md) (mod_mod_idx md) t = Some m"
    and p: "mod_pub md = Some p" and a: "pub_addr p \<noteq> BT_MESH_ADDR_UNASSIGNED"
    and q: "mod_pub (models t ! m) = Some q"
  shows "fst (restore_saved cfg (saved_last (store_pending_mod_pub cfg md vnd s)) t) = 0 \<and>
    mod_pub (models (snd (restore_saved cfg (saved_last (store_pending_mod_pub cfg md vnd s)) t)) ! m)
      = Some (q\<lparr>pub_addr := pub_addr p, pub_key := pub_key p, pub_cred := pub_cred p,
                 pub_ttl := pub_ttl p, pub_period := pub_period p,
                 pub_retransmit := pub_retransmit p, pub_count := 0\<rparr>)"
proof -
  define pad where "pad = (ucast (uninitialised cfg (length (log s))) :: 3 word)"
  define v where "v = \<lparr>mp_addr = pub_addr p, mp_key = pub_key p, mp_ttl = pub_ttl p,
      mp_retransmit = pub_retransmit p, mp_period = pub_period p,
      mp_period_div = pub_period_div p, mp_cred = pub_cred p\<rparr>"
  have sv: "saved_last (store_pending_mod_pub cfg md vnd s)
      = Settings_save (encode_mod_path md vnd ''pub'') (nat sizeof_mod_pub_val) (mod_pub_val_bytes pad v)"
    using p a
    by (simp add: saved_last_def store_pending_mod_pub_def settings_save_one_def Let_def v_def pad_def)
  define b7 where "b7 = (ucast (mp_period_div v) OR push_bit 4 (of_bool8 (mp_cred v)) OR push_bit 5 (ucast pad) :: u8)"
  have B: "value_buffer (mod_pub_val_bytes pad v)
      = le16 (mp_addr v) @ le16 (mp_key v) @ [mp_ttl v, mp_retransmit v, mp_period v, b7] @ replicate 120 0"
    by (simp add: mod_pub_val_bytes_def value_buffer_def le16_def b7_def)
  have r0: "rd16 (value_buffer (mod_pub_val_bytes pad v)) 0 = mp_addr v"
    unfolding B by (rule rd16_le16)
  have r2: "rd16 (value_buffer (mod_pub_val_bytes pad v)) 2 = mp_key v"
    unfolding B using rd16_le16_at [of "le16 (mp_addr v)" 2 "mp_key v"] by (simp add: le16_def)
  have b: "value_buffer (mod_pub_val_bytes pad v) ! 4 = mp_ttl v"
    "value_buffer (mod_pub_val_bytes pad v) ! 5 = mp_retransmit v"
    "value_buffer (mod_pub_val_bytes pad v) ! 6 = mp_period v"
    "value_buffer (mod_pub_val_bytes pad v) ! 7 = b7"
    unfolding B by (simp_all add: le16_def)
  have d: "mod_pub_val_of_bytes (value_buffer (mod_pub_val_bytes pad v)) = v"
    unfolding mod_pub_val_of_bytes_def r0 r2 b
    unfolding b7_def pub_byte by simp
  have vf: "mp_addr v = pub_addr p" "mp_key v = pub_key p" "mp_ttl v = pub_ttl p"
    "mp_retransmit v = pub_retransmit p" "mp_period v = pub_period p" "mp_cred v = pub_cred p"
    by (simp_all add: v_def)
  have m: "m < length (models t)"
    using find_first_Some [OF g [unfolded bt_mesh_model_get_def]] by simp
  show ?thesis
    unfolding sv restore_saved.simps mesh_set_bin_mod_path [OF g]
    using q m
    by (simp add: mod_set_pub_bin_def upd_model_def sizeof_mod_pub_val_def d Let_def vf)
qed

lemma mod_data_round_trip:
  assumes g: "bt_mesh_model_get vnd (mod_elem_idx (models s ! m0)) (mod_mod_idx (models s ! m0)) t = Some m"
    and ne: "data \<noteq> []" and sz: "length data < 128"
  shows "restore_saved cfg (saved_last (snd (bt_mesh_model_data_store m0 vnd data s))) t
      = (case mod_cb_settings_set (models t ! m) of
           Some cb \<Rightarrow>
             (cb data,
              emit (Call_mod_settings_set vnd (mod_elem_idx (models s ! m0)) (mod_mod_idx (models s ! m0)) data)
                (upd_model m (\<lambda>md. md\<lparr>mod_flags := insert BT_MESH_MOD_DATA_PRESENT (mod_flags md)\<rparr>) t))
         | None \<Rightarrow>
             (- ENOENT,
              upd_model m (\<lambda>md. md\<lparr>mod_flags := insert BT_MESH_MOD_DATA_PRESENT (mod_flags md)\<rparr>) t))"
proof -
  define md where "md = models s ! m0"
  have sv: "saved_last (snd (bt_mesh_model_data_store m0 vnd data s))
      = Settings_save (encode_mod_path md vnd ''data'') (length data) data"
    using ne
    by (simp add: saved_last_def bt_mesh_model_data_store_def settings_save_one_def Let_def md_def)
  have tk: "take (length data) (value_buffer data) = data"
    by (simp add: value_buffer_def)
  show ?thesis
    unfolding sv restore_saved.simps mesh_set_bin_mod_path [OF g [folded md_def]] md_def [symmetric]
    using sz ne by (simp add: Let_def tk split: option.splits)
qed

subsection \<open>What was stored is what is restored\<close>

text \<open>
  Claim C5, as the code has it. The last write of a store function, handed back
  to \<^verbatim>\<open>mesh_set_bin\<close> as the record it is, restores the entity it was taken from, for
  every row of the settings table but the sequence number: the network record,
  the IV record (a duration below 128), a replay entry (a sequence number below
  \<open>2 ^ 24\<close>), a network key (a phase below 128) and an application key with keys of
  16 bytes, the heartbeat publication with a destination (the count as its
  indefinite flag, a key index below 4096), the staged configuration, the
  bindings and the subscriptions of a model (the entries in use, in their order,
  at the front of the array; with no binding in use the write has length 0,
  which leaves no record, and the bindings of \<open>t\<close> stay), the publication of a model with a destination (the
  period divisor apart, of which nothing is said), the data of a model (fewer
  than 128 bytes, given to the callback as they were stored), a label in use, the
  role, and a node that gets a free slot. The entity is restored into the slot
  the handler finds or allocates in the state \<open>t\<close> it runs on. For the sequence
  number the restore yields the stored value moved to the end of its block of
  the store rate, and the stored value itself when the rate is not positive.
\<close>

theorem codec_round_trip:
  "(length (dev_key s) = 16 \<longrightarrow>
      fst (restore_saved cfg (saved_last (store_pending_net s)) t) = 0 \<and>
      bt_mesh_primary_addr (snd (restore_saved cfg (saved_last (store_pending_net s)) t))
        = bt_mesh_primary_addr s \<and>
      dev_key (snd (restore_saved cfg (saved_last (store_pending_net s)) t)) = dev_key s) \<and>
   (unat (ivu_duration s) < 128 \<longrightarrow>
      fst (restore_saved cfg (saved_last (store_pending_iv s)) t) = 0 \<and>
      iv_index (snd (restore_saved cfg (saved_last (store_pending_iv s)) t)) = iv_index s \<and>
      ivu_duration (snd (restore_saved cfg (saved_last (store_pending_iv s)) t)) = ivu_duration s \<and>
      (BT_MESH_IVU_IN_PROGRESS \<in> flags (snd (restore_saved cfg (saved_last (store_pending_iv s)) t)))
        = (BT_MESH_IVU_IN_PROGRESS \<in> flags s)) \<and>
   (unat (seq s) < 2 ^ 24 \<longrightarrow>
      fst (restore_saved cfg (saved_last (store_pending_seq s)) t) = 0 \<and>
      seq (snd (restore_saved cfg (saved_last (store_pending_seq s)) t))
        = (if 0 <s CONFIG_BT_MESH_SEQ_STORE_RATE cfg
           then (seq s + (CONFIG_BT_MESH_SEQ_STORE_RATE cfg - seq s mod CONFIG_BT_MESH_SEQ_STORE_RATE cfg)) - 1
           else seq s)) \<and>
   (unat (rpl_seq entry) < 2 ^ 24 \<and>
    (case rpl_find (rpl_src entry) t of Some i \<Rightarrow> Some i
     | None \<Rightarrow> find_first (\<lambda>x. rpl_src x = 0) (rpl t)) = Some ri \<longrightarrow>
      fst (restore_saved cfg (saved_last (store_rpl cfg entry s)) t) = 0 \<and>
      rpl_src (rpl (snd (restore_saved cfg (saved_last (store_rpl cfg entry s)) t)) ! ri) = rpl_src entry \<and>
      rpl_seq (rpl (snd (restore_saved cfg (saved_last (store_rpl cfg entry s)) t)) ! ri) = rpl_seq entry \<and>
      rpl_old_iv (rpl (snd (restore_saved cfg (saved_last (store_rpl cfg entry s)) t)) ! ri) = rpl_old_iv entry) \<and>
   (unat (sub_kr_phase sb) < 128 \<and>
    length (k_net (sub_keys0 sb)) = 16 \<and> length (k_net (sub_keys1 sb)) = 16 \<and>
    (case bt_mesh_subnet_get (sub_net_idx sb) t of Some i \<Rightarrow> Some i
     | None \<Rightarrow> find_first (\<lambda>b. sub_net_idx b = BT_MESH_KEY_UNUSED) (sub t)) = Some si \<longrightarrow>
      fst (restore_saved cfg (saved_last (store_net_key sb s)) t) = 0 \<and>
      sub_net_idx (sub (snd (restore_saved cfg (saved_last (store_net_key sb s)) t)) ! si) = sub_net_idx sb \<and>
      sub_kr_flag (sub (snd (restore_saved cfg (saved_last (store_net_key sb s)) t)) ! si) = sub_kr_flag sb \<and>
      sub_kr_phase (sub (snd (restore_saved cfg (saved_last (store_net_key sb s)) t)) ! si) = sub_kr_phase sb \<and>
      k_net (sub_keys0 (sub (snd (restore_saved cfg (saved_last (store_net_key sb s)) t)) ! si))
        = k_net (sub_keys0 sb) \<and>
      k_net (sub_keys1 (sub (snd (restore_saved cfg (saved_last (store_net_key sb s)) t)) ! si))
        = k_net (sub_keys1 sb)) \<and>
   (length (app_keys0_val app) = 16 \<and> length (app_keys1_val app) = 16 \<and>
    (case bt_mesh_app_key_find (app_app_idx app) t of Some i \<Rightarrow> Some i
     | None \<Rightarrow> bt_mesh_app_key_alloc (app_app_idx app) t) = Some ai \<longrightarrow>
      fst (restore_saved cfg (saved_last (store_app_key app s)) t) = 0 \<and>
      app_net_idx (app_keys (snd (restore_saved cfg (saved_last (store_app_key app s)) t)) ! ai) = app_net_idx app \<and>
      app_app_idx (app_keys (snd (restore_saved cfg (saved_last (store_app_key app s)) t)) ! ai) = app_app_idx app \<and>
      app_updated (app_keys (snd (restore_saved cfg (saved_last (store_app_key app s)) t)) ! ai) = app_updated app \<and>
      app_keys0_val (app_keys (snd (restore_saved cfg (saved_last (store_app_key app s)) t)) ! ai)
        = app_keys0_val app \<and>
      app_keys1_val (app_keys (snd (restore_saved cfg (saved_last (store_app_key app s)) t)) ! ai)
        = app_keys1_val app) \<and>
   (bt_mesh_hb_pub_get s = Some pub \<and> hb_dst pub \<noteq> BT_MESH_ADDR_UNASSIGNED \<and>
    unat (hb_net_idx pub) < 4096 \<and> bt_mesh_hb_pub_get t = Some hq \<longrightarrow>
      fst (restore_saved cfg (saved_last (store_pending_hb_pub cfg s)) t) = 0 \<and>
      bt_mesh_hb_pub_get (snd (restore_saved cfg (saved_last (store_pending_hb_pub cfg s)) t))
        = Some (hq\<lparr>hb_dst := hb_dst pub, hb_period := hb_period pub, hb_ttl := hb_ttl pub,
                    hb_feat := hb_feat pub, hb_net_idx := hb_net_idx pub,
                    hb_count := (if hb_count pub = 0xffff then 0xffff else 0)\<rparr>)) \<and>
   (bt_mesh_cfg_get s = Some c \<and> bt_mesh_cfg_get t \<noteq> None \<longrightarrow>
      fst (restore_saved cfg (saved_last (store_pending_cfg s)) t) = 0 \<and>
      stored_cfg_valid (snd (restore_saved cfg (saved_last (store_pending_cfg s)) t)) \<and>
      stored_cfg_cfg (snd (restore_saved cfg (saved_last (store_pending_cfg s)) t))
        = \<lparr>cv_net_transmit = net_transmit c, cv_relay = relay c,
           cv_relay_retransmit = relay_retransmit c, cv_beacon = beacon c,
           cv_gatt_proxy = gatt_proxy c, cv_frnd = frnd c, cv_default_ttl = default_ttl c\<rparr>) \<and>
   (bt_mesh_model_get vnd (mod_elem_idx mdl) (mod_mod_idx mdl) t = Some m \<and>
    length (mod_keys (models t ! m)) = length (mod_keys mdl) \<longrightarrow>
      fst (restore_saved cfg (saved_last (store_pending_mod_bind mdl vnd s)) t) = 0 \<and>
      mod_keys (models (snd (restore_saved cfg (saved_last (store_pending_mod_bind mdl vnd s)) t)) ! m)
        = (if filter (\<lambda>k. k \<noteq> BT_MESH_KEY_UNUSED) (mod_keys mdl) = [] then mod_keys (models t ! m)
           else filter (\<lambda>k. k \<noteq> BT_MESH_KEY_UNUSED) (mod_keys mdl)
             @ replicate (length (mod_keys mdl) - length (filter (\<lambda>k. k \<noteq> BT_MESH_KEY_UNUSED) (mod_keys mdl)))
                 BT_MESH_KEY_UNUSED) \<and>
      list_all (\<lambda>ev. \<not> memory_fault ev)
        (new_events t (snd (restore_saved cfg (saved_last (store_pending_mod_bind mdl vnd s)) t)))) \<and>
   (bt_mesh_model_get vnd (mod_elem_idx mdl) (mod_mod_idx mdl) t = Some m \<and>
    length (mod_groups (models t ! m)) = length (mod_groups mdl) \<longrightarrow>
      fst (restore_saved cfg (saved_last (store_pending_mod_sub mdl vnd s)) t) = 0 \<and>
      mod_groups (models (snd (restore_saved cfg (saved_last (store_pending_mod_sub mdl vnd s)) t)) ! m)
        = filter (\<lambda>g. g \<noteq> BT_MESH_ADDR_UNASSIGNED) (mod_groups mdl)
          @ replicate (length (mod_groups mdl) - length (filter (\<lambda>g. g \<noteq> BT_MESH_ADDR_UNASSIGNED) (mod_groups mdl)))
              BT_MESH_ADDR_UNASSIGNED \<and>
      list_all (\<lambda>ev. \<not> memory_fault ev)
        (new_events t (snd (restore_saved cfg (saved_last (store_pending_mod_sub mdl vnd s)) t)))) \<and>
   (bt_mesh_model_get vnd (mod_elem_idx mdl) (mod_mod_idx mdl) t = Some m \<and>
    mod_pub mdl = Some p \<and> pub_addr p \<noteq> BT_MESH_ADDR_UNASSIGNED \<and>
    mod_pub (models t ! m) = Some pq \<longrightarrow>
      fst (restore_saved cfg (saved_last (store_pending_mod_pub cfg mdl vnd s)) t) = 0 \<and>
      mod_pub (models (snd (restore_saved cfg (saved_last (store_pending_mod_pub cfg mdl vnd s)) t)) ! m)
        = Some (pq\<lparr>pub_addr := pub_addr p, pub_key := pub_key p, pub_cred := pub_cred p,
                    pub_ttl := pub_ttl p, pub_period := pub_period p,
                    pub_retransmit := pub_retransmit p, pub_count := 0\<rparr>)) \<and>
   (bt_mesh_model_get vnd (mod_elem_idx (models s ! m0)) (mod_mod_idx (models s ! m0)) t = Some dm \<and>
    data \<noteq> [] \<and> length data < 128 \<longrightarrow>
      restore_saved cfg (saved_last (snd (bt_mesh_model_data_store m0 vnd data s))) t
        = (case mod_cb_settings_set (models t ! dm) of
             Some cb \<Rightarrow>
               (cb data,
                emit (Call_mod_settings_set vnd (mod_elem_idx (models s ! m0)) (mod_mod_idx (models s ! m0)) data)
                  (upd_model dm (\<lambda>x. x\<lparr>mod_flags := insert BT_MESH_MOD_DATA_PRESENT (mod_flags x)\<rparr>) t))
           | None \<Rightarrow>
               (- ENOENT,
                upd_model dm (\<lambda>x. x\<lparr>mod_flags := insert BT_MESH_MOD_DATA_PRESENT (mod_flags x)\<rparr>) t))) \<and>
   (lab_changed (labels s ! li) \<and> lab_ref (labels s ! li) \<noteq> 0 \<and>
    length (lab_uuid (labels s ! li)) = 16 \<and> li < length (labels t) \<and> li < 65536 \<longrightarrow>
      fst (restore_saved cfg (saved_last (store_pending_va_step li s)) t) = 0 \<and>
      lab_ref (labels (snd (restore_saved cfg (saved_last (store_pending_va_step li s)) t)) ! li)
        = lab_ref (labels s ! li) \<and>
      lab_addr (labels (snd (restore_saved cfg (saved_last (store_pending_va_step li s)) t)) ! li)
        = lab_addr (labels s ! li) \<and>
      lab_uuid (labels (snd (restore_saved cfg (saved_last (store_pending_va_step li s)) t)) ! li)
        = lab_uuid (labels s ! li)) \<and>
   ((BT_MESH_PROVISIONER \<in> flags s \<or> BT_MESH_NODE \<in> flags s) \<longrightarrow>
      fst (restore_saved cfg (saved_last (store_pending_role s)) t) = 0 \<and>
      (if BT_MESH_PROVISIONER \<in> flags s then BT_MESH_PROVISIONER else BT_MESH_NODE)
        \<in> flags (snd (restore_saved cfg (saved_last (store_pending_role s)) t))) \<and>
   (CONFIG_BT_MESH_PROVISIONER cfg \<and> length (node_dev_key node) = 16 \<and>
    bt_mesh_node_find (node_addr node) t = None \<and>
    find_first (\<lambda>n. node_addr n = BT_MESH_ADDR_UNASSIGNED) (nodes t) = Some ni \<longrightarrow>
      fst (restore_saved cfg (saved_last (store_node node s)) t) = 0 \<and>
      nodes (snd (restore_saved cfg (saved_last (store_node node s)) t)) ! ni = node)"
  apply (rule conjI)
  subgoal
    apply (rule impI)
    apply ((elim conjE)?)
    apply (rule net_round_trip; assumption)
    done
  apply (rule conjI)
  subgoal
    apply (rule impI)
    apply ((elim conjE)?)
    apply (rule iv_round_trip; assumption)
    done
  apply (rule conjI)
  subgoal
    apply (rule impI)
    apply ((elim conjE)?)
    apply (rule seq_round_trip; assumption)
    done
  apply (rule conjI)
  subgoal
    apply (rule impI)
    apply ((elim conjE)?)
    apply (rule rpl_round_trip; assumption)
    done
  apply (rule conjI)
  subgoal
    apply (rule impI)
    apply ((elim conjE)?)
    apply (rule net_key_round_trip; assumption)
    done
  apply (rule conjI)
  subgoal
    apply (rule impI)
    apply ((elim conjE)?)
    apply (rule app_key_round_trip; assumption)
    done
  apply (rule conjI)
  subgoal
    apply (rule impI)
    apply ((elim conjE)?)
    apply (rule hb_pub_round_trip; assumption)
    done
  apply (rule conjI)
  subgoal
    apply (rule impI)
    apply ((elim conjE)?)
    apply (rule cfg_round_trip; assumption)
    done
  apply (rule conjI)
  subgoal
    apply (rule impI)
    apply ((elim conjE)?)
    apply (rule mod_bind_round_trip; assumption)
    done
  apply (rule conjI)
  subgoal
    apply (rule impI)
    apply ((elim conjE)?)
    apply (rule mod_sub_round_trip; assumption)
    done
  apply (rule conjI)
  subgoal
    apply (rule impI)
    apply ((elim conjE)?)
    apply (rule mod_pub_round_trip; assumption)
    done
  apply (rule conjI)
  subgoal
    apply (rule impI)
    apply ((elim conjE)?)
    apply (rule mod_data_round_trip; assumption)
    done
  apply (rule conjI)
  subgoal
    apply (rule impI)
    apply ((elim conjE)?)
    apply (rule va_round_trip; assumption)
    done
  apply (rule conjI)
  subgoal
    apply (rule impI)
    apply ((elim conjE)?)
    apply (rule role_round_trip; assumption)
    done
  subgoal
    apply (rule impI)
    apply ((elim conjE)?)
    apply (rule node_round_trip; assumption)
    done
  done

text \<open>Claim C5 on the provisioned example state, restored into the same device
  after a reboot.\<close>

theorem codec_round_trip_witness:

  "(length (dev_key provisioned_state) = 16 \<and>
      fst (restore_saved example_config (saved_last (store_pending_net provisioned_state)) factory_state) = 0 \<and>
      bt_mesh_primary_addr (snd (restore_saved example_config (saved_last (store_pending_net provisioned_state)) factory_state))
        = bt_mesh_primary_addr provisioned_state \<and>
      dev_key (snd (restore_saved example_config (saved_last (store_pending_net provisioned_state)) factory_state)) = dev_key provisioned_state) \<and>
   (unat (ivu_duration provisioned_state) < 128 \<and>
      fst (restore_saved example_config (saved_last (store_pending_iv provisioned_state)) factory_state) = 0 \<and>
      iv_index (snd (restore_saved example_config (saved_last (store_pending_iv provisioned_state)) factory_state)) = iv_index provisioned_state \<and>
      ivu_duration (snd (restore_saved example_config (saved_last (store_pending_iv provisioned_state)) factory_state)) = ivu_duration provisioned_state \<and>
      (BT_MESH_IVU_IN_PROGRESS \<in> flags (snd (restore_saved example_config (saved_last (store_pending_iv provisioned_state)) factory_state)))
        = (BT_MESH_IVU_IN_PROGRESS \<in> flags provisioned_state)) \<and>
   (unat (seq provisioned_state) < 2 ^ 24 \<and>
      fst (restore_saved example_config (saved_last (store_pending_seq provisioned_state)) factory_state) = 0 \<and>
      seq (snd (restore_saved example_config (saved_last (store_pending_seq provisioned_state)) factory_state))
        = (if 0 <s CONFIG_BT_MESH_SEQ_STORE_RATE example_config
           then (seq provisioned_state + (CONFIG_BT_MESH_SEQ_STORE_RATE example_config - seq provisioned_state mod CONFIG_BT_MESH_SEQ_STORE_RATE example_config)) - 1
           else seq provisioned_state)) \<and>
   (unat (rpl_seq (rpl provisioned_state ! 0)) < 2 ^ 24 \<and>
    (case rpl_find (rpl_src (rpl provisioned_state ! 0)) factory_state of Some i \<Rightarrow> Some i
     | None \<Rightarrow> find_first (\<lambda>x. rpl_src x = 0) (rpl factory_state)) = Some 0 \<and>
      fst (restore_saved example_config (saved_last (store_rpl example_config (rpl provisioned_state ! 0) provisioned_state)) factory_state) = 0 \<and>
      rpl_src (rpl (snd (restore_saved example_config (saved_last (store_rpl example_config (rpl provisioned_state ! 0) provisioned_state)) factory_state)) ! 0) = rpl_src (rpl provisioned_state ! 0) \<and>
      rpl_seq (rpl (snd (restore_saved example_config (saved_last (store_rpl example_config (rpl provisioned_state ! 0) provisioned_state)) factory_state)) ! 0) = rpl_seq (rpl provisioned_state ! 0) \<and>
      rpl_old_iv (rpl (snd (restore_saved example_config (saved_last (store_rpl example_config (rpl provisioned_state ! 0) provisioned_state)) factory_state)) ! 0) = rpl_old_iv (rpl provisioned_state ! 0)) \<and>
   (unat (sub_kr_phase (sub provisioned_state ! 0)) < 128 \<and>
    length (k_net (sub_keys0 (sub provisioned_state ! 0))) = 16 \<and> length (k_net (sub_keys1 (sub provisioned_state ! 0))) = 16 \<and>
    (case bt_mesh_subnet_get (sub_net_idx (sub provisioned_state ! 0)) factory_state of Some i \<Rightarrow> Some i
     | None \<Rightarrow> find_first (\<lambda>b. sub_net_idx b = BT_MESH_KEY_UNUSED) (sub factory_state)) = Some 0 \<and>
      fst (restore_saved example_config (saved_last (store_net_key (sub provisioned_state ! 0) provisioned_state)) factory_state) = 0 \<and>
      sub_net_idx (sub (snd (restore_saved example_config (saved_last (store_net_key (sub provisioned_state ! 0) provisioned_state)) factory_state)) ! 0) = sub_net_idx (sub provisioned_state ! 0) \<and>
      sub_kr_flag (sub (snd (restore_saved example_config (saved_last (store_net_key (sub provisioned_state ! 0) provisioned_state)) factory_state)) ! 0) = sub_kr_flag (sub provisioned_state ! 0) \<and>
      sub_kr_phase (sub (snd (restore_saved example_config (saved_last (store_net_key (sub provisioned_state ! 0) provisioned_state)) factory_state)) ! 0) = sub_kr_phase (sub provisioned_state ! 0) \<and>
      k_net (sub_keys0 (sub (snd (restore_saved example_config (saved_last (store_net_key (sub provisioned_state ! 0) provisioned_state)) factory_state)) ! 0))
        = k_net (sub_keys0 (sub provisioned_state ! 0)) \<and>
      k_net (sub_keys1 (sub (snd (restore_saved example_config (saved_last (store_net_key (sub provisioned_state ! 0) provisioned_state)) factory_state)) ! 0))
        = k_net (sub_keys1 (sub provisioned_state ! 0))) \<and>
   (length (app_keys0_val (app_keys provisioned_state ! 0)) = 16 \<and> length (app_keys1_val (app_keys provisioned_state ! 0)) = 16 \<and>
    (case bt_mesh_app_key_find (app_app_idx (app_keys provisioned_state ! 0)) factory_state of Some i \<Rightarrow> Some i
     | None \<Rightarrow> bt_mesh_app_key_alloc (app_app_idx (app_keys provisioned_state ! 0)) factory_state) = Some 0 \<and>
      fst (restore_saved example_config (saved_last (store_app_key (app_keys provisioned_state ! 0) provisioned_state)) factory_state) = 0 \<and>
      app_net_idx (app_keys (snd (restore_saved example_config (saved_last (store_app_key (app_keys provisioned_state ! 0) provisioned_state)) factory_state)) ! 0) = app_net_idx (app_keys provisioned_state ! 0) \<and>
      app_app_idx (app_keys (snd (restore_saved example_config (saved_last (store_app_key (app_keys provisioned_state ! 0) provisioned_state)) factory_state)) ! 0) = app_app_idx (app_keys provisioned_state ! 0) \<and>
      app_updated (app_keys (snd (restore_saved example_config (saved_last (store_app_key (app_keys provisioned_state ! 0) provisioned_state)) factory_state)) ! 0) = app_updated (app_keys provisioned_state ! 0) \<and>
      app_keys0_val (app_keys (snd (restore_saved example_config (saved_last (store_app_key (app_keys provisioned_state ! 0) provisioned_state)) factory_state)) ! 0)
        = app_keys0_val (app_keys provisioned_state ! 0) \<and>
      app_keys1_val (app_keys (snd (restore_saved example_config (saved_last (store_app_key (app_keys provisioned_state ! 0) provisioned_state)) factory_state)) ! 0)
        = app_keys1_val (app_keys provisioned_state ! 0)) \<and>
   (bt_mesh_hb_pub_get provisioned_state = Some \<lparr>hb_dst = 6, hb_count = 0xffff, hb_ttl = 7, hb_period = 2, hb_feat = 1, hb_net_idx = 1\<rparr> \<and> hb_dst \<lparr>hb_dst = 6, hb_count = 0xffff, hb_ttl = 7, hb_period = 2, hb_feat = 1, hb_net_idx = 1\<rparr> \<noteq> BT_MESH_ADDR_UNASSIGNED \<and>
    unat (hb_net_idx \<lparr>hb_dst = 6, hb_count = 0xffff, hb_ttl = 7, hb_period = 2, hb_feat = 1, hb_net_idx = 1\<rparr>) < 4096 \<and> bt_mesh_hb_pub_get factory_state = Some \<lparr>hb_dst = 0, hb_count = 0, hb_ttl = 0, hb_period = 0, hb_feat = 0, hb_net_idx = 0\<rparr> \<and>
      fst (restore_saved example_config (saved_last (store_pending_hb_pub example_config provisioned_state)) factory_state) = 0 \<and>
      bt_mesh_hb_pub_get (snd (restore_saved example_config (saved_last (store_pending_hb_pub example_config provisioned_state)) factory_state))
        = Some (\<lparr>hb_dst = 0, hb_count = 0, hb_ttl = 0, hb_period = 0, hb_feat = 0, hb_net_idx = 0\<rparr>\<lparr>hb_dst := hb_dst \<lparr>hb_dst = 6, hb_count = 0xffff, hb_ttl = 7, hb_period = 2, hb_feat = 1, hb_net_idx = 1\<rparr>, hb_period := hb_period \<lparr>hb_dst = 6, hb_count = 0xffff, hb_ttl = 7, hb_period = 2, hb_feat = 1, hb_net_idx = 1\<rparr>, hb_ttl := hb_ttl \<lparr>hb_dst = 6, hb_count = 0xffff, hb_ttl = 7, hb_period = 2, hb_feat = 1, hb_net_idx = 1\<rparr>,
                    hb_feat := hb_feat \<lparr>hb_dst = 6, hb_count = 0xffff, hb_ttl = 7, hb_period = 2, hb_feat = 1, hb_net_idx = 1\<rparr>, hb_net_idx := hb_net_idx \<lparr>hb_dst = 6, hb_count = 0xffff, hb_ttl = 7, hb_period = 2, hb_feat = 1, hb_net_idx = 1\<rparr>,
                    hb_count := (if hb_count \<lparr>hb_dst = 6, hb_count = 0xffff, hb_ttl = 7, hb_period = 2, hb_feat = 1, hb_net_idx = 1\<rparr> = 0xffff then 0xffff else 0)\<rparr>)) \<and>
   (bt_mesh_cfg_get provisioned_state = Some \<lparr>net_transmit = 1, relay = 1, relay_retransmit = 2, beacon = 1, gatt_proxy = 1, frnd = 0, default_ttl = 7\<rparr> \<and> bt_mesh_cfg_get factory_state \<noteq> None \<and>
      fst (restore_saved example_config (saved_last (store_pending_cfg provisioned_state)) factory_state) = 0 \<and>
      stored_cfg_valid (snd (restore_saved example_config (saved_last (store_pending_cfg provisioned_state)) factory_state)) \<and>
      stored_cfg_cfg (snd (restore_saved example_config (saved_last (store_pending_cfg provisioned_state)) factory_state))
        = \<lparr>cv_net_transmit = net_transmit \<lparr>net_transmit = 1, relay = 1, relay_retransmit = 2, beacon = 1, gatt_proxy = 1, frnd = 0, default_ttl = 7\<rparr>, cv_relay = relay \<lparr>net_transmit = 1, relay = 1, relay_retransmit = 2, beacon = 1, gatt_proxy = 1, frnd = 0, default_ttl = 7\<rparr>,
           cv_relay_retransmit = relay_retransmit \<lparr>net_transmit = 1, relay = 1, relay_retransmit = 2, beacon = 1, gatt_proxy = 1, frnd = 0, default_ttl = 7\<rparr>, cv_beacon = beacon \<lparr>net_transmit = 1, relay = 1, relay_retransmit = 2, beacon = 1, gatt_proxy = 1, frnd = 0, default_ttl = 7\<rparr>,
           cv_gatt_proxy = gatt_proxy \<lparr>net_transmit = 1, relay = 1, relay_retransmit = 2, beacon = 1, gatt_proxy = 1, frnd = 0, default_ttl = 7\<rparr>, cv_frnd = frnd \<lparr>net_transmit = 1, relay = 1, relay_retransmit = 2, beacon = 1, gatt_proxy = 1, frnd = 0, default_ttl = 7\<rparr>, cv_default_ttl = default_ttl \<lparr>net_transmit = 1, relay = 1, relay_retransmit = 2, beacon = 1, gatt_proxy = 1, frnd = 0, default_ttl = 7\<rparr>\<rparr>) \<and>
   (bt_mesh_model_get False (mod_elem_idx example_model) (mod_mod_idx example_model) factory_state = Some 0 \<and>
    length (mod_keys (models factory_state ! 0)) = length (mod_keys example_model) \<and>
      fst (restore_saved example_config (saved_last (store_pending_mod_bind example_model False provisioned_state)) factory_state) = 0 \<and>
      mod_keys (models (snd (restore_saved example_config (saved_last (store_pending_mod_bind example_model False provisioned_state)) factory_state)) ! 0)
        = (if filter (\<lambda>k. k \<noteq> BT_MESH_KEY_UNUSED) (mod_keys example_model) = [] then mod_keys (models factory_state ! 0)
           else filter (\<lambda>k. k \<noteq> BT_MESH_KEY_UNUSED) (mod_keys example_model)
             @ replicate (length (mod_keys example_model) - length (filter (\<lambda>k. k \<noteq> BT_MESH_KEY_UNUSED) (mod_keys example_model)))
                 BT_MESH_KEY_UNUSED) \<and>
      list_all (\<lambda>ev. \<not> memory_fault ev)
        (new_events factory_state (snd (restore_saved example_config (saved_last (store_pending_mod_bind example_model False provisioned_state)) factory_state)))) \<and>
   (bt_mesh_model_get False (mod_elem_idx example_model) (mod_mod_idx example_model) factory_state = Some 0 \<and>
    length (mod_groups (models factory_state ! 0)) = length (mod_groups example_model) \<and>
      fst (restore_saved example_config (saved_last (store_pending_mod_sub example_model False provisioned_state)) factory_state) = 0 \<and>
      mod_groups (models (snd (restore_saved example_config (saved_last (store_pending_mod_sub example_model False provisioned_state)) factory_state)) ! 0)
        = filter (\<lambda>g. g \<noteq> BT_MESH_ADDR_UNASSIGNED) (mod_groups example_model)
          @ replicate (length (mod_groups example_model) - length (filter (\<lambda>g. g \<noteq> BT_MESH_ADDR_UNASSIGNED) (mod_groups example_model)))
              BT_MESH_ADDR_UNASSIGNED \<and>
      list_all (\<lambda>ev. \<not> memory_fault ev)
        (new_events factory_state (snd (restore_saved example_config (saved_last (store_pending_mod_sub example_model False provisioned_state)) factory_state)))) \<and>
   (bt_mesh_model_get False (mod_elem_idx example_model) (mod_mod_idx example_model) factory_state = Some 0 \<and>
    mod_pub example_model = Some \<lparr>pub_addr = 0xc001, pub_key = 2, pub_ttl = 5, pub_retransmit = 1, pub_period = 10, pub_period_div = 0, pub_cred = False, pub_count = 0, pub_update = False\<rparr> \<and> pub_addr \<lparr>pub_addr = 0xc001, pub_key = 2, pub_ttl = 5, pub_retransmit = 1, pub_period = 10, pub_period_div = 0, pub_cred = False, pub_count = 0, pub_update = False\<rparr> \<noteq> BT_MESH_ADDR_UNASSIGNED \<and>
    mod_pub (models factory_state ! 0) = Some \<lparr>pub_addr = 0, pub_key = 0, pub_ttl = 0, pub_retransmit = 0, pub_period = 0, pub_period_div = 0, pub_cred = False, pub_count = 0, pub_update = False\<rparr> \<and>
      fst (restore_saved example_config (saved_last (store_pending_mod_pub example_config example_model False provisioned_state)) factory_state) = 0 \<and>
      mod_pub (models (snd (restore_saved example_config (saved_last (store_pending_mod_pub example_config example_model False provisioned_state)) factory_state)) ! 0)
        = Some (\<lparr>pub_addr = 0, pub_key = 0, pub_ttl = 0, pub_retransmit = 0, pub_period = 0, pub_period_div = 0, pub_cred = False, pub_count = 0, pub_update = False\<rparr>\<lparr>pub_addr := pub_addr \<lparr>pub_addr = 0xc001, pub_key = 2, pub_ttl = 5, pub_retransmit = 1, pub_period = 10, pub_period_div = 0, pub_cred = False, pub_count = 0, pub_update = False\<rparr>, pub_key := pub_key \<lparr>pub_addr = 0xc001, pub_key = 2, pub_ttl = 5, pub_retransmit = 1, pub_period = 10, pub_period_div = 0, pub_cred = False, pub_count = 0, pub_update = False\<rparr>, pub_cred := pub_cred \<lparr>pub_addr = 0xc001, pub_key = 2, pub_ttl = 5, pub_retransmit = 1, pub_period = 10, pub_period_div = 0, pub_cred = False, pub_count = 0, pub_update = False\<rparr>,
                    pub_ttl := pub_ttl \<lparr>pub_addr = 0xc001, pub_key = 2, pub_ttl = 5, pub_retransmit = 1, pub_period = 10, pub_period_div = 0, pub_cred = False, pub_count = 0, pub_update = False\<rparr>, pub_period := pub_period \<lparr>pub_addr = 0xc001, pub_key = 2, pub_ttl = 5, pub_retransmit = 1, pub_period = 10, pub_period_div = 0, pub_cred = False, pub_count = 0, pub_update = False\<rparr>,
                    pub_retransmit := pub_retransmit \<lparr>pub_addr = 0xc001, pub_key = 2, pub_ttl = 5, pub_retransmit = 1, pub_period = 10, pub_period_div = 0, pub_cred = False, pub_count = 0, pub_update = False\<rparr>, pub_count := 0\<rparr>)) \<and>
   (bt_mesh_model_get False (mod_elem_idx (models provisioned_state ! 0)) (mod_mod_idx (models provisioned_state ! 0)) factory_state = Some 0 \<and>
    [1 :: u8, 2, 3] \<noteq> [] \<and> length [1 :: u8, 2, 3] < 128 \<and>
      restore_saved example_config (saved_last (snd (bt_mesh_model_data_store 0 False [1 :: u8, 2, 3] provisioned_state))) factory_state
        = (case mod_cb_settings_set (models factory_state ! 0) of
             Some cb \<Rightarrow>
               (cb [1 :: u8, 2, 3],
                emit (Call_mod_settings_set False (mod_elem_idx (models provisioned_state ! 0)) (mod_mod_idx (models provisioned_state ! 0)) [1 :: u8, 2, 3])
                  (upd_model 0 (\<lambda>x. x\<lparr>mod_flags := insert BT_MESH_MOD_DATA_PRESENT (mod_flags x)\<rparr>) factory_state))
           | None \<Rightarrow>
               (- ENOENT,
                upd_model 0 (\<lambda>x. x\<lparr>mod_flags := insert BT_MESH_MOD_DATA_PRESENT (mod_flags x)\<rparr>) factory_state))) \<and>
   (lab_changed (labels provisioned_state ! (0 :: nat)) \<and> lab_ref (labels provisioned_state ! (0 :: nat)) \<noteq> 0 \<and>
    length (lab_uuid (labels provisioned_state ! (0 :: nat))) = 16 \<and> (0 :: nat) < length (labels factory_state) \<and> (0 :: nat) < 65536 \<and>
      fst (restore_saved example_config (saved_last (store_pending_va_step (0 :: nat) provisioned_state)) factory_state) = 0 \<and>
      lab_ref (labels (snd (restore_saved example_config (saved_last (store_pending_va_step (0 :: nat) provisioned_state)) factory_state)) ! (0 :: nat))
        = lab_ref (labels provisioned_state ! (0 :: nat)) \<and>
      lab_addr (labels (snd (restore_saved example_config (saved_last (store_pending_va_step (0 :: nat) provisioned_state)) factory_state)) ! (0 :: nat))
        = lab_addr (labels provisioned_state ! (0 :: nat)) \<and>
      lab_uuid (labels (snd (restore_saved example_config (saved_last (store_pending_va_step (0 :: nat) provisioned_state)) factory_state)) ! (0 :: nat))
        = lab_uuid (labels provisioned_state ! (0 :: nat))) \<and>
   ((BT_MESH_PROVISIONER \<in> flags provisioned_state \<or> BT_MESH_NODE \<in> flags provisioned_state) \<and>
      fst (restore_saved example_config (saved_last (store_pending_role provisioned_state)) factory_state) = 0 \<and>
      (if BT_MESH_PROVISIONER \<in> flags provisioned_state then BT_MESH_PROVISIONER else BT_MESH_NODE)
        \<in> flags (snd (restore_saved example_config (saved_last (store_pending_role provisioned_state)) factory_state))) \<and>
   (CONFIG_BT_MESH_PROVISIONER example_config \<and> length (node_dev_key (nodes provisioned_state ! 0)) = 16 \<and>
    bt_mesh_node_find (node_addr (nodes provisioned_state ! 0)) factory_state = None \<and>
    find_first (\<lambda>n. node_addr n = BT_MESH_ADDR_UNASSIGNED) (nodes factory_state) = Some 0 \<and>
      fst (restore_saved example_config (saved_last (store_node (nodes provisioned_state ! 0) provisioned_state)) factory_state) = 0 \<and>
      nodes (snd (restore_saved example_config (saved_last (store_node (nodes provisioned_state ! 0) provisioned_state)) factory_state)) ! 0 = (nodes provisioned_state ! 0))"
proof -
  note W = provisioned_state_simps factory_state_simps example_config_simps example_model_def
    rpl_find_def bt_mesh_subnet_get_def bt_mesh_app_key_find_def bt_mesh_app_key_alloc_def
    bt_mesh_hb_pub_get_def bt_mesh_cfg_get_def bt_mesh_model_get_def bt_mesh_node_find_def
    bt_mesh_rpl_zero_def bt_mesh_subnet_zero_def bt_mesh_subnet_keys_zero_def bt_mesh_app_key_zero_def
    bt_mesh_node_zero_def label_zero_def BT_MESH_KEY_UNUSED_def BT_MESH_ADDR_UNASSIGNED_def
  note T = codec_round_trip [where cfg = "example_config" and hq = "\<lparr>hb_dst = 0, hb_count = 0, hb_ttl = 0, hb_period = 0, hb_feat = 0, hb_net_idx = 0\<rparr>" and pq = "\<lparr>pub_addr = 0, pub_key = 0, pub_ttl = 0, pub_retransmit = 0, pub_period = 0, pub_period_div = 0, pub_cred = False, pub_count = 0, pub_update = False\<rparr>" and pub = "\<lparr>hb_dst = 6, hb_count = 0xffff, hb_ttl = 7, hb_period = 2, hb_feat = 1, hb_net_idx = 1\<rparr>" and sb = "(sub provisioned_state ! 0)" and app = "(app_keys provisioned_state ! 0)" and node = "(nodes provisioned_state ! 0)" and entry = "(rpl provisioned_state ! 0)" and mdl = "example_model" and data = "[1 :: u8, 2, 3]" and vnd = "False" and ri = "0" and si = "0" and ai = "0" and li = "(0 :: nat)" and ni = "0" and dm = "0" and m0 = "0" and m = "0" and c = "\<lparr>net_transmit = 1, relay = 1, relay_retransmit = 2, beacon = 1, gatt_proxy = 1, frnd = 0, default_ttl = 7\<rparr>" and p = "\<lparr>pub_addr = 0xc001, pub_key = 2, pub_ttl = 5, pub_retransmit = 1, pub_period = 10, pub_period_div = 0, pub_cred = False, pub_count = 0, pub_update = False\<rparr>" and s = "provisioned_state" and t = "factory_state"]
  have h1: "length (dev_key provisioned_state) = 16"
    by (simp add: W)
  have h2: "unat (ivu_duration provisioned_state) < 128"
    by (simp add: W)
  have h3: "unat (seq provisioned_state) < 2 ^ 24"
    by (simp add: W)
  have h4: "unat (rpl_seq (rpl provisioned_state ! 0)) < 2 ^ 24 \<and>
    (case rpl_find (rpl_src (rpl provisioned_state ! 0)) factory_state of Some i \<Rightarrow> Some i
     | None \<Rightarrow> find_first (\<lambda>x. rpl_src x = 0) (rpl factory_state)) = Some 0"
    by (simp add: W)
  have h5: "unat (sub_kr_phase (sub provisioned_state ! 0)) < 128 \<and>
    length (k_net (sub_keys0 (sub provisioned_state ! 0))) = 16 \<and> length (k_net (sub_keys1 (sub provisioned_state ! 0))) = 16 \<and>
    (case bt_mesh_subnet_get (sub_net_idx (sub provisioned_state ! 0)) factory_state of Some i \<Rightarrow> Some i
     | None \<Rightarrow> find_first (\<lambda>b. sub_net_idx b = BT_MESH_KEY_UNUSED) (sub factory_state)) = Some 0"
    by (simp add: W)
  have h6: "length (app_keys0_val (app_keys provisioned_state ! 0)) = 16 \<and> length (app_keys1_val (app_keys provisioned_state ! 0)) = 16 \<and>
    (case bt_mesh_app_key_find (app_app_idx (app_keys provisioned_state ! 0)) factory_state of Some i \<Rightarrow> Some i
     | None \<Rightarrow> bt_mesh_app_key_alloc (app_app_idx (app_keys provisioned_state ! 0)) factory_state) = Some 0"
    by (simp add: W)
  have h7: "bt_mesh_hb_pub_get provisioned_state = Some \<lparr>hb_dst = 6, hb_count = 0xffff, hb_ttl = 7, hb_period = 2, hb_feat = 1, hb_net_idx = 1\<rparr> \<and> hb_dst \<lparr>hb_dst = 6, hb_count = 0xffff, hb_ttl = 7, hb_period = 2, hb_feat = 1, hb_net_idx = 1\<rparr> \<noteq> BT_MESH_ADDR_UNASSIGNED \<and>
    unat (hb_net_idx \<lparr>hb_dst = 6, hb_count = 0xffff, hb_ttl = 7, hb_period = 2, hb_feat = 1, hb_net_idx = 1\<rparr>) < 4096 \<and> bt_mesh_hb_pub_get factory_state = Some \<lparr>hb_dst = 0, hb_count = 0, hb_ttl = 0, hb_period = 0, hb_feat = 0, hb_net_idx = 0\<rparr>"
    by (simp add: W)
  have h8: "bt_mesh_cfg_get provisioned_state = Some \<lparr>net_transmit = 1, relay = 1, relay_retransmit = 2, beacon = 1, gatt_proxy = 1, frnd = 0, default_ttl = 7\<rparr> \<and> bt_mesh_cfg_get factory_state \<noteq> None"
    by (simp add: W)
  have h9: "bt_mesh_model_get False (mod_elem_idx example_model) (mod_mod_idx example_model) factory_state = Some 0 \<and>
    length (mod_keys (models factory_state ! 0)) = length (mod_keys example_model)"
    by (simp add: W)
  have h10: "bt_mesh_model_get False (mod_elem_idx example_model) (mod_mod_idx example_model) factory_state = Some 0 \<and>
    length (mod_groups (models factory_state ! 0)) = length (mod_groups example_model)"
    by (simp add: W)
  have h11: "bt_mesh_model_get False (mod_elem_idx example_model) (mod_mod_idx example_model) factory_state = Some 0 \<and>
    mod_pub example_model = Some \<lparr>pub_addr = 0xc001, pub_key = 2, pub_ttl = 5, pub_retransmit = 1, pub_period = 10, pub_period_div = 0, pub_cred = False, pub_count = 0, pub_update = False\<rparr> \<and> pub_addr \<lparr>pub_addr = 0xc001, pub_key = 2, pub_ttl = 5, pub_retransmit = 1, pub_period = 10, pub_period_div = 0, pub_cred = False, pub_count = 0, pub_update = False\<rparr> \<noteq> BT_MESH_ADDR_UNASSIGNED \<and>
    mod_pub (models factory_state ! 0) = Some \<lparr>pub_addr = 0, pub_key = 0, pub_ttl = 0, pub_retransmit = 0, pub_period = 0, pub_period_div = 0, pub_cred = False, pub_count = 0, pub_update = False\<rparr>"
    by (simp add: W)
  have h12: "bt_mesh_model_get False (mod_elem_idx (models provisioned_state ! 0)) (mod_mod_idx (models provisioned_state ! 0)) factory_state = Some 0 \<and>
    [1 :: u8, 2, 3] \<noteq> [] \<and> length [1 :: u8, 2, 3] < 128"
    by (simp add: W)
  have h13: "lab_changed (labels provisioned_state ! (0 :: nat)) \<and> lab_ref (labels provisioned_state ! (0 :: nat)) \<noteq> 0 \<and>
    length (lab_uuid (labels provisioned_state ! (0 :: nat))) = 16 \<and> (0 :: nat) < length (labels factory_state) \<and> (0 :: nat) < 65536"
    by (simp add: W)
  have h14: "(BT_MESH_PROVISIONER \<in> flags provisioned_state \<or> BT_MESH_NODE \<in> flags provisioned_state)"
    by (simp add: W)
  have h15: "CONFIG_BT_MESH_PROVISIONER example_config \<and> length (node_dev_key (nodes provisioned_state ! 0)) = 16 \<and>
    bt_mesh_node_find (node_addr (nodes provisioned_state ! 0)) factory_state = None \<and>
    find_first (\<lambda>n. node_addr n = BT_MESH_ADDR_UNASSIGNED) (nodes factory_state) = Some 0"
    by (simp add: W)
  show ?thesis
    using T h1 h2 h3 h4 h5 h6 h7 h8 h9 h10 h11 h12 h13 h14 h15
    by blast
qed

text \<open>
  Claim C5 as stated fails for the sequence number: with the store rate 16 the
  stored value 32 is restored as 47. It also fails for the period divisor of a
  publication, which is written and not read back: a divisor of 3 is restored as
  the 0 the model had.
\<close>

theorem codec_round_trip_counterexample:
  "(seq provisioned_state = 32 \<and>
    seq (snd (restore_saved example_config (saved_last (store_pending_seq provisioned_state)) factory_state)) = 47) \<and>
   (map_option pub_period_div
      (mod_pub (example_model\<lparr>mod_pub := Some \<lparr>pub_addr = 0xc001, pub_key = 2, pub_ttl = 5,
          pub_retransmit = 1, pub_period = 10, pub_period_div = 3, pub_cred = False, pub_count = 0,
          pub_update = False\<rparr>\<rparr>)) = Some 3 \<and>
    map_option pub_period_div
      (mod_pub (models (snd (restore_saved example_config
         (saved_last (store_pending_mod_pub example_config
            (example_model\<lparr>mod_pub := Some \<lparr>pub_addr = 0xc001, pub_key = 2, pub_ttl = 5,
               pub_retransmit = 1, pub_period = 10, pub_period_div = 3, pub_cred = False, pub_count = 0,
               pub_update = False\<rparr>\<rparr>) False provisioned_state))
         factory_state)) ! 0)) = Some 0)"
proof -
  have a: "unat (seq provisioned_state) < 2 ^ 24"
    by (simp add: provisioned_state_simps)
  have s47: "seq (snd (restore_saved example_config (saved_last (store_pending_seq provisioned_state)) factory_state)) = 47"
    using seq_round_trip [OF a, of example_config factory_state]
    by (simp add: provisioned_state_simps example_config_simps word_sless_alt)
  define md where "md = example_model\<lparr>mod_pub := Some \<lparr>pub_addr = 0xc001, pub_key = 2, pub_ttl = 5,
          pub_retransmit = 1, pub_period = 10, pub_period_div = 3, pub_cred = False, pub_count = 0,
          pub_update = False\<rparr>\<rparr>"
  have g: "bt_mesh_model_get False (mod_elem_idx md) (mod_mod_idx md) factory_state = Some 0"
    by (simp add: md_def bt_mesh_model_get_def factory_state_simps example_model_def)
  have p: "mod_pub md = Some \<lparr>pub_addr = 0xc001, pub_key = 2, pub_ttl = 5,
          pub_retransmit = 1, pub_period = 10, pub_period_div = 3, pub_cred = False, pub_count = 0,
          pub_update = False\<rparr>"
    by (simp add: md_def)
  have q: "mod_pub (models factory_state ! 0) = Some \<lparr>pub_addr = 0, pub_key = 0, pub_ttl = 0,
      pub_retransmit = 0, pub_period = 0, pub_period_div = 0, pub_cred = False, pub_count = 0,
      pub_update = False\<rparr>"
    by (simp add: factory_state_simps)
  have d: "map_option pub_period_div
      (mod_pub (models (snd (restore_saved example_config
         (saved_last (store_pending_mod_pub example_config md False provisioned_state))
         factory_state)) ! 0)) = Some 0"
    using mod_pub_round_trip [OF g p _ q, of example_config provisioned_state]
    by (simp add: BT_MESH_ADDR_UNASSIGNED_def)
  show ?thesis
    using s47 d p unfolding md_def by (simp add: provisioned_state_simps)
qed

end
